theory Spec2Isabelle
  imports Main "HOL-Library.Word" "HOL-Library.Signed_Division"
begin

unbundle bit_operations_syntax

section \<open>Canonical input event\<close>

type_synonym u8 = "8 word"
type_synonym u16 = "16 word"
type_synonym u32 = "32 word"

text \<open>
  Modelled from the spec: core/buttons.h is not among the sources. The spec describes
  \<open>buttons\<close> as a 32-bit set over the button vocabulary (active-high), one named bit
  per semantic button. The bit positions are not given, so the button word of an event is
  a set of button names: \<open>buttons |= JP_BUTTON_X\<close> is \<open>insert JP_BUTTON_X\<close>,
  \<open>buttons & MASK\<close> is intersection and \<open>buttons & ~MASK\<close> is set difference.
\<close>

datatype jp_button =
    JP_BUTTON_B1 | JP_BUTTON_B2 | JP_BUTTON_B3 | JP_BUTTON_B4
  | JP_BUTTON_L1 | JP_BUTTON_R1 | JP_BUTTON_L2 | JP_BUTTON_R2
  | JP_BUTTON_S1 | JP_BUTTON_S2 | JP_BUTTON_L3 | JP_BUTTON_R3
  | JP_BUTTON_DU | JP_BUTTON_DD | JP_BUTTON_DL | JP_BUTTON_DR
  | JP_BUTTON_A1 | JP_BUTTON_A2 | JP_BUTTON_A3 | JP_BUTTON_A4
  | JP_BUTTON_L4 | JP_BUTTON_R4

text \<open>Index of the \<open>analog[6]\<close> array of an event (core/input_event.h; order from the spec).\<close>

datatype analog_axis =
  ANALOG_LX | ANALOG_LY | ANALOG_RX | ANALOG_RY | ANALOG_L2 | ANALOG_R2

datatype input_type = INPUT_TYPE_NONE | INPUT_TYPE_GAMEPAD

datatype input_transport =
  INPUT_TRANSPORT_NONE | INPUT_TRANSPORT_BT_CLASSIC | INPUT_TRANSPORT_BT_BLE

record input_event =
  dev_addr :: u8
  ev_instance :: u8
  ev_type :: input_type
  transport :: input_transport
  buttons :: "jp_button set"
  button_count :: u8
  analog :: "analog_axis \<Rightarrow> u8"
  has_motion :: bool
  battery_level :: u8
  battery_charging :: bool

text \<open>
  Modelled from the spec: \<open>init_input_event\<close> (core/input_event.h) is not among the
  sources. The spec's constructor yields an event "zeroed with sentinel defaults:
  sticks=128, triggers=0, buttons=0, has_motion=false".
\<close>

definition init_input_event :: input_event where
  "init_input_event =
     \<lparr> dev_addr = 0, ev_instance = 0, ev_type = INPUT_TYPE_NONE,
       transport = INPUT_TRANSPORT_NONE, buttons = {}, button_count = 0,
       analog = (\<lambda>a. if a = ANALOG_L2 \<or> a = ANALOG_R2 then 0 else 128),
       has_motion = False, battery_level = 0, battery_charging = False \<rparr>"

text \<open>\<open>if (c) buttons |= b;\<close> contributes \<open>btn_if c b\<close> to the button set.\<close>

definition btn_if :: "bool \<Rightarrow> jp_button \<Rightarrow> jp_button set" where
  "btn_if c b = (if c then {b} else {})"

text \<open>What a C expression can do besides returning a value.\<close>

datatype c_error = DivisionByZero | SignedOverflow

section \<open>Generic HID gamepad driver (bthid\_gamepad.c)\<close>

record ble_usage_loc =
  byteIndex :: u8
  bitMask :: u16
  loc_max :: u32

record ble_report_map =
  xLoc :: ble_usage_loc
  yLoc :: ble_usage_loc
  zLoc :: ble_usage_loc
  rzLoc :: ble_usage_loc
  rxLoc :: ble_usage_loc
  ryLoc :: ble_usage_loc
  hatLoc :: ble_usage_loc
  buttonLoc :: "ble_usage_loc list"
  buttonCnt :: u8

record bthid_gamepad_data =
  gp_event :: input_event
  gp_initialized :: bool
  has_report_map :: bool
  gp_map :: ble_report_map

definition BLE_MAX_BUTTONS :: nat where
  "BLE_MAX_BUTTONS = 12"

definition HAT_SWITCH_TO_DIRECTION_BUTTONS :: "u8 list" where
  "HAT_SWITCH_TO_DIRECTION_BUTTONS = [0x1, 0x3, 0x2, 0x6, 0x4, 0xC, 0x8, 0x9, 0x0]"

text \<open>
  \<open>scale_analog(uint16_t value, uint32_t max_value)\<close>. \<open>mid\<close> is an \<open>int\<close>; the
  comparison is against \<open>(uint16_t)mid\<close>. The first branch is \<open>int\<close> arithmetic.
  In the second branch \<open>(value - mid) * 127\<close> is an \<open>int\<close> product, which is then
  converted to \<open>unsigned\<close> because the divisor \<open>max_value - mid\<close> is unsigned; the
  sum is truncated to \<open>uint8_t\<close> on return. A zero divisor and an \<open>int\<close> product
  outside 32 bits are undefined in C and are errors of the model.
\<close>

definition scale_analog :: "u16 \<Rightarrow> u32 \<Rightarrow> c_error + u8" where
  "scale_analog v max_value =
     (let mid = uint max_value div 2 in
      if uint v \<le> uint (word_of_int mid :: u16) then
        (if mid = 0 then Inl DivisionByZero
         else Inr (word_of_int (1 + (uint v * 127) sdiv mid)))
      else
        (let prod = (uint v - mid) * 127;
             den = max_value - word_of_int mid in
         if prod < - (2 ^ 31) \<or> 2 ^ 31 \<le> prod then Inl SignedOverflow
         else if den = 0 then Inl DivisionByZero
         else Inr (ucast ((128 :: u32) + (word_of_int prod :: u32) div den))))"

text \<open>\<open>__builtin_ctz\<close> on a nonzero 16-bit mask: the index of its lowest set bit.\<close>

fun ctz_fuel :: "nat \<Rightarrow> nat \<Rightarrow> nat" where
  "ctz_fuel 0 n = 0"
| "ctz_fuel (Suc k) n = (if odd n then 0 else Suc (ctz_fuel k (n div 2)))"

definition builtin_ctz :: "u16 \<Rightarrow> nat" where
  "builtin_ctz m = ctz_fuel 16 (unat m)"

text \<open>\<open>extract_field(data, len, loc)\<close>; \<open>len\<close> is the length of \<open>data\<close>.\<close>

definition extract_field :: "u8 list \<Rightarrow> ble_usage_loc \<Rightarrow> u16" where
  "extract_field data loc =
     (let idx = unat (byteIndex loc) in
      if bitMask loc = 0 \<or> length data \<le> idx then 0
      else if 0xFF < bitMask loc \<and> idx + 1 < length data then
        (let combined = (push_bit 8 (ucast (data ! idx)) OR ucast (data ! (idx + 1)) :: u16)
         in drop_bit (builtin_ctz (bitMask loc)) (combined AND bitMask loc))
      else ucast (data ! idx) AND bitMask loc)"

text \<open>
  The pattern \<open>if (map->xLoc.max) { lx = scale_analog(extract_field(data, len,
  &map->xLoc), map->xLoc.max); }\<close>, with the axis's initial value \<open>dflt\<close>.
\<close>

definition scale_axis_if_max :: "u8 \<Rightarrow> u8 list \<Rightarrow> ble_usage_loc \<Rightarrow> c_error + u8" where
  "scale_axis_if_max dflt data loc =
     (if loc_max loc \<noteq> 0 then scale_analog (extract_field data loc) (loc_max loc)
      else Inr dflt)"

text \<open>Hat switch to D-pad buttons.\<close>

definition hat_buttons :: "ble_report_map \<Rightarrow> u8 list \<Rightarrow> jp_button set" where
  "hat_buttons m data =
     (if bitMask (hatLoc m) \<noteq> 0 \<and> unat (byteIndex (hatLoc m)) < length data then
        (let hatValue = (ucast (ucast (data ! unat (byteIndex (hatLoc m))) AND bitMask (hatLoc m)) :: u8);
             direction = (if hatValue \<le> 8 then hatValue else 8);
             dpad = HAT_SWITCH_TO_DIRECTION_BUTTONS ! unat direction
         in btn_if (dpad AND 0x01 \<noteq> 0) JP_BUTTON_DU \<union> btn_if (dpad AND 0x02 \<noteq> 0) JP_BUTTON_DR
            \<union> btn_if (dpad AND 0x04 \<noteq> 0) JP_BUTTON_DD \<union> btn_if (dpad AND 0x08 \<noteq> 0) JP_BUTTON_DL)
      else {})"

text \<open>The loop collecting the raw button bits into \<open>all_buttons\<close>, from index \<open>i\<close>.\<close>

fun all_buttons_from :: "nat \<Rightarrow> ble_usage_loc list \<Rightarrow> u8 list \<Rightarrow> u16" where
  "all_buttons_from i [] data = 0"
| "all_buttons_from i (loc # locs) data =
     (if bitMask loc \<noteq> 0 \<and> unat (byteIndex loc) < length data
         \<and> (ucast (data ! unat (byteIndex loc)) AND bitMask loc) \<noteq> 0
      then push_bit i 1 else 0) OR all_buttons_from (Suc i) locs data"

text \<open>The DirectInput button mapping of \<open>process_report_dynamic\<close>.\<close>

definition dinput_buttons :: "u16 \<Rightarrow> nat \<Rightarrow> jp_button set" where
  "dinput_buttons ab buttonCount =
     (if 10 \<le> buttonCount then
        btn_if (bit ab 1) JP_BUTTON_B1 \<union> btn_if (bit ab 2) JP_BUTTON_B2
        \<union> btn_if (bit ab 0) JP_BUTTON_B3 \<union> btn_if (bit ab 3) JP_BUTTON_B4
        \<union> btn_if (bit ab 4) JP_BUTTON_L1 \<union> btn_if (bit ab 5) JP_BUTTON_R1
        \<union> btn_if (bit ab 6) JP_BUTTON_L2 \<union> btn_if (bit ab 7) JP_BUTTON_R2
        \<union> btn_if (bit ab 8) JP_BUTTON_S1 \<union> btn_if (bit ab 9) JP_BUTTON_S2
        \<union> btn_if (bit ab 10) JP_BUTTON_L3 \<union> btn_if (bit ab 11) JP_BUTTON_R3
      else
        btn_if (bit ab 0) JP_BUTTON_B1 \<union> btn_if (bit ab 1) JP_BUTTON_B2
        \<union> btn_if (bit ab 2) JP_BUTTON_B3 \<union> btn_if (bit ab 3) JP_BUTTON_B4
        \<union> btn_if (7 \<le> buttonCount \<and> bit ab 4) JP_BUTTON_L1
        \<union> btn_if (8 \<le> buttonCount \<and> bit ab 5) JP_BUTTON_R1
        \<union> btn_if (9 \<le> buttonCount \<and> bit ab 6) JP_BUTTON_L2
        \<union> btn_if (10 \<le> buttonCount \<and> bit ab 7) JP_BUTTON_R2
        \<union> (if 2 \<le> buttonCount then
              btn_if (bit ab (buttonCount - 2)) JP_BUTTON_S1
              \<union> btn_if (bit ab (buttonCount - 1)) JP_BUTTON_S2
            else {}))"

text \<open>
  The part of \<open>process_report_dynamic\<close> after the six axes have been scaled: hat and
  buttons, the clamp of the sticks to [1-255], and the event that is filled in.
\<close>

definition dynamic_event ::
  "bthid_gamepad_data \<Rightarrow> u8 list \<Rightarrow> u8 \<Rightarrow> u8 \<Rightarrow> u8 \<Rightarrow> u8 \<Rightarrow> u8 \<Rightarrow> u8 \<Rightarrow> input_event" where
  "dynamic_event gp data lx ly rx ry l2 r2 =
     (let m = gp_map gp;
          all_buttons = all_buttons_from 0 (take BLE_MAX_BUTTONS (buttonLoc m)) data;
          buttonCount = (if 12 < buttonCnt m then 12 else buttonCnt m);
          btns = hat_buttons m data \<union> dinput_buttons all_buttons (unat buttonCount);
          lx' = (if lx = 0 then 1 else lx);
          ly' = (if ly = 0 then 1 else ly);
          rx' = (if rx = 0 then 1 else rx);
          ry' = (if ry = 0 then 1 else ry)
      in (gp_event gp)\<lparr> buttons := btns, button_count := buttonCount,
            analog := (analog (gp_event gp))
              (ANALOG_LX := lx', ANALOG_LY := ly', ANALOG_RX := rx',
               ANALOG_RY := ry', ANALOG_L2 := l2, ANALOG_R2 := r2) \<rparr>)"

text \<open>
  \<open>process_report_dynamic\<close>: the new driver data and the events passed to
  \<open>router_submit_input\<close>, or the undefined operation the scaling ran into.
\<close>

definition process_report_dynamic ::
  "bthid_gamepad_data \<Rightarrow> u8 list \<Rightarrow> c_error + (bthid_gamepad_data \<times> input_event list)" where
  "process_report_dynamic gp data =
     (let m = gp_map gp in
      case scale_axis_if_max 128 data (xLoc m) of Inl e \<Rightarrow> Inl e | Inr lx \<Rightarrow>
      case scale_axis_if_max 128 data (yLoc m) of Inl e \<Rightarrow> Inl e | Inr ly \<Rightarrow>
      case scale_axis_if_max 128 data (zLoc m) of Inl e \<Rightarrow> Inl e | Inr rx \<Rightarrow>
      case scale_axis_if_max 128 data (rzLoc m) of Inl e \<Rightarrow> Inl e | Inr ry \<Rightarrow>
      case scale_axis_if_max 0 data (rxLoc m) of Inl e \<Rightarrow> Inl e | Inr l2 \<Rightarrow>
      case scale_axis_if_max 0 data (ryLoc m) of Inl e \<Rightarrow> Inl e | Inr r2 \<Rightarrow>
      (let ev = dynamic_event gp data lx ly rx ry l2 r2
       in Inr (gp\<lparr> gp_event := ev \<rparr>, [ev])))"

text \<open>
  The scaling as the spec words it, on unbounded integers: for logical maximum \<open>M\<close>,
  \<open>v' = 1 + (v * 127) / mid\<close> if \<open>v \<le> mid\<close>, else
  \<open>128 + (v - mid) * 127 / (M - mid)\<close>, with \<open>mid = floor (M / 2)\<close>.
\<close>

definition scale_analog_spec :: "int \<Rightarrow> int \<Rightarrow> int" where
  "scale_analog_spec v M =
     (let mid = M div 2 in
      if v \<le> mid then 1 + (v * 127) div mid
      else 128 + ((v - mid) * 127) div (M - mid))"

text \<open>A descriptor map whose X axis is an 8-bit field at byte 0 with logical maximum 1.\<close>

definition no_loc :: ble_usage_loc where
  "no_loc = \<lparr> byteIndex = 0, bitMask = 0, loc_max = 0 \<rparr>"

definition gp_logical_max_1 :: bthid_gamepad_data where
  "gp_logical_max_1 =
     \<lparr> gp_event = init_input_event, gp_initialized = True, has_report_map = True,
       gp_map = \<lparr> xLoc = \<lparr> byteIndex = 0, bitMask = 0xFF, loc_max = 1 \<rparr>,
                  yLoc = no_loc, zLoc = no_loc, rzLoc = no_loc, rxLoc = no_loc,
                  ryLoc = no_loc, hatLoc = no_loc, buttonLoc = replicate 12 no_loc,
                  buttonCnt = 0 \<rparr> \<rparr>"

text \<open>The same map with logical maximum 255 on the X axis.\<close>

definition gp_logical_max_255 :: bthid_gamepad_data where
  "gp_logical_max_255 =
     gp_logical_max_1 \<lparr> gp_map := (gp_map gp_logical_max_1)
       \<lparr> xLoc := \<lparr> byteIndex = 0, bitMask = 0xFF, loc_max = 255 \<rparr> \<rparr> \<rparr>"

section \<open>8BitDo Ultimate driver (bthid\_8bitdo\_ultimate.c)\<close>

definition REPORT_ID_GAMEPAD :: u8 where "REPORT_ID_GAMEPAD = 0x03"
definition OFFSET_HAT :: nat where "OFFSET_HAT = 1"
definition OFFSET_LX :: nat where "OFFSET_LX = 2"
definition OFFSET_LY :: nat where "OFFSET_LY = 3"
definition OFFSET_RX :: nat where "OFFSET_RX = 4"
definition OFFSET_RY :: nat where "OFFSET_RY = 5"
definition OFFSET_LT :: nat where "OFFSET_LT = 6"
definition OFFSET_RT :: nat where "OFFSET_RT = 7"
definition OFFSET_BUTTONS_LO :: nat where "OFFSET_BUTTONS_LO = 8"
definition OFFSET_BUTTONS_HI :: nat where "OFFSET_BUTTONS_HI = 9"
definition OFFSET_BATTERY :: nat where "OFFSET_BATTERY = 10"
definition HAT_MASK :: u8 where "HAT_MASK = 0x0F"

definition HAT_TO_DPAD :: "u8 list" where
  "HAT_TO_DPAD = [0x1, 0x3, 0x2, 0x6, 0x4, 0xC, 0x8, 0x9, 0x0]"

record bitdo_data =
  bd_event :: input_event
  bd_initialized :: bool
  bd_rumble_left :: u8
  bd_rumble_right :: u8

definition scale_axis :: "u8 \<Rightarrow> u8" where
  "scale_axis raw = (if raw = 0 then 1 else raw)"

text \<open>
  \<open>bitdo_process_report\<close> on the driver data that \<open>device->driver_data\<close> points to
  (non-NULL after \<open>bitdo_init\<close>); \<open>len\<close> is the length of \<open>data\<close>. The result is
  the new driver data and the events passed to \<open>router_submit_input\<close>.
\<close>

definition bitdo_process_report :: "bitdo_data \<Rightarrow> u8 list \<Rightarrow> bitdo_data \<times> input_event list" where
  "bitdo_process_report gp data =
     (if length data < 1 \<or> data ! 0 \<noteq> REPORT_ID_GAMEPAD then (gp, [])
      else if length data \<le> OFFSET_BUTTONS_HI then (gp, [])
      else
        (let hat = data ! OFFSET_HAT AND HAT_MASK;
             dpad = (if hat \<le> 8 then HAT_TO_DPAD ! unat hat else 0);
             lo = data ! OFFSET_BUTTONS_LO;
             hi = data ! OFFSET_BUTTONS_HI;
             btns =
               btn_if (dpad AND 0x01 \<noteq> 0) JP_BUTTON_DU \<union> btn_if (dpad AND 0x02 \<noteq> 0) JP_BUTTON_DR
               \<union> btn_if (dpad AND 0x04 \<noteq> 0) JP_BUTTON_DD \<union> btn_if (dpad AND 0x08 \<noteq> 0) JP_BUTTON_DL
               \<union> btn_if (lo AND 0x01 \<noteq> 0) JP_BUTTON_B1 \<union> btn_if (lo AND 0x02 \<noteq> 0) JP_BUTTON_B2
               \<union> btn_if (lo AND 0x04 \<noteq> 0) JP_BUTTON_B3 \<union> btn_if (lo AND 0x08 \<noteq> 0) JP_BUTTON_B4
               \<union> btn_if (lo AND 0x10 \<noteq> 0) JP_BUTTON_L1 \<union> btn_if (lo AND 0x20 \<noteq> 0) JP_BUTTON_R1
               \<union> btn_if (lo AND 0x40 \<noteq> 0) JP_BUTTON_L2 \<union> btn_if (lo AND 0x80 \<noteq> 0) JP_BUTTON_R2
               \<union> btn_if (hi AND 0x01 \<noteq> 0) JP_BUTTON_S1 \<union> btn_if (hi AND 0x02 \<noteq> 0) JP_BUTTON_S2
               \<union> btn_if (hi AND 0x04 \<noteq> 0) JP_BUTTON_L3 \<union> btn_if (hi AND 0x08 \<noteq> 0) JP_BUTTON_R3
               \<union> btn_if (hi AND 0x10 \<noteq> 0) JP_BUTTON_A1 \<union> btn_if (hi AND 0x20 \<noteq> 0) JP_BUTTON_A2
               \<union> btn_if (hi AND 0x40 \<noteq> 0) JP_BUTTON_A3 \<union> btn_if (hi AND 0x80 \<noteq> 0) JP_BUTTON_A4;
             ev = (bd_event gp)\<lparr>
                    analog := (analog (bd_event gp))
                      (ANALOG_LX := scale_axis (data ! OFFSET_LX),
                       ANALOG_LY := scale_axis (data ! OFFSET_LY),
                       ANALOG_RX := scale_axis (data ! OFFSET_RX),
                       ANALOG_RY := scale_axis (data ! OFFSET_RY),
                       ANALOG_L2 := data ! OFFSET_RT,
                       ANALOG_R2 := data ! OFFSET_LT),
                    buttons := btns, button_count := 16 \<rparr>
         in (gp\<lparr> bd_event := ev \<rparr>, [ev])))"

text \<open>The driver data right after \<open>bitdo_init\<close> on connection index \<open>conn\<close>.\<close>

definition bitdo_init :: "u8 \<Rightarrow> bitdo_data" where
  "bitdo_init conn =
     \<lparr> bd_event = init_input_event\<lparr> ev_type := INPUT_TYPE_GAMEPAD,
                     transport := INPUT_TRANSPORT_BT_BLE, dev_addr := conn, ev_instance := 0 \<rparr>,
       bd_initialized = True, bd_rumble_left = 0, bd_rumble_right = 0 \<rparr>"

text \<open>The report of the spec's scenario "bare BLE 8BitDo press A".\<close>

definition bitdo_report_press_a :: "u8 list" where
  "bitdo_report_press_a = [0x03, 0x08, 0x80, 0x80, 0x80, 0x80, 0x00, 0x00, 0x01, 0x00, 0x50]"

section \<open>Nintendo Switch 2 BLE driver (switch2\_ble.c)\<close>

definition SW2_GC_PID :: u16 where "SW2_GC_PID = 0x2073"

definition SW2_Y :: nat where "SW2_Y = 0"
definition SW2_X :: nat where "SW2_X = 1"
definition SW2_B :: nat where "SW2_B = 2"
definition SW2_A :: nat where "SW2_A = 3"
definition SW2_R :: nat where "SW2_R = 6"
definition SW2_ZR :: nat where "SW2_ZR = 7"
definition SW2_MINUS :: nat where "SW2_MINUS = 8"
definition SW2_PLUS :: nat where "SW2_PLUS = 9"
definition SW2_RJ :: nat where "SW2_RJ = 10"
definition SW2_LJ :: nat where "SW2_LJ = 11"
definition SW2_HOME :: nat where "SW2_HOME = 12"
definition SW2_CAPTURE :: nat where "SW2_CAPTURE = 13"
definition SW2_C :: nat where "SW2_C = 14"
definition SW2_GR :: nat where "SW2_GR = 24"
definition SW2_GL :: nat where "SW2_GL = 25"
definition SW2_DOWN :: nat where "SW2_DOWN = 16"
definition SW2_UP :: nat where "SW2_UP = 17"
definition SW2_RIGHT :: nat where "SW2_RIGHT = 18"
definition SW2_LEFT :: nat where "SW2_LEFT = 19"
definition SW2_L :: nat where "SW2_L = 22"
definition SW2_ZL :: nat where "SW2_ZL = 23"

definition SW2_PRO_AXIS_RANGE :: u16 where "SW2_PRO_AXIS_RANGE = 1610"
definition SW2_GC_AXIS_RANGE :: u16 where "SW2_GC_AXIS_RANGE = 1225"
definition SW2_GC_CSTICK_RANGE :: u16 where "SW2_GC_CSTICK_RANGE = 1120"

definition CAL_SAMPLES_NEEDED :: u8 where "CAL_SAMPLES_NEEDED = 4"

record switch2_ble_data =
  sw2_event :: input_event
  sw2_initialized :: bool
  sw2_pid :: u16
  cal_lx_center :: u16
  cal_ly_center :: u16
  cal_rx_center :: u16
  cal_ry_center :: u16
  cal_samples :: u8

text \<open>
  \<open>scale_analog_calibrated(val, center, range)\<close> in \<open>int32_t\<close> arithmetic; C's
  division truncates towards zero (\<open>sdiv\<close>). Every call passes one of the three nonzero
  range constants.
\<close>

definition scale_analog_calibrated :: "u16 \<Rightarrow> u16 \<Rightarrow> u16 \<Rightarrow> u8" where
  "scale_analog_calibrated val center range' =
     (let centered = uint val - uint center;
          scaled = (centered * 127) sdiv uint range';
          scaled1 = (if scaled < - 128 then - 128 else scaled);
          scaled2 = (if 127 < scaled1 then 127 else scaled1)
      in word_of_int (scaled2 + 128))"

text \<open>The four packed 12-bit axes at offset 10 of a report.\<close>

definition sw2_raw_lx :: "u8 list \<Rightarrow> u16" where
  "sw2_raw_lx report = ucast (report ! 10) OR push_bit 8 (ucast (report ! 11 AND 0x0F))"

definition sw2_raw_ly :: "u8 list \<Rightarrow> u16" where
  "sw2_raw_ly report = ucast (drop_bit 4 (report ! 11)) OR push_bit 4 (ucast (report ! 12))"

definition sw2_raw_rx :: "u8 list \<Rightarrow> u16" where
  "sw2_raw_rx report = ucast (report ! 13) OR push_bit 8 (ucast (report ! 14 AND 0x0F))"

definition sw2_raw_ry :: "u8 list \<Rightarrow> u16" where
  "sw2_raw_ry report = ucast (drop_bit 4 (report ! 14)) OR push_bit 4 (ucast (report ! 15))"

text \<open>The little-endian 32-bit button field at offset 4.\<close>

definition sw2_raw_buttons :: "u8 list \<Rightarrow> u32" where
  "sw2_raw_buttons report =
     ucast (report ! 4) OR push_bit 8 (ucast (report ! 5))
     OR push_bit 16 (ucast (report ! 6)) OR push_bit 24 (ucast (report ! 7))"

text \<open>\<open>(a + b) / 2\<close> on two \<open>uint16_t\<close>, computed in \<open>int\<close> and stored as \<open>uint16_t\<close>.\<close>

definition avg_u16 :: "u16 \<Rightarrow> u16 \<Rightarrow> u16" where
  "avg_u16 a b = word_of_int ((uint a + uint b) div 2)"

text \<open>The button mapping of \<open>switch2_ble_process_report\<close>.\<close>

definition sw2_map_buttons :: "u16 \<Rightarrow> u32 \<Rightarrow> jp_button set" where
  "sw2_map_buttons pid b =
     btn_if (bit b SW2_B) JP_BUTTON_B1 \<union> btn_if (bit b SW2_A) JP_BUTTON_B2
     \<union> btn_if (bit b SW2_Y) JP_BUTTON_B3 \<union> btn_if (bit b SW2_X) JP_BUTTON_B4
     \<union> (if pid = SW2_GC_PID then
           btn_if (bit b SW2_L) JP_BUTTON_L2 \<union> btn_if (bit b SW2_R) JP_BUTTON_R2
           \<union> btn_if (bit b SW2_ZL) JP_BUTTON_L1 \<union> btn_if (bit b SW2_ZR) JP_BUTTON_R1
         else
           btn_if (bit b SW2_L) JP_BUTTON_L1 \<union> btn_if (bit b SW2_R) JP_BUTTON_R1
           \<union> btn_if (bit b SW2_ZL) JP_BUTTON_L2 \<union> btn_if (bit b SW2_ZR) JP_BUTTON_R2)
     \<union> btn_if (bit b SW2_MINUS) JP_BUTTON_S1 \<union> btn_if (bit b SW2_PLUS) JP_BUTTON_S2
     \<union> btn_if (bit b SW2_LJ) JP_BUTTON_L3 \<union> btn_if (bit b SW2_RJ) JP_BUTTON_R3
     \<union> btn_if (bit b SW2_UP) JP_BUTTON_DU \<union> btn_if (bit b SW2_DOWN) JP_BUTTON_DD
     \<union> btn_if (bit b SW2_LEFT) JP_BUTTON_DL \<union> btn_if (bit b SW2_RIGHT) JP_BUTTON_DR
     \<union> btn_if (bit b SW2_HOME) JP_BUTTON_A1 \<union> btn_if (bit b SW2_CAPTURE) JP_BUTTON_A2
     \<union> btn_if (bit b SW2_C) JP_BUTTON_A3
     \<union> btn_if (bit b SW2_GL) JP_BUTTON_L4 \<union> btn_if (bit b SW2_GR) JP_BUTTON_R4"

text \<open>
  The report selected at the top of \<open>switch2_ble_process_report\<close>: without the 0xA1
  header when there is one, \<open>None\<close> when the data is too short.
\<close>

definition sw2_select_report :: "u8 list \<Rightarrow> u8 list option" where
  "sw2_select_report data =
     (if 64 \<le> length data \<and> data ! 0 = 0xA1 then Some (drop 1 data)
      else if 63 \<le> length data then Some data
      else None)"

text \<open>
  \<open>switch2_ble_process_report\<close>: the new driver data and the events passed to
  \<open>router_submit_input\<close>. The debug counters only feed \<open>printf\<close> and are left out.
\<close>

definition switch2_ble_process_report ::
  "switch2_ble_data \<Rightarrow> u8 list \<Rightarrow> switch2_ble_data \<times> input_event list" where
  "switch2_ble_process_report sw2 data =
     (case sw2_select_report data of
        None \<Rightarrow> (sw2, [])
      | Some report \<Rightarrow>
        if length report < 16 then (sw2, [])
        else
          (let sw2_buttons = sw2_raw_buttons report;
               raw_lx = sw2_raw_lx report;
               raw_ly = sw2_raw_ly report;
               raw_rx = sw2_raw_rx report;
               raw_ry = sw2_raw_ry report
           in if cal_samples sw2 < CAL_SAMPLES_NEEDED then
                (if cal_samples sw2 = 0 then
                   sw2\<lparr> cal_lx_center := raw_lx, cal_ly_center := raw_ly,
                        cal_rx_center := raw_rx, cal_ry_center := raw_ry,
                        cal_samples := cal_samples sw2 + 1 \<rparr>
                 else
                   sw2\<lparr> cal_lx_center := avg_u16 (cal_lx_center sw2) raw_lx,
                        cal_ly_center := avg_u16 (cal_ly_center sw2) raw_ly,
                        cal_rx_center := avg_u16 (cal_rx_center sw2) raw_rx,
                        cal_ry_center := avg_u16 (cal_ry_center sw2) raw_ry,
                        cal_samples := cal_samples sw2 + 1 \<rparr>, [])
              else
                (let is_gc = (sw2_pid sw2 = SW2_GC_PID);
                     left_range = (if is_gc then SW2_GC_AXIS_RANGE else SW2_PRO_AXIS_RANGE);
                     right_range = (if is_gc then SW2_GC_CSTICK_RANGE else SW2_PRO_AXIS_RANGE);
                     lx = scale_analog_calibrated raw_lx (cal_lx_center sw2) left_range;
                     ly = 255 - scale_analog_calibrated raw_ly (cal_ly_center sw2) left_range;
                     rx = scale_analog_calibrated raw_rx (cal_rx_center sw2) right_range;
                     ry = 255 - scale_analog_calibrated raw_ry (cal_ry_center sw2) right_range;
                     lt = (if 62 \<le> length report then report ! 60 else 0);
                     rt = (if 62 \<le> length report then report ! 61 else 0);
                     ev = (sw2_event sw2)\<lparr>
                            buttons := sw2_map_buttons (sw2_pid sw2) sw2_buttons,
                            analog := (analog (sw2_event sw2))
                              (ANALOG_LX := lx, ANALOG_LY := ly, ANALOG_RX := rx,
                               ANALOG_RY := ry, ANALOG_L2 := lt, ANALOG_R2 := rt) \<rparr>
                 in (sw2\<lparr> sw2_event := ev \<rparr>, [ev]))))"

text \<open>The driver data right after \<open>switch2_ble_init\<close> for product \<open>pid\<close>.\<close>

definition switch2_ble_init :: "u8 \<Rightarrow> u16 \<Rightarrow> switch2_ble_data" where
  "switch2_ble_init conn pid =
     \<lparr> sw2_event = init_input_event\<lparr> ev_type := INPUT_TYPE_GAMEPAD,
                      transport := INPUT_TRANSPORT_BT_BLE, dev_addr := conn,
                      ev_instance := 0, button_count := 14 \<rparr>,
       sw2_initialized = True, sw2_pid = pid,
       cal_lx_center = 0, cal_ly_center = 0, cal_rx_center = 0, cal_ry_center = 0,
       cal_samples = 0 \<rparr>"

text \<open>Feeding a sequence of reports to the driver, collecting the submitted events.\<close>

fun switch2_run :: "switch2_ble_data \<Rightarrow> u8 list list \<Rightarrow> switch2_ble_data \<times> input_event list" where
  "switch2_run sw2 [] = (sw2, [])"
| "switch2_run sw2 (d # ds) =
     (let (sw2', evs) = switch2_ble_process_report sw2 d;
          (sw2'', evs') = switch2_run sw2' ds
      in (sw2'', evs @ evs'))"

text \<open>
  A 63-byte raw report with no button pressed whose packed axes are the low 12 bits of
  \<open>lx\<close>, \<open>ly\<close>, \<open>rx\<close> and \<open>ry\<close>.
\<close>

definition sw2_report_of_axes :: "u16 \<Rightarrow> u16 \<Rightarrow> u16 \<Rightarrow> u16 \<Rightarrow> u8 list" where
  "sw2_report_of_axes lx ly rx ry =
     replicate 10 0
     @ [ucast lx, (ucast (drop_bit 8 lx) AND 0x0F) OR push_bit 4 (ucast ly), ucast (drop_bit 4 ly),
        ucast rx, (ucast (drop_bit 8 rx) AND 0x0F) OR push_bit 4 (ucast ry), ucast (drop_bit 4 ry)]
     @ replicate 47 0"

text \<open>A valid input report is one that \<open>switch2_ble_process_report\<close> does not drop.\<close>

definition sw2_valid :: "u8 list \<Rightarrow> bool" where
  "sw2_valid data = (sw2_select_report data \<noteq> None)"

text \<open>The report bytes of a valid input report.\<close>

definition sw2_report :: "u8 list \<Rightarrow> u8 list" where
  "sw2_report data = (case sw2_select_report data of Some r \<Rightarrow> r | None \<Rightarrow> [])"

text \<open>What the calibration branch leaves in a center after four samples.\<close>

definition sw2_running_center :: "u16 \<Rightarrow> u16 \<Rightarrow> u16 \<Rightarrow> u16 \<Rightarrow> u16" where
  "sw2_running_center a b c d = avg_u16 (avg_u16 (avg_u16 a b) c) d"

text \<open>The average of four samples in the usual sense, the arithmetic mean.\<close>

definition sw2_mean_center :: "u16 \<Rightarrow> u16 \<Rightarrow> u16 \<Rightarrow> u16 \<Rightarrow> u16" where
  "sw2_mean_center a b c d = word_of_int ((uint a + uint b + uint c + uint d) div 4)"

text \<open>The stick ranges chosen by product id.\<close>

definition sw2_left_range :: "u16 \<Rightarrow> u16" where
  "sw2_left_range pid = (if pid = SW2_GC_PID then SW2_GC_AXIS_RANGE else SW2_PRO_AXIS_RANGE)"

definition sw2_right_range :: "u16 \<Rightarrow> u16" where
  "sw2_right_range pid = (if pid = SW2_GC_PID then SW2_GC_CSTICK_RANGE else SW2_PRO_AXIS_RANGE)"

section \<open>Actions of the Bluetooth drivers\<close>

text \<open>
  What a driver call does to the outside, in order: a packet handed to
  \<open>btstack_wiimote_send_raw\<close> or \<open>btstack_wiimote_send_control\<close>, an event passed to
  \<open>router_submit_input\<close>, \<open>feedback_clear_dirty\<close> for a player index, and
  \<open>flash_save\<close> of a new orientation mode. The orientation modes
  \<open>WII_ORIENT_MODE_*\<close> are declared in wiimote\_bt.h, which is not among the sources; the
  spec names the three of them (auto, forced-horizontal, forced-vertical).
\<close>

datatype wii_orient_mode =
  WII_ORIENT_MODE_AUTO | WII_ORIENT_MODE_HORIZONTAL | WII_ORIENT_MODE_VERTICAL

datatype bt_action =
    SendRaw "u8 list"
  | SendControl "u8 list"
  | SubmitInput input_event
  | FeedbackClearDirty int
  | FlashSave wii_orient_mode

text \<open>
  What a \<open>task\<close> call reads from its collaborators: the clock (\<open>platform_time_us\<close>),
  \<open>btstack_wiimote_can_send\<close> (its answer may depend on what this call has sent so
  far), \<open>find_player_index\<close>, the player's feedback state and the \<open>PLAYER_LEDS\<close> table.
\<close>

record task_env =
  now_us :: u32
  can_send :: "bt_action list \<Rightarrow> bool"
  player_idx :: int
  fb_rumble_dirty :: bool
  fb_rumble_left :: u8
  fb_rumble_right :: u8
  fb_led_pattern :: u8
  fb_led_dirty :: bool
  PLAYER_LEDS :: "nat \<Rightarrow> u8"

section \<open>Wii U Pro controller driver (wii\_u\_pro\_bt.c)\<close>

definition WII_U_INIT_DELAY_MS :: u32 where "WII_U_INIT_DELAY_MS = 100"
definition WII_U_INIT_MAX_RETRIES :: u8 where "WII_U_INIT_MAX_RETRIES = 5"
definition WII_U_KEEPALIVE_MS :: int where "WII_U_KEEPALIVE_MS = 30000"

definition WIIU_BTN_R :: u32 where "WIIU_BTN_R = 0x00002"
definition WIIU_BTN_PLUS :: u32 where "WIIU_BTN_PLUS = 0x00004"
definition WIIU_BTN_HOME :: u32 where "WIIU_BTN_HOME = 0x00008"
definition WIIU_BTN_MINUS :: u32 where "WIIU_BTN_MINUS = 0x00010"
definition WIIU_BTN_L :: u32 where "WIIU_BTN_L = 0x00020"
definition WIIU_BTN_DOWN :: u32 where "WIIU_BTN_DOWN = 0x00040"
definition WIIU_BTN_RIGHT :: u32 where "WIIU_BTN_RIGHT = 0x00080"
definition WIIU_BTN_UP :: u32 where "WIIU_BTN_UP = 0x00100"
definition WIIU_BTN_LEFT :: u32 where "WIIU_BTN_LEFT = 0x00200"
definition WIIU_BTN_ZR :: u32 where "WIIU_BTN_ZR = 0x00400"
definition WIIU_BTN_X :: u32 where "WIIU_BTN_X = 0x00800"
definition WIIU_BTN_A :: u32 where "WIIU_BTN_A = 0x01000"
definition WIIU_BTN_Y :: u32 where "WIIU_BTN_Y = 0x02000"
definition WIIU_BTN_B :: u32 where "WIIU_BTN_B = 0x04000"
definition WIIU_BTN_ZL :: u32 where "WIIU_BTN_ZL = 0x08000"
definition WIIU_BTN_R3 :: u32 where "WIIU_BTN_R3 = 0x10000"
definition WIIU_BTN_L3 :: u32 where "WIIU_BTN_L3 = 0x20000"

definition WIIU_STICK_CENTER :: int where "WIIU_STICK_CENTER = 2048"
definition WIIU_STICK_RANGE :: int where "WIIU_STICK_RANGE = 1200"

definition WIIU_REPORT_STATUS :: u8 where "WIIU_REPORT_STATUS = 0x20"
definition WIIU_REPORT_READ_DATA :: u8 where "WIIU_REPORT_READ_DATA = 0x21"
definition WIIU_REPORT_ACK :: u8 where "WIIU_REPORT_ACK = 0x22"
definition WIIU_REPORT_EXT_19 :: u8 where "WIIU_REPORT_EXT_19 = 0x34"
definition WIIU_REPORT_EXT_16 :: u8 where "WIIU_REPORT_EXT_16 = 0x35"
definition WIIU_REPORT_EXT_21 :: u8 where "WIIU_REPORT_EXT_21 = 0x3D"

definition WIIU_CMD_LED :: u8 where "WIIU_CMD_LED = 0x11"
definition WIIU_CMD_REPORT_MODE :: u8 where "WIIU_CMD_REPORT_MODE = 0x12"
definition WIIU_CMD_STATUS_REQ :: u8 where "WIIU_CMD_STATUS_REQ = 0x15"
definition WIIU_CMD_WRITE_DATA :: u8 where "WIIU_CMD_WRITE_DATA = 0x16"
definition WIIU_CMD_READ_DATA :: u8 where "WIIU_CMD_READ_DATA = 0x17"

datatype wii_u_state_t =
    WII_U_STATE_IDLE
  | WII_U_STATE_WAIT_INIT
  | WII_U_STATE_SEND_STATUS_REQ
  | WII_U_STATE_WAIT_STATUS
  | WII_U_STATE_SEND_EXT_INIT1
  | WII_U_STATE_WAIT_EXT_INIT1_ACK
  | WII_U_STATE_SEND_EXT_INIT2
  | WII_U_STATE_WAIT_EXT_INIT2_ACK
  | WII_U_STATE_READ_EXT_TYPE
  | WII_U_STATE_WAIT_EXT_TYPE
  | WII_U_STATE_SEND_REPORT_MODE
  | WII_U_STATE_WAIT_REPORT_ACK
  | WII_U_STATE_SEND_LED
  | WII_U_STATE_WAIT_LED_ACK
  | WII_U_STATE_READY

text \<open>The enumerators' values, for the comparison \<open>state < WII_U_STATE_WAIT_LED_ACK\<close>.\<close>

fun wii_u_state_value :: "wii_u_state_t \<Rightarrow> nat" where
  "wii_u_state_value WII_U_STATE_IDLE = 0"
| "wii_u_state_value WII_U_STATE_WAIT_INIT = 1"
| "wii_u_state_value WII_U_STATE_SEND_STATUS_REQ = 2"
| "wii_u_state_value WII_U_STATE_WAIT_STATUS = 3"
| "wii_u_state_value WII_U_STATE_SEND_EXT_INIT1 = 4"
| "wii_u_state_value WII_U_STATE_WAIT_EXT_INIT1_ACK = 5"
| "wii_u_state_value WII_U_STATE_SEND_EXT_INIT2 = 6"
| "wii_u_state_value WII_U_STATE_WAIT_EXT_INIT2_ACK = 7"
| "wii_u_state_value WII_U_STATE_READ_EXT_TYPE = 8"
| "wii_u_state_value WII_U_STATE_WAIT_EXT_TYPE = 9"
| "wii_u_state_value WII_U_STATE_SEND_REPORT_MODE = 10"
| "wii_u_state_value WII_U_STATE_WAIT_REPORT_ACK = 11"
| "wii_u_state_value WII_U_STATE_SEND_LED = 12"
| "wii_u_state_value WII_U_STATE_WAIT_LED_ACK = 13"
| "wii_u_state_value WII_U_STATE_READY = 14"

record wii_u_pro_data =
  wu_event :: input_event
  wu_initialized :: bool
  wu_player_led :: u8
  wu_rumble_on :: bool
  wu_state :: wii_u_state_t
  wu_init_time :: u32
  wu_init_retries :: u8
  wu_last_keepalive :: u32
  wu_last_report :: u32

definition scale_stick :: "u16 \<Rightarrow> u8" where
  "scale_stick val =
     (let v1 = (if uint val < WIIU_STICK_CENTER - WIIU_STICK_RANGE
                then WIIU_STICK_CENTER - WIIU_STICK_RANGE else uint val);
          v2 = (if WIIU_STICK_CENTER + WIIU_STICK_RANGE < v1
                then WIIU_STICK_CENTER + WIIU_STICK_RANGE else v1);
          centered = v2 - WIIU_STICK_CENTER;
          scaled = (centered * 127) sdiv WIIU_STICK_RANGE + 128;
          scaled1 = (if scaled < 1 then 1 else scaled);
          scaled2 = (if 255 < scaled1 then 255 else scaled1)
      in word_of_int scaled2)"

definition wii_u_set_leds_raw :: "u8 \<Rightarrow> bt_action" where
  "wii_u_set_leds_raw led_pattern = SendRaw [0xA2, 0x11, led_pattern]"

definition wii_u_set_leds :: "u8 \<Rightarrow> bt_action" where
  "wii_u_set_leds player =
     wii_u_set_leds_raw (if 1 \<le> player \<and> player \<le> 4 then push_bit (unat player + 3) 1 else 0)"

definition wii_u_set_rumble :: "bool \<Rightarrow> bt_action" where
  "wii_u_set_rumble on = SendRaw [0xA2, 0x10, if on then 0x01 else 0x00]"

definition wii_u_request_status :: bt_action where
  "wii_u_request_status = SendRaw [0xA2, WIIU_CMD_STATUS_REQ, 0x00]"

definition wii_u_read_data :: "u32 \<Rightarrow> u16 \<Rightarrow> bt_action" where
  "wii_u_read_data address size' =
     SendRaw [0xA2, WIIU_CMD_READ_DATA, 0x04,
              ucast (drop_bit 16 address AND 0xFF), ucast (drop_bit 8 address AND 0xFF),
              ucast (address AND 0xFF),
              ucast (drop_bit 8 size' AND 0xFF), ucast (size' AND 0xFF)]"

definition wii_u_write_data :: "u32 \<Rightarrow> u8 \<Rightarrow> bt_action" where
  "wii_u_write_data address data =
     SendRaw ([0xA2, WIIU_CMD_WRITE_DATA, 0x04,
               ucast (drop_bit 16 address AND 0xFF), ucast (drop_bit 8 address AND 0xFF),
               ucast (address AND 0xFF), 0x01, data] @ replicate 15 0)"

definition wii_u_set_report_mode :: bt_action where
  "wii_u_set_report_mode = SendRaw [0xA2, 0x12, 0x04, 0x3d]"

text \<open>
  The decoding of the extension bytes \<open>ext[0..10]\<close> into the cached event, which the
  three data-report branches of \<open>wii_u_process_report\<close> repeat word for word.
\<close>

definition wii_u_map_buttons :: "u32 \<Rightarrow> jp_button set" where
  "wii_u_map_buttons p =
     btn_if (p AND WIIU_BTN_B \<noteq> 0) JP_BUTTON_B1 \<union> btn_if (p AND WIIU_BTN_A \<noteq> 0) JP_BUTTON_B2
     \<union> btn_if (p AND WIIU_BTN_Y \<noteq> 0) JP_BUTTON_B3 \<union> btn_if (p AND WIIU_BTN_X \<noteq> 0) JP_BUTTON_B4
     \<union> btn_if (p AND WIIU_BTN_L \<noteq> 0) JP_BUTTON_L1 \<union> btn_if (p AND WIIU_BTN_R \<noteq> 0) JP_BUTTON_R1
     \<union> btn_if (p AND WIIU_BTN_ZL \<noteq> 0) JP_BUTTON_L2 \<union> btn_if (p AND WIIU_BTN_ZR \<noteq> 0) JP_BUTTON_R2
     \<union> btn_if (p AND WIIU_BTN_MINUS \<noteq> 0) JP_BUTTON_S1 \<union> btn_if (p AND WIIU_BTN_PLUS \<noteq> 0) JP_BUTTON_S2
     \<union> btn_if (p AND WIIU_BTN_L3 \<noteq> 0) JP_BUTTON_L3 \<union> btn_if (p AND WIIU_BTN_R3 \<noteq> 0) JP_BUTTON_R3
     \<union> btn_if (p AND WIIU_BTN_HOME \<noteq> 0) JP_BUTTON_A1
     \<union> btn_if (p AND WIIU_BTN_UP \<noteq> 0) JP_BUTTON_DU \<union> btn_if (p AND WIIU_BTN_DOWN \<noteq> 0) JP_BUTTON_DD
     \<union> btn_if (p AND WIIU_BTN_LEFT \<noteq> 0) JP_BUTTON_DL \<union> btn_if (p AND WIIU_BTN_RIGHT \<noteq> 0) JP_BUTTON_DR"

definition le16 :: "u8 \<Rightarrow> u8 \<Rightarrow> u16" where
  "le16 lo hi = ucast lo OR push_bit 8 (ucast hi)"

definition wii_u_decode_ext :: "input_event \<Rightarrow> u8 list \<Rightarrow> input_event" where
  "wii_u_decode_ext ev ext =
     (let lx = le16 (ext ! 0) (ext ! 1);
          rx = le16 (ext ! 2) (ext ! 3);
          ly = le16 (ext ! 4) (ext ! 5);
          ry = le16 (ext ! 6) (ext ! 7);
          raw_buttons = (ucast (ext ! 8 AND 0xFE) OR push_bit 8 (ucast (ext ! 9))
                         OR push_bit 16 (ucast (ext ! 10 AND 0x03)) :: u32);
          buttons_pressed = NOT raw_buttons;
          battery_raw = drop_bit 4 (ext ! 10) AND 0x07
      in ev\<lparr> buttons := wii_u_map_buttons buttons_pressed,
              analog := (analog ev)
                (ANALOG_LX := scale_stick lx, ANALOG_LY := 255 - scale_stick ly,
                 ANALOG_RX := scale_stick rx, ANALOG_RY := 255 - scale_stick ry),
              battery_level := (if 4 \<le> battery_raw then 100 else battery_raw * 25),
              battery_charging := (ext ! 10 AND 0x04 = 0) \<rparr>)"

text \<open>
  The state change on the first data report (\<open>last_report == 0\<close>) of the 0x3D and 0x35
  branches.
\<close>

definition wii_u_first_report_state :: "wii_u_pro_data \<Rightarrow> wii_u_state_t" where
  "wii_u_first_report_state wii =
     (if wu_last_report wii = 0 then
        (if wii_u_state_value (wu_state wii) < wii_u_state_value WII_U_STATE_WAIT_LED_ACK
         then WII_U_STATE_SEND_LED
         else if wu_state wii = WII_U_STATE_WAIT_LED_ACK then WII_U_STATE_READY
         else wu_state wii)
      else wu_state wii)"

text \<open>
  \<open>wii_u_process_report\<close> at time \<open>now\<close> (\<open>platform_time_us\<close>): the new driver data and
  the actions, in order.
\<close>

definition wii_u_process_report ::
  "wii_u_pro_data \<Rightarrow> u32 \<Rightarrow> u8 list \<Rightarrow> wii_u_pro_data \<times> bt_action list" where
  "wii_u_process_report wii now data =
     (if length data < 1 then (wii, [])
      else
        (let report_id = data ! 0 in
         if report_id = WIIU_REPORT_EXT_21 \<and> 22 \<le> length data then
           (let ev = wii_u_decode_ext (wu_event wii) (drop 1 data)
            in (wii\<lparr> wu_state := wii_u_first_report_state wii, wu_last_report := now,
                     wu_event := ev \<rparr>, [SubmitInput ev]))
         else if report_id = WIIU_REPORT_EXT_16 \<and> 22 \<le> length data then
           (let ev = wii_u_decode_ext (wu_event wii) (drop 6 data)
            in (wii\<lparr> wu_state := wii_u_first_report_state wii, wu_last_report := now,
                     wu_event := ev \<rparr>, [SubmitInput ev]))
         else if report_id = WIIU_REPORT_EXT_19 \<and> 22 \<le> length data then
           (let ev = wii_u_decode_ext (wu_event wii) (drop 3 data)
            in (wii\<lparr> wu_state := WII_U_STATE_READY, wu_event := ev \<rparr>, [SubmitInput ev]))
         else if report_id = WIIU_REPORT_STATUS \<and> 7 \<le> length data then
           (let flags = data ! 3;
                extension_connected = (flags AND 0x02 \<noteq> 0)
            in if wu_state wii = WII_U_STATE_WAIT_STATUS then
                 (wii\<lparr> wu_state := (if extension_connected then WII_U_STATE_SEND_EXT_INIT1
                                      else WII_U_STATE_SEND_LED) \<rparr>, [])
               else (wii, []))
         else if report_id = WIIU_REPORT_ACK \<and> 5 \<le> length data then
           (let acked_report = data ! 3;
                error_code = data ! 4
            in if error_code = 0 then
                 (if wu_state wii = WII_U_STATE_WAIT_EXT_INIT1_ACK \<and> acked_report = WIIU_CMD_WRITE_DATA
                  then (wii\<lparr> wu_state := WII_U_STATE_SEND_EXT_INIT2 \<rparr>, [])
                  else if wu_state wii = WII_U_STATE_WAIT_EXT_INIT2_ACK \<and> acked_report = WIIU_CMD_WRITE_DATA
                  then (wii\<lparr> wu_state := WII_U_STATE_READ_EXT_TYPE \<rparr>, [])
                  else if wu_state wii = WII_U_STATE_WAIT_REPORT_ACK \<and> acked_report = WIIU_CMD_REPORT_MODE
                  then (wii\<lparr> wu_state := WII_U_STATE_SEND_LED \<rparr>, [])
                  else if wu_state wii = WII_U_STATE_WAIT_LED_ACK \<and> acked_report = WIIU_CMD_LED
                  then (wii\<lparr> wu_state := WII_U_STATE_READY, wu_last_keepalive := now,
                             wu_last_report := 0 \<rparr>, [])
                  else (wii, []))
               else (wii, []))
         else if report_id = WIIU_REPORT_READ_DATA \<and> 7 \<le> length data then
           (if wu_state wii = WII_U_STATE_WAIT_EXT_TYPE
            then (wii\<lparr> wu_state := WII_U_STATE_SEND_REPORT_MODE \<rparr>, [])
            else (wii, []))
         else (wii, [])))"

text \<open>A waiting state of \<open>wii_u_task\<close> whose deadline \<open>init_time\<close> has passed.\<close>

definition deadline_reached :: "u32 \<Rightarrow> u32 \<Rightarrow> bool" where
  "deadline_reached now t = (0 \<le> sint (now - t))"

text \<open>
  The body shared by the waiting states: on time-out count a retry, go back to the
  sending state \<open>again\<close> while the count is below the maximum, else reset the count and
  go on to \<open>onward\<close>.
\<close>

definition wii_u_wait_timeout ::
  "wii_u_pro_data \<Rightarrow> u32 \<Rightarrow> wii_u_state_t \<Rightarrow> wii_u_state_t \<Rightarrow> wii_u_pro_data" where
  "wii_u_wait_timeout wii now again onward =
     (if deadline_reached now (wu_init_time wii) then
        (let wii1 = wii\<lparr> wu_init_retries := wu_init_retries wii + 1 \<rparr>
         in if wu_init_retries wii1 < WII_U_INIT_MAX_RETRIES
            then wii1\<lparr> wu_state := again \<rparr>
            else wii1\<lparr> wu_init_retries := 0, wu_state := onward \<rparr>)
      else wii)"

text \<open>
  The body shared by the sending states: when the channel can send, emit the command,
  enter the waiting state and set the deadline one second ahead.
\<close>

definition wii_u_send_step ::
  "wii_u_pro_data \<Rightarrow> task_env \<Rightarrow> bt_action \<Rightarrow> wii_u_state_t \<Rightarrow> wii_u_pro_data \<times> bt_action list" where
  "wii_u_send_step wii env cmd waiting =
     (if can_send env [] then
        (wii\<lparr> wu_state := waiting, wu_init_time := now_us env + 1000 * 1000 \<rparr>, [cmd])
      else (wii, []))"

text \<open>The feedback block of the \<open>WII_U_STATE_READY\<close> case: rumble, LED, dirty flags.\<close>

definition wii_u_ready_feedback ::
  "wii_u_pro_data \<Rightarrow> task_env \<Rightarrow> wii_u_pro_data \<times> bt_action list" where
  "wii_u_ready_feedback wii env =
     (if 0 \<le> player_idx env then
        (let rumble_wanted = (0 < fb_rumble_left env \<or> 0 < fb_rumble_right env);
             (wii1, acts1) =
               (if fb_rumble_dirty env \<and> rumble_wanted \<noteq> wu_rumble_on wii \<and> can_send env []
                then (wii\<lparr> wu_rumble_on := rumble_wanted \<rparr>, [wii_u_set_rumble rumble_wanted])
                else (wii, []));
             led = (if fb_led_pattern env \<noteq> 0 then push_bit 4 (fb_led_pattern env)
                    else push_bit 4 (PLAYER_LEDS env (nat (player_idx env + 1))));
             (wii2, acts2) =
               (if (fb_led_dirty env \<or> led \<noteq> wu_player_led wii1) \<and> can_send env acts1
                then (wii1\<lparr> wu_player_led := led \<rparr>, acts1 @ [wii_u_set_leds_raw led])
                else (wii1, acts1))
         in (wii2, acts2 @ (if fb_rumble_dirty env \<or> fb_led_dirty env
                            then [FeedbackClearDirty (player_idx env)] else [])))
      else (wii, []))"

text \<open>The \<open>WII_U_STATE_READY\<close> case: the feedback block, then the keep-alive.\<close>

definition wii_u_ready_task :: "wii_u_pro_data \<Rightarrow> task_env \<Rightarrow> wii_u_pro_data \<times> bt_action list" where
  "wii_u_ready_task wii env =
     (let (wii3, acts3) = wii_u_ready_feedback wii env
      in if WII_U_KEEPALIVE_MS * 1000 \<le> sint (now_us env - wu_last_keepalive wii3)
            \<and> can_send env acts3
         then (wii3\<lparr> wu_last_keepalive := now_us env \<rparr>, acts3 @ [wii_u_request_status])
         else (wii3, acts3))"

definition wii_u_task :: "wii_u_pro_data \<Rightarrow> task_env \<Rightarrow> wii_u_pro_data \<times> bt_action list" where
  "wii_u_task wii env =
     (let now = now_us env in
      case wu_state wii of
        WII_U_STATE_WAIT_INIT \<Rightarrow>
          (if deadline_reached now (wu_init_time wii)
           then (wii\<lparr> wu_state := WII_U_STATE_SEND_STATUS_REQ \<rparr>, [])
           else (wii, []))
      | WII_U_STATE_SEND_STATUS_REQ \<Rightarrow>
          wii_u_send_step wii env wii_u_request_status WII_U_STATE_WAIT_STATUS
      | WII_U_STATE_WAIT_STATUS \<Rightarrow>
          (wii_u_wait_timeout wii now WII_U_STATE_SEND_STATUS_REQ WII_U_STATE_SEND_EXT_INIT1, [])
      | WII_U_STATE_SEND_EXT_INIT1 \<Rightarrow>
          wii_u_send_step wii env (wii_u_write_data 0xA400F0 0x55) WII_U_STATE_WAIT_EXT_INIT1_ACK
      | WII_U_STATE_WAIT_EXT_INIT1_ACK \<Rightarrow>
          (wii_u_wait_timeout wii now WII_U_STATE_SEND_EXT_INIT1 WII_U_STATE_SEND_EXT_INIT2, [])
      | WII_U_STATE_SEND_EXT_INIT2 \<Rightarrow>
          wii_u_send_step wii env (wii_u_write_data 0xA400FB 0x00) WII_U_STATE_WAIT_EXT_INIT2_ACK
      | WII_U_STATE_WAIT_EXT_INIT2_ACK \<Rightarrow>
          (wii_u_wait_timeout wii now WII_U_STATE_SEND_EXT_INIT2 WII_U_STATE_READ_EXT_TYPE, [])
      | WII_U_STATE_READ_EXT_TYPE \<Rightarrow>
          wii_u_send_step wii env (wii_u_read_data 0xA400FA 6) WII_U_STATE_WAIT_EXT_TYPE
      | WII_U_STATE_WAIT_EXT_TYPE \<Rightarrow>
          (wii_u_wait_timeout wii now WII_U_STATE_READ_EXT_TYPE WII_U_STATE_SEND_REPORT_MODE, [])
      | WII_U_STATE_SEND_REPORT_MODE \<Rightarrow>
          wii_u_send_step wii env wii_u_set_report_mode WII_U_STATE_WAIT_REPORT_ACK
      | WII_U_STATE_WAIT_REPORT_ACK \<Rightarrow>
          (wii_u_wait_timeout wii now WII_U_STATE_SEND_REPORT_MODE WII_U_STATE_SEND_LED, [])
      | WII_U_STATE_SEND_LED \<Rightarrow>
          wii_u_send_step (wii\<lparr> wu_player_led := (if can_send env [] then 0x10 else wu_player_led wii) \<rparr>)
            env (wii_u_set_leds 1) WII_U_STATE_WAIT_LED_ACK
      | WII_U_STATE_WAIT_LED_ACK \<Rightarrow>
          (let wii1 = wii_u_wait_timeout wii now WII_U_STATE_SEND_LED WII_U_STATE_READY
           in (if wu_state wii1 = WII_U_STATE_READY
               then wii1\<lparr> wu_last_keepalive := now, wu_last_report := 0 \<rparr>
               else wii1, []))
      | WII_U_STATE_READY \<Rightarrow> wii_u_ready_task wii env
      | WII_U_STATE_IDLE \<Rightarrow> (wii, []))"

text \<open>
  \<open>wii_u_init\<close> at time \<open>now\<close> on the free slot \<open>slot\<close> of the static table: it sets the
  event, \<open>player_led\<close>, the state, the deadline (the initial delay) and the retry count,
  and leaves the other fields of the slot as they are.
\<close>

definition wii_u_init :: "wii_u_pro_data \<Rightarrow> u8 \<Rightarrow> u32 \<Rightarrow> wii_u_pro_data" where
  "wii_u_init slot conn now =
     slot\<lparr> wu_event := init_input_event\<lparr> ev_type := INPUT_TYPE_GAMEPAD,
                          transport := INPUT_TRANSPORT_BT_CLASSIC, dev_addr := conn,
                          ev_instance := 0, button_count := 14 \<rparr>,
            wu_initialized := True, wu_player_led := 0,
            wu_state := WII_U_STATE_WAIT_INIT,
            wu_init_time := now + WII_U_INIT_DELAY_MS * 1000,
            wu_init_retries := 0 \<rparr>"

text \<open>A slot of the zero-initialised static table \<open>wii_u_data\<close>.\<close>

definition zero_input_event :: input_event where
  "zero_input_event =
     \<lparr> dev_addr = 0, ev_instance = 0, ev_type = INPUT_TYPE_NONE,
       transport = INPUT_TRANSPORT_NONE, buttons = {}, button_count = 0,
       analog = (\<lambda>a. 0), has_motion = False, battery_level = 0, battery_charging = False \<rparr>"

definition wii_u_zero_slot :: wii_u_pro_data where
  "wii_u_zero_slot =
     \<lparr> wu_event = zero_input_event, wu_initialized = False, wu_player_led = 0,
       wu_rumble_on = False, wu_state = WII_U_STATE_IDLE, wu_init_time = 0,
       wu_init_retries = 0, wu_last_keepalive = 0, wu_last_report = 0 \<rparr>"

text \<open>The calls the main loop makes on a connected controller, and a run of them.\<close>

datatype driver_call = Task task_env | Report u32 "u8 list"

fun wii_u_call :: "wii_u_pro_data \<Rightarrow> driver_call \<Rightarrow> wii_u_pro_data \<times> bt_action list" where
  "wii_u_call wii (Task env) = wii_u_task wii env"
| "wii_u_call wii (Report now data) = wii_u_process_report wii now data"

fun wii_u_run :: "wii_u_pro_data \<Rightarrow> driver_call list \<Rightarrow> wii_u_pro_data \<times> bt_action list" where
  "wii_u_run wii [] = (wii, [])"
| "wii_u_run wii (c # cs) =
     (let (wii', acts) = wii_u_call wii c;
          (wii'', acts') = wii_u_run wii' cs
      in (wii'', acts @ acts'))"

text \<open>
  The transition table of the waiting states of \<open>wii_u_task\<close>: the sending state a
  time-out goes back to, and the state it goes on to when the retries are used up.
\<close>

fun wii_u_resend_state :: "wii_u_state_t \<Rightarrow> wii_u_state_t option" where
  "wii_u_resend_state WII_U_STATE_WAIT_STATUS = Some WII_U_STATE_SEND_STATUS_REQ"
| "wii_u_resend_state WII_U_STATE_WAIT_EXT_INIT1_ACK = Some WII_U_STATE_SEND_EXT_INIT1"
| "wii_u_resend_state WII_U_STATE_WAIT_EXT_INIT2_ACK = Some WII_U_STATE_SEND_EXT_INIT2"
| "wii_u_resend_state WII_U_STATE_WAIT_EXT_TYPE = Some WII_U_STATE_READ_EXT_TYPE"
| "wii_u_resend_state WII_U_STATE_WAIT_REPORT_ACK = Some WII_U_STATE_SEND_REPORT_MODE"
| "wii_u_resend_state WII_U_STATE_WAIT_LED_ACK = Some WII_U_STATE_SEND_LED"
| "wii_u_resend_state _ = None"

fun wii_u_giveup_state :: "wii_u_state_t \<Rightarrow> wii_u_state_t option" where
  "wii_u_giveup_state WII_U_STATE_WAIT_STATUS = Some WII_U_STATE_SEND_EXT_INIT1"
| "wii_u_giveup_state WII_U_STATE_WAIT_EXT_INIT1_ACK = Some WII_U_STATE_SEND_EXT_INIT2"
| "wii_u_giveup_state WII_U_STATE_WAIT_EXT_INIT2_ACK = Some WII_U_STATE_READ_EXT_TYPE"
| "wii_u_giveup_state WII_U_STATE_WAIT_EXT_TYPE = Some WII_U_STATE_SEND_REPORT_MODE"
| "wii_u_giveup_state WII_U_STATE_WAIT_REPORT_ACK = Some WII_U_STATE_SEND_LED"
| "wii_u_giveup_state WII_U_STATE_WAIT_LED_ACK = Some WII_U_STATE_READY"
| "wii_u_giveup_state _ = None"

text \<open>The waiting state each sending state enters.\<close>

fun wii_u_waiting_state :: "wii_u_state_t \<Rightarrow> wii_u_state_t option" where
  "wii_u_waiting_state WII_U_STATE_SEND_STATUS_REQ = Some WII_U_STATE_WAIT_STATUS"
| "wii_u_waiting_state WII_U_STATE_SEND_EXT_INIT1 = Some WII_U_STATE_WAIT_EXT_INIT1_ACK"
| "wii_u_waiting_state WII_U_STATE_SEND_EXT_INIT2 = Some WII_U_STATE_WAIT_EXT_INIT2_ACK"
| "wii_u_waiting_state WII_U_STATE_READ_EXT_TYPE = Some WII_U_STATE_WAIT_EXT_TYPE"
| "wii_u_waiting_state WII_U_STATE_SEND_REPORT_MODE = Some WII_U_STATE_WAIT_REPORT_ACK"
| "wii_u_waiting_state WII_U_STATE_SEND_LED = Some WII_U_STATE_WAIT_LED_ACK"
| "wii_u_waiting_state _ = None"

text \<open>A task environment at time \<open>t\<close> in which the channel can send and no player is assigned.\<close>

definition env_at :: "u32 \<Rightarrow> task_env" where
  "env_at t = \<lparr> now_us = t, can_send = (\<lambda>_. True), player_idx = - 1,
               fb_rumble_dirty = False, fb_rumble_left = 0, fb_rumble_right = 0,
               fb_led_pattern = 0, fb_led_dirty = False, PLAYER_LEDS = (\<lambda>_. 0) \<rparr>"

text \<open>Reports of a Wii U Pro controller: status with the extension flag, ACKs, a read
  response carrying the identifier 00 00 A4 20 01 20, and a 0x3D input report with the
  sticks centred and no button pressed.\<close>

definition wiiu_status_ext :: "u8 list" where
  "wiiu_status_ext = [0x20, 0x00, 0x00, 0x02, 0x00, 0x00, 0xC8]"

definition wiiu_ack :: "u8 \<Rightarrow> u8 list" where
  "wiiu_ack cmd = [0x22, 0x00, 0x00, cmd, 0x00]"

definition wiiu_read_response :: "u8 list" where
  "wiiu_read_response = [0x21, 0x00, 0x00, 0x50, 0x00, 0xFA, 0x00, 0x00, 0xA4, 0x20, 0x01, 0x20]"

definition wiiu_input_neutral :: "u8 list" where
  "wiiu_input_neutral =
     [0x3D, 0x00, 0x08, 0x00, 0x08, 0x00, 0x08, 0x00, 0x08, 0xFF, 0xFF, 0xFF]
     @ replicate 10 0"

text \<open>A 0x3D input report whose left stick is pushed fully up (LY = 0x0CB0 = 3248).\<close>

definition wiiu_input_stick_up :: "u8 list" where
  "wiiu_input_stick_up =
     [0x3D, 0x00, 0x08, 0x00, 0x08, 0xB0, 0x0C, 0x00, 0x08, 0xFF, 0xFF, 0xFF]
     @ replicate 10 0"

text \<open>The values of one axis over a list of submitted events.\<close>

definition submitted_axis :: "analog_axis \<Rightarrow> input_event list \<Rightarrow> u8 list" where
  "submitted_axis a evs = map (\<lambda>e. analog e a) evs"

text \<open>The events among a list of actions.\<close>

fun submitted_events :: "bt_action list \<Rightarrow> input_event list" where
  "submitted_events [] = []"
| "submitted_events (SubmitInput e # acts) = e # submitted_events acts"
| "submitted_events (_ # acts) = submitted_events acts"

text \<open>The happy-path calls of the spec's scenario 3, at concrete times.\<close>

definition wiiu_happy_calls :: "driver_call list" where
  "wiiu_happy_calls =
     [Task (env_at 101000), Task (env_at 102000), Report 103000 wiiu_status_ext,
      Task (env_at 104000), Report 105000 (wiiu_ack 0x16),
      Task (env_at 106000), Report 107000 (wiiu_ack 0x16),
      Task (env_at 108000), Report 109000 wiiu_read_response,
      Task (env_at 110000), Report 111000 (wiiu_ack 0x12),
      Task (env_at 112000), Report 113000 wiiu_input_neutral]"

text \<open>
  \<open>wii_u_disconnect\<close> on the slot of the device: the event is re-initialised and the slot
  is freed with the state idle and the retry count 0; the other fields keep their values.
  The two calls before (\<open>router_device_disconnected\<close>, \<open>remove_players_by_address\<close>)
  act on the router and the player table, not on the slot.
\<close>

definition wii_u_disconnect :: "wii_u_pro_data \<Rightarrow> wii_u_pro_data" where
  "wii_u_disconnect wii =
     wii\<lparr> wu_event := init_input_event, wu_initialized := False,
          wu_state := WII_U_STATE_IDLE, wu_init_retries := 0 \<rparr>"

text \<open>
  A second session on the same slot: the controller of the happy-path run (connected at
  1 ms) disconnects and connects again at 5.001 s; \<open>wii_u_init\<close> takes the first slot that
  is not initialised, which is the slot just freed. The same happy-path calls follow, 5 s
  later than in the first session.
\<close>

text \<open>The payloads sent on the interrupt channel among a list of actions.\<close>

fun raw_sends :: "bt_action list \<Rightarrow> u8 list list" where
  "raw_sends [] = []"
| "raw_sends (SendRaw bytes # acts) = bytes # raw_sends acts"
| "raw_sends (_ # acts) = raw_sends acts"

definition wiiu_first_session :: wii_u_pro_data where
  "wiiu_first_session = fst (wii_u_run (wii_u_init wii_u_zero_slot 0 1000) wiiu_happy_calls)"

definition wiiu_second_session :: wii_u_pro_data where
  "wiiu_second_session = wii_u_init (wii_u_disconnect wiiu_first_session) 0 5001000"

definition wiiu_happy_calls_again :: "driver_call list" where
  "wiiu_happy_calls_again =
     [Task (env_at 5101000), Task (env_at 5102000), Report 5103000 wiiu_status_ext,
      Task (env_at 5104000), Report 5105000 (wiiu_ack 0x16),
      Task (env_at 5106000), Report 5107000 (wiiu_ack 0x16),
      Task (env_at 5108000), Report 5109000 wiiu_read_response,
      Task (env_at 5110000), Report 5111000 (wiiu_ack 0x12),
      Task (env_at 5112000), Report 5113000 wiiu_input_neutral]"

text \<open>
  The signed offset that \<open>scale_analog_calibrated\<close> adds to 128: the scaled distance from
  the center, clamped to \<open>[-128, 127]\<close>.
\<close>

definition sw2_clamped_offset :: "u16 \<Rightarrow> u16 \<Rightarrow> u16 \<Rightarrow> int" where
  "sw2_clamped_offset val center range' =
     max (- 128) (min 127 (((uint val - uint center) * 127) sdiv uint range'))"

text \<open>A Pro Controller 2 whose four centers have been calibrated to 2048.\<close>

definition sw2_calibrated_2048 :: switch2_ble_data where
  "sw2_calibrated_2048 =
     (switch2_ble_init 0 0x2069)\<lparr> cal_lx_center := 2048, cal_ly_center := 2048,
        cal_rx_center := 2048, cal_ry_center := 2048, cal_samples := 4 \<rparr>"

section \<open>Wiimote driver (wiimote\_bt.c)\<close>

definition WIIMOTE_INIT_MAX_RETRIES :: u8 where "WIIMOTE_INIT_MAX_RETRIES = 5"
definition WIIMOTE_KEEPALIVE_MS :: int where "WIIMOTE_KEEPALIVE_MS = 30000"

definition WII_BTN_LEFT :: u16 where "WII_BTN_LEFT = 0x0001"
definition WII_BTN_RIGHT :: u16 where "WII_BTN_RIGHT = 0x0002"
definition WII_BTN_DOWN :: u16 where "WII_BTN_DOWN = 0x0004"
definition WII_BTN_UP :: u16 where "WII_BTN_UP = 0x0008"
definition WII_BTN_PLUS :: u16 where "WII_BTN_PLUS = 0x0010"
definition WII_BTN_TWO :: u16 where "WII_BTN_TWO = 0x0100"
definition WII_BTN_ONE :: u16 where "WII_BTN_ONE = 0x0200"
definition WII_BTN_B :: u16 where "WII_BTN_B = 0x0400"
definition WII_BTN_A :: u16 where "WII_BTN_A = 0x0800"
definition WII_BTN_MINUS :: u16 where "WII_BTN_MINUS = 0x1000"
definition WII_BTN_HOME :: u16 where "WII_BTN_HOME = 0x8000"

definition WII_BTN_Z :: u8 where "WII_BTN_Z = 0x01"
definition WII_BTN_C :: u8 where "WII_BTN_C = 0x02"

definition WII_CC_BTN_RT :: u16 where "WII_CC_BTN_RT = 0x0002"
definition WII_CC_BTN_PLUS :: u16 where "WII_CC_BTN_PLUS = 0x0004"
definition WII_CC_BTN_HOME :: u16 where "WII_CC_BTN_HOME = 0x0008"
definition WII_CC_BTN_MINUS :: u16 where "WII_CC_BTN_MINUS = 0x0010"
definition WII_CC_BTN_LT :: u16 where "WII_CC_BTN_LT = 0x0020"
definition WII_CC_BTN_DOWN :: u16 where "WII_CC_BTN_DOWN = 0x0040"
definition WII_CC_BTN_RIGHT :: u16 where "WII_CC_BTN_RIGHT = 0x0080"
definition WII_CC_BTN_UP :: u16 where "WII_CC_BTN_UP = 0x0100"
definition WII_CC_BTN_LEFT :: u16 where "WII_CC_BTN_LEFT = 0x0200"
definition WII_CC_BTN_ZR :: u16 where "WII_CC_BTN_ZR = 0x0400"
definition WII_CC_BTN_X :: u16 where "WII_CC_BTN_X = 0x0800"
definition WII_CC_BTN_A :: u16 where "WII_CC_BTN_A = 0x1000"
definition WII_CC_BTN_Y :: u16 where "WII_CC_BTN_Y = 0x2000"
definition WII_CC_BTN_B :: u16 where "WII_CC_BTN_B = 0x4000"
definition WII_CC_BTN_ZL :: u16 where "WII_CC_BTN_ZL = 0x8000"

definition GH_BTN_STRUM_DOWN :: u16 where "GH_BTN_STRUM_DOWN = 0x0040"
definition GH_BTN_MINUS :: u16 where "GH_BTN_MINUS = 0x0010"
definition GH_BTN_PLUS :: u16 where "GH_BTN_PLUS = 0x0004"
definition GH_BTN_STRUM_UP :: u16 where "GH_BTN_STRUM_UP = 0x0100"
definition GH_BTN_GREEN :: u16 where "GH_BTN_GREEN = 0x1000"
definition GH_BTN_RED :: u16 where "GH_BTN_RED = 0x4000"
definition GH_BTN_YELLOW :: u16 where "GH_BTN_YELLOW = 0x0800"
definition GH_BTN_BLUE :: u16 where "GH_BTN_BLUE = 0x2000"
definition GH_BTN_ORANGE :: u16 where "GH_BTN_ORANGE = 0x8000"

datatype wiimote_ext_type_t =
  WII_EXT_NONE | WII_EXT_NUNCHUK | WII_EXT_CLASSIC | WII_EXT_CLASSIC_MINI | WII_EXT_GUITAR

definition WII_REPORT_STATUS :: u8 where "WII_REPORT_STATUS = 0x20"
definition WII_REPORT_READ_DATA :: u8 where "WII_REPORT_READ_DATA = 0x21"
definition WII_REPORT_ACK :: u8 where "WII_REPORT_ACK = 0x22"
definition WII_REPORT_BUTTONS_ACC :: u8 where "WII_REPORT_BUTTONS_ACC = 0x31"
definition WII_REPORT_BUTTONS_EXT8 :: u8 where "WII_REPORT_BUTTONS_EXT8 = 0x32"
definition WII_REPORT_BUTTONS_ACC_IR :: u8 where "WII_REPORT_BUTTONS_ACC_IR = 0x33"
definition WII_REPORT_BUTTONS_ACC_EXT16 :: u8 where "WII_REPORT_BUTTONS_ACC_EXT16 = 0x35"
definition WII_REPORT_BUTTONS_ACC_IR_EXT6 :: u8 where "WII_REPORT_BUTTONS_ACC_IR_EXT6 = 0x37"

definition WII_ACCEL_CENTER :: int where "WII_ACCEL_CENTER = 128"
definition WII_ACCEL_THRESH_ON :: int where "WII_ACCEL_THRESH_ON = 20"
definition WII_ACCEL_THRESH_OFF :: int where "WII_ACCEL_THRESH_OFF = 12"

definition WII_CMD_LED :: u8 where "WII_CMD_LED = 0x11"
definition WII_CMD_REPORT_MODE :: u8 where "WII_CMD_REPORT_MODE = 0x12"
definition WII_CMD_STATUS_REQ :: u8 where "WII_CMD_STATUS_REQ = 0x15"
definition WII_CMD_WRITE_DATA :: u8 where "WII_CMD_WRITE_DATA = 0x16"
definition WII_CMD_READ_DATA :: u8 where "WII_CMD_READ_DATA = 0x17"

datatype wiimote_state_t =
    WII_STATE_IDLE
  | WII_STATE_WAIT_INIT
  | WII_STATE_SEND_STATUS_REQ
  | WII_STATE_WAIT_STATUS
  | WII_STATE_SEND_EXT_INIT1
  | WII_STATE_WAIT_EXT_INIT1_ACK
  | WII_STATE_SEND_EXT_INIT2
  | WII_STATE_WAIT_EXT_INIT2_ACK
  | WII_STATE_READ_EXT_TYPE
  | WII_STATE_WAIT_EXT_TYPE
  | WII_STATE_SEND_REPORT_MODE
  | WII_STATE_WAIT_REPORT_ACK
  | WII_STATE_SEND_LED
  | WII_STATE_WAIT_LED_ACK
  | WII_STATE_READY

datatype wiimote_orient_t = WII_ORIENT_HORIZONTAL | WII_ORIENT_VERTICAL

record wiimote_data =
  wm_event :: input_event
  wm_initialized :: bool
  wm_state :: wiimote_state_t
  wm_init_time :: u32
  wm_init_retries :: u8
  wm_last_keepalive :: u32
  wm_ext_type :: wiimote_ext_type_t
  wm_extension_connected :: bool
  wm_player_led :: u8
  wm_rumble_on :: bool
  wm_orientation :: wiimote_orient_t
  wm_orient_hotkey_active :: bool

definition wiimote_set_leds_raw :: "u8 \<Rightarrow> bt_action" where
  "wiimote_set_leds_raw led_pattern = SendRaw [0xA2, WII_CMD_LED, led_pattern]"

definition wiimote_set_leds :: "u8 \<Rightarrow> bt_action" where
  "wiimote_set_leds player =
     wiimote_set_leds_raw (if 1 \<le> player \<and> player \<le> 4 then push_bit (unat player + 3) 1 else 0)"

definition wiimote_request_status :: bt_action where
  "wiimote_request_status = SendControl [0xA2, WII_CMD_STATUS_REQ, 0x00]"

definition wiimote_write_data :: "u32 \<Rightarrow> u8 \<Rightarrow> bt_action" where
  "wiimote_write_data address data =
     SendControl ([0xA2, WII_CMD_WRITE_DATA, 0x04,
                   ucast (drop_bit 16 address AND 0xFF), ucast (drop_bit 8 address AND 0xFF),
                   ucast (address AND 0xFF), 0x01, data] @ replicate 15 0)"

definition wiimote_read_data :: "u32 \<Rightarrow> u16 \<Rightarrow> bt_action" where
  "wiimote_read_data address size' =
     SendControl [0xA2, WII_CMD_READ_DATA, 0x04,
                  ucast (drop_bit 16 address AND 0xFF), ucast (drop_bit 8 address AND 0xFF),
                  ucast (address AND 0xFF),
                  ucast (drop_bit 8 size' AND 0xFF), ucast (size' AND 0xFF)]"

definition wiimote_set_report_mode :: "bool \<Rightarrow> bt_action" where
  "wiimote_set_report_mode has_extension =
     SendRaw [0xA2, WII_CMD_REPORT_MODE, 0x00, if has_extension then 0x35 else 0x31]"

definition wiimote_set_rumble :: "bool \<Rightarrow> bt_action" where
  "wiimote_set_rumble on = SendRaw [0xA2, 0x10, if on then 0x01 else 0x00]"

definition wiimote_detect_orientation :: "u8 \<Rightarrow> wiimote_orient_t \<Rightarrow> wiimote_orient_t" where
  "wiimote_detect_orientation accel_x current =
     (let x_dev0 = uint accel_x - WII_ACCEL_CENTER;
          x_dev = (if x_dev0 < 0 then - x_dev0 else x_dev0)
      in if current = WII_ORIENT_VERTICAL then
           (if WII_ACCEL_THRESH_ON \<le> x_dev then WII_ORIENT_HORIZONTAL else current)
         else
           (if x_dev < WII_ACCEL_THRESH_OFF then WII_ORIENT_VERTICAL else current))"

definition wiimote_rotate_controls :: "jp_button set \<Rightarrow> wiimote_orient_t \<Rightarrow> jp_button set" where
  "wiimote_rotate_controls btns orient =
     (if orient = WII_ORIENT_VERTICAL then btns
      else
        (let dpad = btns \<inter> {JP_BUTTON_DU, JP_BUTTON_DD, JP_BUTTON_DL, JP_BUTTON_DR};
             face = btns \<inter> {JP_BUTTON_B1, JP_BUTTON_B2, JP_BUTTON_B3, JP_BUTTON_B4};
             other = btns - {JP_BUTTON_DU, JP_BUTTON_DD, JP_BUTTON_DL, JP_BUTTON_DR,
                             JP_BUTTON_B1, JP_BUTTON_B2, JP_BUTTON_B3, JP_BUTTON_B4};
             rotated_dpad =
               btn_if (JP_BUTTON_DU \<in> dpad) JP_BUTTON_DL \<union> btn_if (JP_BUTTON_DL \<in> dpad) JP_BUTTON_DD
               \<union> btn_if (JP_BUTTON_DD \<in> dpad) JP_BUTTON_DR \<union> btn_if (JP_BUTTON_DR \<in> dpad) JP_BUTTON_DU;
             swapped_face =
               btn_if (JP_BUTTON_B1 \<in> face) JP_BUTTON_B3 \<union> btn_if (JP_BUTTON_B2 \<in> face) JP_BUTTON_B4
               \<union> btn_if (JP_BUTTON_B3 \<in> face) JP_BUTTON_B1 \<union> btn_if (JP_BUTTON_B4 \<in> face) JP_BUTTON_B2
         in other \<union> rotated_dpad \<union> swapped_face))"

text \<open>The core buttons of bytes 1-2, before the hotkey and the rotation.\<close>

definition wiimote_raw_buttons :: "u8 list \<Rightarrow> u16" where
  "wiimote_raw_buttons data = ucast (data ! 1 AND 0x1F) OR push_bit 8 (ucast (data ! 2 AND 0x9F))"

definition wiimote_core_buttons :: "u16 \<Rightarrow> jp_button set" where
  "wiimote_core_buttons raw =
     btn_if (raw AND WII_BTN_UP \<noteq> 0) JP_BUTTON_DU \<union> btn_if (raw AND WII_BTN_DOWN \<noteq> 0) JP_BUTTON_DD
     \<union> btn_if (raw AND WII_BTN_LEFT \<noteq> 0) JP_BUTTON_DL \<union> btn_if (raw AND WII_BTN_RIGHT \<noteq> 0) JP_BUTTON_DR
     \<union> btn_if (raw AND WII_BTN_A \<noteq> 0) JP_BUTTON_B2 \<union> btn_if (raw AND WII_BTN_B \<noteq> 0) JP_BUTTON_B1
     \<union> btn_if (raw AND WII_BTN_ONE \<noteq> 0) JP_BUTTON_B3 \<union> btn_if (raw AND WII_BTN_TWO \<noteq> 0) JP_BUTTON_B4
     \<union> btn_if (raw AND WII_BTN_MINUS \<noteq> 0) JP_BUTTON_S1 \<union> btn_if (raw AND WII_BTN_PLUS \<noteq> 0) JP_BUTTON_S2
     \<union> btn_if (raw AND WII_BTN_HOME \<noteq> 0) JP_BUTTON_A1"

text \<open>The button bits of a Classic Controller (also the NES/SNES Classic Mini).\<close>

definition wiimote_cc_buttons :: "u16 \<Rightarrow> jp_button set" where
  "wiimote_cc_buttons cc =
     btn_if (cc AND WII_CC_BTN_B \<noteq> 0) JP_BUTTON_B1 \<union> btn_if (cc AND WII_CC_BTN_A \<noteq> 0) JP_BUTTON_B2
     \<union> btn_if (cc AND WII_CC_BTN_Y \<noteq> 0) JP_BUTTON_B3 \<union> btn_if (cc AND WII_CC_BTN_X \<noteq> 0) JP_BUTTON_B4
     \<union> btn_if (cc AND WII_CC_BTN_LT \<noteq> 0) JP_BUTTON_L1 \<union> btn_if (cc AND WII_CC_BTN_RT \<noteq> 0) JP_BUTTON_R1
     \<union> btn_if (cc AND WII_CC_BTN_ZL \<noteq> 0) JP_BUTTON_L2 \<union> btn_if (cc AND WII_CC_BTN_ZR \<noteq> 0) JP_BUTTON_R2
     \<union> btn_if (cc AND WII_CC_BTN_MINUS \<noteq> 0) JP_BUTTON_S1 \<union> btn_if (cc AND WII_CC_BTN_PLUS \<noteq> 0) JP_BUTTON_S2
     \<union> btn_if (cc AND WII_CC_BTN_HOME \<noteq> 0) JP_BUTTON_A1
     \<union> btn_if (cc AND WII_CC_BTN_UP \<noteq> 0) JP_BUTTON_DU \<union> btn_if (cc AND WII_CC_BTN_DOWN \<noteq> 0) JP_BUTTON_DD
     \<union> btn_if (cc AND WII_CC_BTN_LEFT \<noteq> 0) JP_BUTTON_DL \<union> btn_if (cc AND WII_CC_BTN_RIGHT \<noteq> 0) JP_BUTTON_DR"

definition wiimote_gh_buttons :: "u16 \<Rightarrow> jp_button set" where
  "wiimote_gh_buttons gh =
     btn_if (gh AND GH_BTN_GREEN \<noteq> 0) JP_BUTTON_B1 \<union> btn_if (gh AND GH_BTN_RED \<noteq> 0) JP_BUTTON_B2
     \<union> btn_if (gh AND GH_BTN_YELLOW \<noteq> 0) JP_BUTTON_B4 \<union> btn_if (gh AND GH_BTN_BLUE \<noteq> 0) JP_BUTTON_B3
     \<union> btn_if (gh AND GH_BTN_ORANGE \<noteq> 0) JP_BUTTON_L1
     \<union> btn_if (gh AND GH_BTN_STRUM_UP \<noteq> 0) JP_BUTTON_DU
     \<union> btn_if (gh AND GH_BTN_STRUM_DOWN \<noteq> 0) JP_BUTTON_DD
     \<union> btn_if (gh AND GH_BTN_PLUS \<noteq> 0) JP_BUTTON_S2 \<union> btn_if (gh AND GH_BTN_MINUS \<noteq> 0) JP_BUTTON_S1"

text \<open>
  The extension block of \<open>wiimote_process_report\<close>: given the extension bytes, the
  buttons it adds and the analog axes it writes into the cached event.
\<close>

definition wiimote_parse_ext ::
  "wiimote_ext_type_t \<Rightarrow> u8 list \<Rightarrow> input_event \<Rightarrow> jp_button set \<times> input_event" where
  "wiimote_parse_ext ext_type ext ev =
     (case ext_type of
        WII_EXT_NUNCHUK \<Rightarrow>
          (let ext_buttons = NOT (ext ! 5)
           in (btn_if (ext_buttons AND WII_BTN_Z \<noteq> 0) JP_BUTTON_L2
               \<union> btn_if (ext_buttons AND WII_BTN_C \<noteq> 0) JP_BUTTON_L1,
               ev\<lparr> analog := (analog ev)(ANALOG_LX := ext ! 0, ANALOG_LY := 255 - ext ! 1) \<rparr>))
      | WII_EXT_CLASSIC \<Rightarrow>
          (let lx = ext ! 0 AND 0x3F;
               ly = ext ! 1 AND 0x3F;
               rx = (drop_bit 3 (ext ! 0) AND 0x18) OR (drop_bit 5 (ext ! 1) AND 0x06)
                    OR (drop_bit 7 (ext ! 2) AND 0x01);
               ry = ext ! 2 AND 0x1F;
               lt = (drop_bit 5 (ext ! 2) AND 0x03) OR (drop_bit 2 (ext ! 3) AND 0x1C);
               rt = ext ! 3 AND 0x1F;
               cc_buttons = NOT (ucast (ext ! 4) OR push_bit 8 (ucast (ext ! 5)) :: u16)
           in (wiimote_cc_buttons cc_buttons,
               ev\<lparr> analog := (analog ev)
                     (ANALOG_LX := push_bit 2 lx OR drop_bit 4 lx,
                      ANALOG_LY := 255 - (push_bit 2 ly OR drop_bit 4 ly),
                      ANALOG_RX := push_bit 3 rx OR drop_bit 2 rx,
                      ANALOG_RY := 255 - (push_bit 3 ry OR drop_bit 2 ry),
                      ANALOG_L2 := push_bit 3 lt OR drop_bit 2 lt,
                      ANALOG_R2 := push_bit 3 rt OR drop_bit 2 rt) \<rparr>))
      | WII_EXT_CLASSIC_MINI \<Rightarrow>
          (let cc_buttons = NOT (ucast (ext ! 4) OR push_bit 8 (ucast (ext ! 5)) :: u16)
           in (wiimote_cc_buttons cc_buttons, ev))
      | WII_EXT_GUITAR \<Rightarrow>
          (let stick_x = ext ! 0 AND 0x3F;
               stick_y = ext ! 1 AND 0x3F;
               whammy = ext ! 3 AND 0x1F;
               gh_buttons = NOT (ucast (ext ! 4) OR push_bit 8 (ucast (ext ! 5)) :: u16)
           in (wiimote_gh_buttons gh_buttons,
               ev\<lparr> analog := (analog ev)
                     (ANALOG_LX := push_bit 2 stick_x OR drop_bit 4 stick_x,
                      ANALOG_LY := 255 - (push_bit 2 stick_y OR drop_bit 4 stick_y),
                      ANALOG_L2 := push_bit 3 whammy OR drop_bit 2 whammy) \<rparr>))
      | WII_EXT_NONE \<Rightarrow> ({}, ev))"

text \<open>The extension bytes of a report, when it carries them (reports 0x32 and 0x35).\<close>

definition wiimote_ext_bytes :: "u8 list \<Rightarrow> u8 list option" where
  "wiimote_ext_bytes data =
     (if data ! 0 = WII_REPORT_BUTTONS_EXT8 \<and> 9 \<le> length data then Some (take 8 (drop 3 data))
      else if data ! 0 = WII_REPORT_BUTTONS_ACC_EXT16 \<and> 22 \<le> length data
      then Some (take 16 (drop 6 data))
      else None)"

text \<open>What \<open>wiimote_process_report\<close> reads besides the report: the clock and whether
  \<open>flash_load\<close> succeeds.\<close>

record report_env =
  re_now :: u32
  flash_load_ok :: bool

text \<open>
  The first block of \<open>wiimote_process_report\<close>, for the reports that carry core buttons
  (0x30-0x37, 0x3e, 0x3f) with \<open>len >= 3\<close>. The global \<open>wiimote_orient_mode\<close> is passed
  in and returned.
\<close>

definition wiimote_has_core_buttons :: "u8 \<Rightarrow> bool" where
  "wiimote_has_core_buttons report_id =
     ((0x30 \<le> report_id \<and> report_id \<le> 0x37) \<or> report_id = 0x3e \<or> report_id = 0x3f)"

definition wiimote_core_block ::
  "wii_orient_mode \<Rightarrow> wiimote_data \<Rightarrow> report_env \<Rightarrow> u8 list
     \<Rightarrow> wii_orient_mode \<times> wiimote_data \<times> bt_action list" where
  "wiimote_core_block mode wii env data =
     (let report_id = data ! 0;
          raw_buttons = wiimote_raw_buttons data;
          btns0 = wiimote_core_buttons raw_buttons;
          plus_held = (raw_buttons AND WII_BTN_PLUS \<noteq> 0);
          up_held = (raw_buttons AND WII_BTN_UP \<noteq> 0);
          down_held = (raw_buttons AND WII_BTN_DOWN \<noteq> 0);
          left_held = (raw_buttons AND WII_BTN_LEFT \<noteq> 0);
          right_held = (raw_buttons AND WII_BTN_RIGHT \<noteq> 0);
          hotkey = (plus_held \<and> (up_held \<or> down_held \<or> left_held \<or> right_held));
          new_mode = (if up_held then WII_ORIENT_MODE_VERTICAL
                      else if right_held then WII_ORIENT_MODE_HORIZONTAL
                      else WII_ORIENT_MODE_AUTO);
          mode_changes = (hotkey \<and> \<not> wm_orient_hotkey_active wii \<and> new_mode \<noteq> mode);
          mode1 = (if mode_changes then new_mode else mode);
          acts1 = (if mode_changes \<and> flash_load_ok env then [FlashSave new_mode] else []);
          btns1 = (if hotkey
                   then btns0 - {JP_BUTTON_S2, JP_BUTTON_DU, JP_BUTTON_DD, JP_BUTTON_DL, JP_BUTTON_DR}
                   else btns0);
          has_accel = (report_id = WII_REPORT_BUTTONS_ACC \<or> report_id = WII_REPORT_BUTTONS_ACC_EXT16
                       \<or> report_id = WII_REPORT_BUTTONS_ACC_IR
                       \<or> report_id = WII_REPORT_BUTTONS_ACC_IR_EXT6);
          new_orient =
            (if mode1 = WII_ORIENT_MODE_HORIZONTAL then WII_ORIENT_HORIZONTAL
             else if mode1 = WII_ORIENT_MODE_VERTICAL then WII_ORIENT_VERTICAL
             else if has_accel \<and> 6 \<le> length data
             then wiimote_detect_orientation (data ! 3) (wm_orientation wii)
             else wm_orientation wii);
          (ext_btns, ev1) =
            (case wiimote_ext_bytes data of
               Some ext \<Rightarrow> wiimote_parse_ext (wm_ext_type wii) ext (wm_event wii)
             | None \<Rightarrow> ({}, wm_event wii));
          btns2 = btns1 \<union> ext_btns;
          btns3 = (if wm_ext_type wii = WII_EXT_NONE \<and> \<not> wm_extension_connected wii
                   then wiimote_rotate_controls btns2 new_orient else btns2);
          ev2 = ev1\<lparr> buttons := btns3 \<rparr>;
          wii1 = wii\<lparr> wm_orient_hotkey_active := hotkey, wm_orientation := new_orient,
                     wm_event := ev2 \<rparr>
      in (mode1, wii1,
          acts1 @ (if wm_state wii = WII_STATE_READY then [SubmitInput ev2] else [])))"

text \<open>The status block (report 0x20, \<open>len >= 4\<close>).\<close>

definition wiimote_status_block :: "wiimote_data \<Rightarrow> u8 list \<Rightarrow> wiimote_data \<times> bt_action list" where
  "wiimote_status_block wii data =
     (let flags = data ! 3 AND 0x0F;
          ext_now = (flags AND 0x02 \<noteq> 0)
      in if wm_state wii = WII_STATE_WAIT_STATUS then
           (wii\<lparr> wm_extension_connected := ext_now,
                 wm_state := (if ext_now then WII_STATE_SEND_EXT_INIT1
                              else WII_STATE_SEND_REPORT_MODE) \<rparr>, [])
         else if wm_state wii = WII_STATE_READY then
           (if ext_now \<noteq> wm_extension_connected wii then
              (if ext_now then
                 (wii\<lparr> wm_extension_connected := ext_now, wm_ext_type := WII_EXT_NONE,
                       wm_state := WII_STATE_SEND_EXT_INIT1 \<rparr>, [])
               else
                 (let ev = (wm_event wii)\<lparr> analog := (analog (wm_event wii))
                             (ANALOG_LX := 128, ANALOG_LY := 128, ANALOG_RX := 128,
                              ANALOG_RY := 128, ANALOG_L2 := 0, ANALOG_R2 := 0) \<rparr>
                  in (wii\<lparr> wm_extension_connected := ext_now, wm_ext_type := WII_EXT_NONE,
                           wm_event := ev, wm_state := WII_STATE_SEND_REPORT_MODE \<rparr>,
                      [SubmitInput ev])))
            else (wii, []))
         else (wii, []))"

text \<open>The ACK block (report 0x22, \<open>len >= 5\<close>).\<close>

definition wiimote_ack_block :: "wiimote_data \<Rightarrow> u32 \<Rightarrow> u8 list \<Rightarrow> wiimote_data" where
  "wiimote_ack_block wii now data =
     (let acked_report = data ! 3;
          error_code = data ! 4
      in if error_code = 0 then
           (if wm_state wii = WII_STATE_WAIT_EXT_INIT1_ACK \<and> acked_report = WII_CMD_WRITE_DATA
            then wii\<lparr> wm_state := WII_STATE_SEND_EXT_INIT2 \<rparr>
            else if wm_state wii = WII_STATE_WAIT_EXT_INIT2_ACK \<and> acked_report = WII_CMD_WRITE_DATA
            then wii\<lparr> wm_state := WII_STATE_READ_EXT_TYPE \<rparr>
            else if wm_state wii = WII_STATE_WAIT_REPORT_ACK \<and> acked_report = WII_CMD_REPORT_MODE
            then wii\<lparr> wm_state := WII_STATE_SEND_LED \<rparr>
            else if wm_state wii = WII_STATE_WAIT_LED_ACK \<and> acked_report = WII_CMD_LED
            then wii\<lparr> wm_state := WII_STATE_READY, wm_last_keepalive := now \<rparr>
            else wii)
         else wii)"

text \<open>The read-response block (report 0x21, \<open>len >= 7\<close>): the extension identifier.\<close>

definition wiimote_read_block :: "wiimote_data \<Rightarrow> u8 list \<Rightarrow> wiimote_data" where
  "wiimote_read_block wii data =
     (let error = data ! 3 AND 0x0F in
      if wm_state wii = WII_STATE_WAIT_EXT_TYPE then
        (let wii1 =
           (if error = 0 \<and> 12 \<le> length data then
              (if data ! 8 = 0xA4 \<and> data ! 9 = 0x20 then
                 (if data ! 10 = 0x00 \<and> data ! 11 = 0x00
                  then wii\<lparr> wm_ext_type := WII_EXT_NUNCHUK \<rparr>
                  else if data ! 10 = 0x01 \<and> data ! 11 = 0x01
                  then (if 0x02 \<le> data ! 6 then wii\<lparr> wm_ext_type := WII_EXT_CLASSIC_MINI \<rparr>
                        else wii\<lparr> wm_ext_type := WII_EXT_CLASSIC \<rparr>)
                  else if data ! 10 = 0x01 \<and> data ! 11 = 0x03
                  then wii\<lparr> wm_ext_type := WII_EXT_GUITAR \<rparr>
                  else if data ! 10 = 0x01 \<and> data ! 11 = 0x20
                  then wii
                  else wii\<lparr> wm_ext_type := WII_EXT_NONE \<rparr>)
               else wii)
            else wii)
         in wii1\<lparr> wm_state := WII_STATE_SEND_REPORT_MODE \<rparr>)
      else wii)"

text \<open>
  \<open>wiimote_process_report\<close>: the four blocks in the order of the source; each is guarded
  by the report id and the length. The result is the new orientation mode, the new driver
  data and the actions.
\<close>

definition wiimote_process_report ::
  "wii_orient_mode \<Rightarrow> wiimote_data \<Rightarrow> report_env \<Rightarrow> u8 list
     \<Rightarrow> wii_orient_mode \<times> wiimote_data \<times> bt_action list" where
  "wiimote_process_report mode wii env data =
     (if length data < 1 then (mode, wii, [])
      else
        (let report_id = data ! 0;
             (mode1, wii1, acts1) =
               (if wiimote_has_core_buttons report_id \<and> 3 \<le> length data
                then wiimote_core_block mode wii env data else (mode, wii, []));
             (wii2, acts2) =
               (if report_id = WII_REPORT_STATUS \<and> 4 \<le> length data
                then wiimote_status_block wii1 data else (wii1, []));
             wii3 =
               (if report_id = WII_REPORT_ACK \<and> 5 \<le> length data
                then wiimote_ack_block wii2 (re_now env) data else wii2);
             wii4 =
               (if report_id = WII_REPORT_READ_DATA \<and> 7 \<le> length data
                then wiimote_read_block wii3 data else wii3)
         in (mode1, wii4, acts1 @ acts2)))"

text \<open>The sending states of \<open>wiimote_task\<close>.\<close>

definition wiimote_send_step ::
  "wiimote_data \<Rightarrow> task_env \<Rightarrow> bt_action \<Rightarrow> wiimote_state_t \<Rightarrow> wiimote_data \<times> bt_action list" where
  "wiimote_send_step wii env cmd waiting =
     (if can_send env [] then
        (wii\<lparr> wm_state := waiting, wm_init_time := now_us env + 1000000 \<rparr>, [cmd])
      else (wii, []))"

text \<open>The waiting states that only wait for the deadline.\<close>

definition wiimote_wait_step :: "wiimote_data \<Rightarrow> u32 \<Rightarrow> wiimote_state_t \<Rightarrow> wiimote_data" where
  "wiimote_wait_step wii now onward =
     (if deadline_reached now (wm_init_time wii) then wii\<lparr> wm_state := onward \<rparr> else wii)"

definition wiimote_ready_task :: "wiimote_data \<Rightarrow> task_env \<Rightarrow> wiimote_data \<times> bt_action list" where
  "wiimote_ready_task wii env =
     (let (wii3, acts3) =
            (if 0 \<le> player_idx env then
               (let rumble_wanted = (0 < fb_rumble_left env \<or> 0 < fb_rumble_right env);
                    (wii1, acts1) =
                      (if fb_rumble_dirty env \<and> rumble_wanted \<noteq> wm_rumble_on wii \<and> can_send env []
                       then (wii\<lparr> wm_rumble_on := rumble_wanted \<rparr>, [wiimote_set_rumble rumble_wanted])
                       else (wii, []));
                    led = (if fb_led_pattern env \<noteq> 0 then push_bit 4 (fb_led_pattern env)
                           else push_bit 4 (PLAYER_LEDS env (nat (player_idx env + 1))));
                    (wii2, acts2) =
                      (if (fb_led_dirty env \<or> led \<noteq> wm_player_led wii1) \<and> can_send env acts1
                       then (wii1\<lparr> wm_player_led := led \<rparr>, acts1 @ [wiimote_set_leds_raw led])
                       else (wii1, acts1))
                in (wii2, acts2 @ (if fb_rumble_dirty env \<or> fb_led_dirty env
                                   then [FeedbackClearDirty (player_idx env)] else [])))
             else (wii, []))
      in if WIIMOTE_KEEPALIVE_MS * 1000 \<le> sint (now_us env - wm_last_keepalive wii3)
            \<and> can_send env acts3
         then (wii3\<lparr> wm_last_keepalive := now_us env \<rparr>, acts3 @ [wiimote_request_status])
         else (wii3, acts3))"

definition wiimote_task :: "wiimote_data \<Rightarrow> task_env \<Rightarrow> wiimote_data \<times> bt_action list" where
  "wiimote_task wii env =
     (let now = now_us env in
      case wm_state wii of
        WII_STATE_WAIT_INIT \<Rightarrow> (wiimote_wait_step wii now WII_STATE_SEND_STATUS_REQ, [])
      | WII_STATE_SEND_STATUS_REQ \<Rightarrow>
          wiimote_send_step wii env wiimote_request_status WII_STATE_WAIT_STATUS
      | WII_STATE_WAIT_STATUS \<Rightarrow>
          (if deadline_reached now (wm_init_time wii) then
             (let wii1 = wii\<lparr> wm_init_retries := wm_init_retries wii + 1 \<rparr>
              in if wm_init_retries wii1 < WIIMOTE_INIT_MAX_RETRIES
                 then wii1\<lparr> wm_state := WII_STATE_SEND_STATUS_REQ \<rparr>
                 else wii1\<lparr> wm_state := WII_STATE_SEND_REPORT_MODE, wm_init_retries := 0 \<rparr>)
           else wii, [])
      | WII_STATE_SEND_EXT_INIT1 \<Rightarrow>
          wiimote_send_step wii env (wiimote_write_data 0xA400F0 0x55) WII_STATE_WAIT_EXT_INIT1_ACK
      | WII_STATE_WAIT_EXT_INIT1_ACK \<Rightarrow> (wiimote_wait_step wii now WII_STATE_SEND_EXT_INIT2, [])
      | WII_STATE_SEND_EXT_INIT2 \<Rightarrow>
          wiimote_send_step wii env (wiimote_write_data 0xA400FB 0x00) WII_STATE_WAIT_EXT_INIT2_ACK
      | WII_STATE_WAIT_EXT_INIT2_ACK \<Rightarrow> (wiimote_wait_step wii now WII_STATE_READ_EXT_TYPE, [])
      | WII_STATE_READ_EXT_TYPE \<Rightarrow>
          wiimote_send_step wii env (wiimote_read_data 0xA400FA 6) WII_STATE_WAIT_EXT_TYPE
      | WII_STATE_WAIT_EXT_TYPE \<Rightarrow> (wiimote_wait_step wii now WII_STATE_SEND_REPORT_MODE, [])
      | WII_STATE_SEND_REPORT_MODE \<Rightarrow>
          wiimote_send_step wii env (wiimote_set_report_mode (wm_extension_connected wii))
            WII_STATE_WAIT_REPORT_ACK
      | WII_STATE_WAIT_REPORT_ACK \<Rightarrow> (wiimote_wait_step wii now WII_STATE_SEND_LED, [])
      | WII_STATE_SEND_LED \<Rightarrow>
          wiimote_send_step (wii\<lparr> wm_player_led := (if can_send env [] then 0x10 else wm_player_led wii) \<rparr>)
            env (wiimote_set_leds 1) WII_STATE_WAIT_LED_ACK
      | WII_STATE_WAIT_LED_ACK \<Rightarrow>
          (if deadline_reached now (wm_init_time wii)
           then wii\<lparr> wm_state := WII_STATE_READY, wm_last_keepalive := now \<rparr> else wii, [])
      | WII_STATE_READY \<Rightarrow> wiimote_ready_task wii env
      | WII_STATE_IDLE \<Rightarrow> (wii, []))"

text \<open>The calls on a connected Wiimote and a run of them, threading the orientation mode.\<close>

datatype wiimote_call = WmTask task_env | WmReport report_env "u8 list"

fun wiimote_step ::
  "wii_orient_mode \<times> wiimote_data \<Rightarrow> wiimote_call
     \<Rightarrow> (wii_orient_mode \<times> wiimote_data) \<times> bt_action list" where
  "wiimote_step (mode, wii) (WmTask env) =
     (let (wii', acts) = wiimote_task wii env in ((mode, wii'), acts))"
| "wiimote_step (mode, wii) (WmReport env data) =
     (let (mode', wii', acts) = wiimote_process_report mode wii env data in ((mode', wii'), acts))"

text \<open>
  The run records, for every action, the connect state the driver was in when the call
  that produced the action began.
\<close>

fun wiimote_run ::
  "wii_orient_mode \<times> wiimote_data \<Rightarrow> wiimote_call list \<Rightarrow> (wiimote_state_t \<times> bt_action) list" where
  "wiimote_run s [] = []"
| "wiimote_run s (c # cs) =
     (let (s', acts) = wiimote_step s c
      in map (\<lambda>a. (wm_state (snd s), a)) acts @ wiimote_run s' cs)"

text \<open>
  A Wiimote without extension, fully initialised (READY), held horizontally; and the
  environment of a report at time \<open>t\<close>.
\<close>

definition wiimote_ready_horizontal :: wiimote_data where
  "wiimote_ready_horizontal =
     \<lparr> wm_event = init_input_event\<lparr> ev_type := INPUT_TYPE_GAMEPAD,
                     transport := INPUT_TRANSPORT_BT_CLASSIC, button_count := 11 \<rparr>,
       wm_initialized = True, wm_state = WII_STATE_READY, wm_init_time = 0,
       wm_init_retries = 0, wm_last_keepalive = 0, wm_ext_type = WII_EXT_NONE,
       wm_extension_connected = False, wm_player_led = 0x10, wm_rumble_on = False,
       wm_orientation = WII_ORIENT_HORIZONTAL, wm_orient_hotkey_active = False \<rparr>"

definition report_env_at :: "u32 \<Rightarrow> report_env" where
  "report_env_at t = \<lparr> re_now = t, flash_load_ok = True \<rparr>"

text \<open>Report 0x31 (buttons and accelerometer) with only the A button pressed and
  \<open>accel_x = 101\<close>; report 0x20 (status) without extension.\<close>

definition wiimote_report_a_pressed :: "u8 list" where
  "wiimote_report_a_pressed = [0x31, 0x00, 0x08, 101, 128, 128]"

definition wiimote_status_no_ext :: "u8 list" where
  "wiimote_status_no_ext = [0x20, 0x00, 0x00, 0x00, 0x00, 0x00, 0xC8]"

text \<open>Whether an action is a call of \<open>router_submit_input\<close>.\<close>

fun is_submit :: "bt_action \<Rightarrow> bool" where
  "is_submit (SubmitInput e) = True"
| "is_submit _ = False"

section \<open>Native N64 and GameCube host drivers (n64\_host.c, gc\_host.c)\<close>

text \<open>
  What a host-driver task does to the outside, in order: an event passed to
  \<open>router_submit_input\<close>, \<open>feedback_clear_dirty\<close>, and the rumble-pak commands sent to
  the controller.
\<close>

datatype host_action =
    HostSubmit input_event
  | HostFeedbackClearDirty
  | HostInitRumblePak
  | HostSetRumble bool

fun host_submitted :: "host_action list \<Rightarrow> input_event list" where
  "host_submitted [] = []"
| "host_submitted (HostSubmit e # acts) = e # host_submitted acts"
| "host_submitted (_ # acts) = host_submitted acts"

text \<open>The fields of \<open>feedback_state_t\<close> the host drivers read.\<close>

record host_feedback =
  hf_rumble_dirty :: bool
  hf_rumble_left :: u8
  hf_rumble_right :: u8

subsection \<open>N64\<close>

text \<open>\<open>n64_report_t\<close> (joybus library): the fields the driver reads; the stick is \<open>int8_t\<close>.\<close>

record n64_report =
  n64_a :: bool
  n64_b :: bool
  n64_z :: bool
  n64_start :: bool
  n64_dpad_up :: bool
  n64_dpad_down :: bool
  n64_dpad_left :: bool
  n64_dpad_right :: bool
  n64_l :: bool
  n64_r :: bool
  n64_c_up :: bool
  n64_c_down :: bool
  n64_c_left :: bool
  n64_c_right :: bool
  n64_stick_x :: u8
  n64_stick_y :: u8

text \<open>
  The file-scope state of n64\_host.c for its single port (\<open>N64_MAX_PORTS = 1\<close>).
  \<open>last_rumble_time\<close> is only read through \<open>time_reached\<close>, an input of the model.
\<close>

record n64_host_state =
  n64_initialized :: bool
  n64_rumble_state :: bool
  n64_rumble_pending :: bool
  n64_rumble_pak_initialized :: bool
  n64_connected_polls :: u8
  n64_disconnect_debounce :: u8
  n64_prev_buttons :: "jp_button set"
  n64_prev_stick_x :: u8
  n64_prev_stick_y :: u8
  n64_prev_l :: bool
  n64_prev_r :: bool

text \<open>
  What one \<open>n64_host_task\<close> call reads from its collaborators: the feedback state of the
  port (\<open>None\<close> for a NULL pointer), the result of \<open>N64Controller_Poll\<close>,
  \<open>N64Controller_IsInitialized\<close> after the poll, the pak queries and
  \<open>time_reached(last_rumble_time)\<close>.
\<close>

record n64_env =
  n64_feedback :: "host_feedback option"
  n64_poll_success :: bool
  n64_poll_report :: n64_report
  n64_is_connected :: bool
  n64_has_pak :: bool
  n64_init_pak_ok :: bool
  n64_rumble_time_reached :: bool

definition map_n64_to_jp :: "n64_report \<Rightarrow> jp_button set" where
  "map_n64_to_jp report =
     btn_if (n64_a report) JP_BUTTON_B1 \<union> btn_if (n64_c_down report) JP_BUTTON_B2
     \<union> btn_if (n64_b report) JP_BUTTON_B3 \<union> btn_if (n64_c_left report) JP_BUTTON_B4
     \<union> btn_if (n64_c_up report) JP_BUTTON_L3 \<union> btn_if (n64_c_right report) JP_BUTTON_R3
     \<union> btn_if (n64_l report) JP_BUTTON_L2 \<union> btn_if (n64_r report) JP_BUTTON_R2
     \<union> btn_if (n64_z report) JP_BUTTON_R1 \<union> btn_if (n64_start report) JP_BUTTON_S2
     \<union> btn_if (n64_dpad_up report) JP_BUTTON_DU \<union> btn_if (n64_dpad_down report) JP_BUTTON_DD
     \<union> btn_if (n64_dpad_left report) JP_BUTTON_DL \<union> btn_if (n64_dpad_right report) JP_BUTTON_DR"

definition N64_STICK_MAX :: int where "N64_STICK_MAX = 80"

definition convert_stick_axis :: "u8 \<Rightarrow> u8" where
  "convert_stick_axis v =
     (let scaled = (sint v * 127) sdiv N64_STICK_MAX;
          scaled1 = (if 127 < scaled then 127 else scaled);
          scaled2 = (if scaled1 < - 128 then - 128 else scaled1)
      in word_of_int (scaled2 + 128))"

definition map_c_buttons_to_analog :: "n64_report \<Rightarrow> u8 \<times> u8" where
  "map_c_buttons_to_analog report =
     (let rx0 = (if n64_c_left report then 0 else 128);
          rx = (if n64_c_right report then 255 else rx0);
          ry0 = (if n64_c_up report then 0 else 128);
          ry = (if n64_c_down report then 255 else ry0)
      in (rx, ry))"

text \<open>The event built for a real disconnect of port 0.\<close>

definition n64_cleared_event :: input_event where
  "n64_cleared_event =
     init_input_event\<lparr> dev_addr := 0xE0, ev_instance := 0, ev_type := INPUT_TYPE_GAMEPAD,
        buttons := {},
        analog := (analog init_input_event)
          (ANALOG_LX := 128, ANALOG_LY := 128, ANALOG_RX := 128, ANALOG_RY := 128) \<rparr>"

text \<open>The feedback loop at the top of \<open>n64_host_task\<close>, with \<open>n64_host_set_rumble\<close> inlined.\<close>

definition n64_feedback_step :: "n64_host_state \<Rightarrow> n64_env \<Rightarrow> n64_host_state \<times> host_action list" where
  "n64_feedback_step s env =
     (case n64_feedback env of
        None \<Rightarrow> (s, [])
      | Some fb \<Rightarrow>
          if hf_rumble_dirty fb then
            (let want_rumble = (0 < hf_rumble_left fb \<or> 0 < hf_rumble_right fb)
             in (if want_rumble \<noteq> n64_rumble_state s
                 then s\<lparr> n64_rumble_state := want_rumble, n64_rumble_pending := True \<rparr>
                 else s, [HostFeedbackClearDirty]))
          else (s, []))"

text \<open>The connection tracking after the poll: debounce of disconnects, first connect.\<close>

definition n64_connection_step :: "n64_host_state \<Rightarrow> n64_env \<Rightarrow> n64_host_state \<times> host_action list" where
  "n64_connection_step s env =
     (if \<not> n64_is_connected env then
        (if 0 < n64_connected_polls s then
           (let s1 = s\<lparr> n64_disconnect_debounce := n64_disconnect_debounce s + 1 \<rparr>
            in if 30 \<le> n64_disconnect_debounce s1 then
                 (s1\<lparr> n64_connected_polls := 0, n64_disconnect_debounce := 0,
                      n64_rumble_pak_initialized := False,
                      n64_prev_buttons := {}, n64_prev_stick_x := 0, n64_prev_stick_y := 0,
                      n64_prev_l := False, n64_prev_r := False \<rparr>,
                  [HostSubmit n64_cleared_event])
               else (s1, []))
         else (s, []))
      else
        (let s1 = s\<lparr> n64_disconnect_debounce := 0 \<rparr>
         in (if n64_connected_polls s1 = 0 then s1\<lparr> n64_connected_polls := 1 \<rparr> else s1, [])))"

text \<open>The rumble-pak initialisation after the tenth connected poll.\<close>

definition n64_pak_step :: "n64_host_state \<Rightarrow> n64_env \<Rightarrow> n64_host_state \<times> host_action list" where
  "n64_pak_step s env =
     (if n64_is_connected env \<and> 0 < n64_connected_polls s \<and> n64_connected_polls s < 255 then
        (let s1 = s\<lparr> n64_connected_polls := n64_connected_polls s + 1 \<rparr>
         in if n64_connected_polls s1 = 10 \<and> \<not> n64_rumble_pak_initialized s1 then
              (if n64_has_pak env then
                 (if n64_init_pak_ok env then s1\<lparr> n64_rumble_pak_initialized := True \<rparr> else s1,
                  [HostInitRumblePak])
               else (s1, []))
            else (s1, []))
      else (s, []))"

text \<open>The input processing, skipped when the poll returned no data.\<close>

definition n64_input_step :: "n64_host_state \<Rightarrow> n64_env \<Rightarrow> n64_host_state \<times> host_action list" where
  "n64_input_step s env =
     (if \<not> n64_poll_success env then (s, [])
      else
        (let report = n64_poll_report env;
             stick_x = convert_stick_axis (n64_stick_x report);
             stick_y = convert_stick_axis (- n64_stick_y report);
             btns = map_n64_to_jp report;
             (c_rx, c_ry) = map_c_buttons_to_analog report
         in if btns = n64_prev_buttons s \<and> n64_stick_x report = n64_prev_stick_x s
               \<and> n64_stick_y report = n64_prev_stick_y s
               \<and> n64_l report = n64_prev_l s \<and> n64_r report = n64_prev_r s
            then (s, [])
            else
              (s\<lparr> n64_prev_buttons := btns, n64_prev_stick_x := n64_stick_x report,
                   n64_prev_stick_y := n64_stick_y report,
                   n64_prev_l := n64_l report, n64_prev_r := n64_r report \<rparr>,
               [HostSubmit (init_input_event\<lparr> dev_addr := 0xE0, ev_instance := 0,
                   ev_type := INPUT_TYPE_GAMEPAD, buttons := btns,
                   analog := (analog init_input_event)
                     (ANALOG_LX := stick_x, ANALOG_LY := stick_y, ANALOG_RX := c_rx,
                      ANALOG_RY := c_ry, ANALOG_L2 := 0, ANALOG_R2 := 0) \<rparr>)])))"

text \<open>\<open>n64_host_flush_rumble\<close>, called at the end of the task.\<close>

definition n64_host_flush_rumble :: "n64_host_state \<Rightarrow> n64_env \<Rightarrow> n64_host_state \<times> host_action list" where
  "n64_host_flush_rumble s env =
     (if \<not> n64_initialized s then (s, [])
      else if \<not> n64_is_connected env then (s, [])
      else if n64_rumble_pending s then
        (if \<not> n64_rumble_time_reached env then (s, [])
         else (s\<lparr> n64_rumble_pending := False \<rparr>,
               if n64_rumble_pak_initialized s then [HostSetRumble (n64_rumble_state s)] else []))
      else (s, []))"

definition n64_host_task :: "n64_host_state \<Rightarrow> n64_env \<Rightarrow> n64_host_state \<times> host_action list" where
  "n64_host_task s env =
     (if \<not> n64_initialized s then (s, [])
      else
        (let (s1, a1) = n64_feedback_step s env;
             (s2, a2) = n64_connection_step s1 env;
             (s3, a3) = n64_pak_step s2 env;
             (s4, a4) = n64_input_step s3 env;
             (s5, a5) = n64_host_flush_rumble s4 env
         in (s5, a1 @ a2 @ a3 @ a4 @ a5)))"

fun n64_run :: "n64_host_state \<Rightarrow> n64_env list \<Rightarrow> n64_host_state \<times> host_action list" where
  "n64_run s [] = (s, [])"
| "n64_run s (e # es) =
     (let (s', acts) = n64_host_task s e;
          (s'', acts') = n64_run s' es
      in (s'', acts @ acts'))"

text \<open>A poll that reports the controller absent: no data and not initialised.\<close>

definition n64_absent :: "n64_env \<Rightarrow> bool" where
  "n64_absent env = (\<not> n64_is_connected env \<and> \<not> n64_poll_success env)"

subsection \<open>GameCube\<close>

record gc_report =
  gc_a :: bool
  gc_b :: bool
  gc_x :: bool
  gc_y :: bool
  gc_l :: bool
  gc_r :: bool
  gc_z :: bool
  gc_start :: bool
  gc_dpad_up :: bool
  gc_dpad_down :: bool
  gc_dpad_left :: bool
  gc_dpad_right :: bool
  gc_stick_x :: u8
  gc_stick_y :: u8
  gc_cstick_x :: u8
  gc_cstick_y :: u8
  gc_l_analog :: u8
  gc_r_analog :: u8

record gc_host_state =
  gc_initialized :: bool
  gc_rumble_state :: bool
  gc_disconnect_debounce :: u8
  gc_was_connected :: bool
  gc_prev_buttons :: "jp_button set"
  gc_prev_stick_x :: u8
  gc_prev_stick_y :: u8
  gc_prev_cstick_x :: u8
  gc_prev_cstick_y :: u8
  gc_prev_l_analog :: u8
  gc_prev_r_analog :: u8

record gc_env =
  gc_feedback :: "host_feedback option"
  gc_poll_success :: bool
  gc_poll_report :: gc_report
  gc_is_connected :: bool

definition map_gc_to_jp :: "gc_report \<Rightarrow> jp_button set" where
  "map_gc_to_jp report =
     btn_if (gc_a report) JP_BUTTON_B2 \<union> btn_if (gc_b report) JP_BUTTON_B1
     \<union> btn_if (gc_x report) JP_BUTTON_B4 \<union> btn_if (gc_y report) JP_BUTTON_B3
     \<union> btn_if (gc_l report) JP_BUTTON_L2 \<union> btn_if (gc_r report) JP_BUTTON_R2
     \<union> btn_if (gc_z report) JP_BUTTON_R1 \<union> btn_if (gc_start report) JP_BUTTON_S2
     \<union> btn_if (gc_dpad_up report) JP_BUTTON_DU \<union> btn_if (gc_dpad_down report) JP_BUTTON_DD
     \<union> btn_if (gc_dpad_left report) JP_BUTTON_DL \<union> btn_if (gc_dpad_right report) JP_BUTTON_DR"

definition gc_cleared_event :: input_event where
  "gc_cleared_event =
     init_input_event\<lparr> dev_addr := 0xD0, ev_instance := 0, ev_type := INPUT_TYPE_GAMEPAD,
        buttons := {},
        analog := (analog init_input_event)
          (ANALOG_LX := 128, ANALOG_LY := 128, ANALOG_RX := 128, ANALOG_RY := 128,
           ANALOG_L2 := 0, ANALOG_R2 := 0) \<rparr>"

definition gc_feedback_step :: "gc_host_state \<Rightarrow> gc_env \<Rightarrow> gc_host_state \<times> host_action list" where
  "gc_feedback_step s env =
     (case gc_feedback env of
        None \<Rightarrow> (s, [])
      | Some fb \<Rightarrow>
          if hf_rumble_dirty fb then
            (let want_rumble = (0 < hf_rumble_left fb \<or> 0 < hf_rumble_right fb)
             in (if want_rumble \<noteq> gc_rumble_state s
                 then s\<lparr> gc_rumble_state := want_rumble \<rparr> else s, [HostFeedbackClearDirty]))
          else (s, []))"

definition gc_connection_step :: "gc_host_state \<Rightarrow> gc_env \<Rightarrow> gc_host_state \<times> host_action list" where
  "gc_connection_step s env =
     (if \<not> gc_is_connected env then
        (if gc_was_connected s then
           (let s1 = s\<lparr> gc_disconnect_debounce := gc_disconnect_debounce s + 1 \<rparr>
            in if 30 \<le> gc_disconnect_debounce s1 then
                 (s1\<lparr> gc_was_connected := False, gc_disconnect_debounce := 0,
                      gc_prev_buttons := {}, gc_prev_stick_x := 128, gc_prev_stick_y := 128,
                      gc_prev_cstick_x := 128, gc_prev_cstick_y := 128,
                      gc_prev_l_analog := 0, gc_prev_r_analog := 0 \<rparr>,
                  [HostSubmit gc_cleared_event])
               else (s1, []))
         else (s, []))
      else
        (let s1 = s\<lparr> gc_disconnect_debounce := 0 \<rparr>
         in (if \<not> gc_was_connected s1 then s1\<lparr> gc_was_connected := True \<rparr> else s1, [])))"

definition gc_input_step :: "gc_host_state \<Rightarrow> gc_env \<Rightarrow> gc_host_state \<times> host_action list" where
  "gc_input_step s env =
     (if \<not> gc_poll_success env then (s, [])
      else
        (let report = gc_poll_report env;
             btns = map_gc_to_jp report;
             stick_x = gc_stick_x report;
             stick_y = 255 - gc_stick_y report;
             cstick_x = gc_cstick_x report;
             cstick_y = 255 - gc_cstick_y report;
             l_analog = gc_l_analog report;
             r_analog = gc_r_analog report
         in (s\<lparr> gc_prev_buttons := btns, gc_prev_stick_x := stick_x, gc_prev_stick_y := stick_y,
                 gc_prev_cstick_x := cstick_x, gc_prev_cstick_y := cstick_y,
                 gc_prev_l_analog := l_analog, gc_prev_r_analog := r_analog \<rparr>,
             [HostSubmit (init_input_event\<lparr> dev_addr := 0xD0, ev_instance := 0,
                 ev_type := INPUT_TYPE_GAMEPAD, buttons := btns,
                 analog := (analog init_input_event)
                   (ANALOG_LX := stick_x, ANALOG_LY := stick_y, ANALOG_RX := cstick_x,
                    ANALOG_RY := cstick_y, ANALOG_L2 := l_analog, ANALOG_R2 := r_analog) \<rparr>)])))"

definition gc_host_task :: "gc_host_state \<Rightarrow> gc_env \<Rightarrow> gc_host_state \<times> host_action list" where
  "gc_host_task s env =
     (if \<not> gc_initialized s then (s, [])
      else
        (let (s1, a1) = gc_feedback_step s env;
             (s2, a2) = gc_connection_step s1 env;
             (s3, a3) = gc_input_step s2 env
         in (s3, a1 @ a2 @ a3)))"

fun gc_run :: "gc_host_state \<Rightarrow> gc_env list \<Rightarrow> gc_host_state \<times> host_action list" where
  "gc_run s [] = (s, [])"
| "gc_run s (e # es) =
     (let (s', acts) = gc_host_task s e;
          (s'', acts') = gc_run s' es
      in (s'', acts @ acts'))"

definition gc_absent :: "gc_env \<Rightarrow> bool" where
  "gc_absent env = (\<not> gc_is_connected env \<and> \<not> gc_poll_success env)"

text \<open>
  The connection state of the N64 port: everything a disconnect resets, that is all of the
  state but the debounce counter and the rumble request.
\<close>

definition n64_same_connection :: "n64_host_state \<Rightarrow> n64_host_state \<Rightarrow> bool" where
  "n64_same_connection s s' =
     (n64_initialized s' = n64_initialized s
      \<and> n64_connected_polls s' = n64_connected_polls s
      \<and> n64_rumble_pak_initialized s' = n64_rumble_pak_initialized s
      \<and> n64_prev_buttons s' = n64_prev_buttons s \<and> n64_prev_stick_x s' = n64_prev_stick_x s
      \<and> n64_prev_stick_y s' = n64_prev_stick_y s \<and> n64_prev_l s' = n64_prev_l s
      \<and> n64_prev_r s' = n64_prev_r s)"

definition gc_same_connection :: "gc_host_state \<Rightarrow> gc_host_state \<Rightarrow> bool" where
  "gc_same_connection s s' =
     (gc_initialized s' = gc_initialized s
      \<and> gc_was_connected s' = gc_was_connected s
      \<and> gc_prev_buttons s' = gc_prev_buttons s \<and> gc_prev_stick_x s' = gc_prev_stick_x s
      \<and> gc_prev_stick_y s' = gc_prev_stick_y s \<and> gc_prev_cstick_x s' = gc_prev_cstick_x s
      \<and> gc_prev_cstick_y s' = gc_prev_cstick_y s \<and> gc_prev_l_analog s' = gc_prev_l_analog s
      \<and> gc_prev_r_analog s' = gc_prev_r_analog s)"

text \<open>
  The driver states left by \<open>n64_host_init_pin\<close> and \<open>gc_host_init_pin\<close> on the static
  initialisers; \<open>prev_buttons = 0xFFFFFFFF\<close> is the set of all buttons.
\<close>

definition n64_host_init_pin :: n64_host_state where
  "n64_host_init_pin =
     \<lparr> n64_initialized = True, n64_rumble_state = False, n64_rumble_pending = False,
       n64_rumble_pak_initialized = False, n64_connected_polls = 0,
       n64_disconnect_debounce = 0, n64_prev_buttons = UNIV, n64_prev_stick_x = 0,
       n64_prev_stick_y = 0, n64_prev_l = False, n64_prev_r = False \<rparr>"

definition gc_host_init_pin :: gc_host_state where
  "gc_host_init_pin =
     \<lparr> gc_initialized = True, gc_rumble_state = False, gc_disconnect_debounce = 0,
       gc_was_connected = False, gc_prev_buttons = UNIV, gc_prev_stick_x = 128,
       gc_prev_stick_y = 128, gc_prev_cstick_x = 128, gc_prev_cstick_y = 128,
       gc_prev_l_analog = 0, gc_prev_r_analog = 0 \<rparr>"

text \<open>Sample polls: a controller at rest answering, and no controller answering.\<close>

definition n64_report_at_rest :: n64_report where
  "n64_report_at_rest =
     \<lparr> n64_a = False, n64_b = False, n64_z = False, n64_start = False, n64_dpad_up = False,
       n64_dpad_down = False, n64_dpad_left = False, n64_dpad_right = False, n64_l = False,
       n64_r = False, n64_c_up = False, n64_c_down = False, n64_c_left = False,
       n64_c_right = False, n64_stick_x = 0, n64_stick_y = 0 \<rparr>"

definition n64_poll_connected :: n64_env where
  "n64_poll_connected =
     \<lparr> n64_feedback = None, n64_poll_success = True, n64_poll_report = n64_report_at_rest,
       n64_is_connected = True, n64_has_pak = False, n64_init_pak_ok = False,
       n64_rumble_time_reached = True \<rparr>"

definition n64_poll_absent :: n64_env where
  "n64_poll_absent =
     n64_poll_connected\<lparr> n64_poll_success := False, n64_is_connected := False \<rparr>"

definition gc_report_at_rest :: gc_report where
  "gc_report_at_rest =
     \<lparr> gc_a = False, gc_b = False, gc_x = False, gc_y = False, gc_l = False, gc_r = False,
       gc_z = False, gc_start = False, gc_dpad_up = False, gc_dpad_down = False,
       gc_dpad_left = False, gc_dpad_right = False, gc_stick_x = 128, gc_stick_y = 128,
       gc_cstick_x = 128, gc_cstick_y = 128, gc_l_analog = 0, gc_r_analog = 0 \<rparr>"

definition gc_poll_connected :: gc_env where
  "gc_poll_connected =
     \<lparr> gc_feedback = None, gc_poll_success = True, gc_poll_report = gc_report_at_rest,
       gc_is_connected = True \<rparr>"

definition gc_poll_absent :: gc_env where
  "gc_poll_absent = gc_poll_connected\<lparr> gc_poll_success := False, gc_is_connected := False \<rparr>"

definition n64_connected_state :: n64_host_state where
  "n64_connected_state = fst (n64_host_task n64_host_init_pin n64_poll_connected)"

definition gc_connected_state :: gc_host_state where
  "gc_connected_state = fst (gc_host_task gc_host_init_pin gc_poll_connected)"

section \<open>Hotkey detection (hotkeys.c)\<close>

text \<open>
  Modelled from the spec: hotkeys.h is not part of the sources at hand. The trigger kinds are
  the three the code compares against (\<open>on_tap\<close>, \<open>on_hold\<close>, \<open>on_release\<close> in the
  specification), a hotkey definition has the fields hotkeys.c reads, and \<open>MAX_HOTKEYS\<close>
  and \<open>MAX_PLAYERS\<close> are parameters. Of the callback pointer only whether it is non-null is
  kept; a call of the callback of hotkey \<open>i\<close> with \<open>(player, held_ms)\<close> is recorded as
  \<open>HotkeyCall i player held_ms\<close>.
\<close>

datatype hotkey_trigger =
    HOTKEY_TRIGGER_ON_TAP
  | HOTKEY_TRIGGER_ON_HOLD
  | HOTKEY_TRIGGER_ON_RELEASE

record HotkeyDef =
  hk_buttons :: u32
  hk_duration_ms :: u32
  hk_trigger :: hotkey_trigger
  hk_callback :: bool
  hk_global :: bool

datatype hotkey_call = HotkeyCall nat u8 u32



record PlayerHoldState =
  held_buttons :: u32
  hold_start_ms :: u32
  holding :: "nat \<Rightarrow> bool"
  triggered :: "nat \<Rightarrow> bool"

record hotkeys_state =
  registered_hotkeys :: "nat \<Rightarrow> HotkeyDef"
  hotkey_active :: "nat \<Rightarrow> bool"
  hotkey_count :: nat
  player_state :: "u8 \<Rightarrow> PlayerHoldState"
  global_buttons :: u32
  global_hold_start_ms :: u32
  global_holding :: "nat \<Rightarrow> bool"
  global_triggered :: "nat \<Rightarrow> bool"


definition hotkeys_unregister :: "nat \<Rightarrow> hotkeys_state \<Rightarrow> int \<Rightarrow> hotkeys_state" where
  "hotkeys_unregister MAX_HOTKEYS s hotkey_id =
     (if 0 \<le> hotkey_id \<and> hotkey_id < int MAX_HOTKEYS
      then s\<lparr> hotkey_active := (hotkey_active s)(nat hotkey_id := False) \<rparr>
      else s)"

definition hotkeys_clear :: "nat \<Rightarrow> hotkeys_state \<Rightarrow> hotkeys_state" where
  "hotkeys_clear MAX_HOTKEYS s =
     s\<lparr> hotkey_count := 0,
        hotkey_active := (\<lambda>i. if i < MAX_HOTKEYS then False else hotkey_active s i) \<rparr>"

definition hotkeys_reset_player :: "nat \<Rightarrow> nat \<Rightarrow> hotkeys_state \<Rightarrow> u8 \<Rightarrow> hotkeys_state" where
  "hotkeys_reset_player MAX_HOTKEYS MAX_PLAYERS s player =
     (if MAX_PLAYERS \<le> unat player then s
      else
        (let st = player_state s player
         in s\<lparr> player_state := (player_state s)(player :=
               st\<lparr> held_buttons := 0, hold_start_ms := 0,
                   holding := (\<lambda>i. if i < MAX_HOTKEYS then False else holding st i),
                   triggered := (\<lambda>i. if i < MAX_HOTKEYS then False else triggered st i) \<rparr>) \<rparr>))"

definition buttons_match :: "u32 \<Rightarrow> u32 \<Rightarrow> bool" where
  "buttons_match current required = (current AND required = required)"

text \<open>\<open>if (hotkey->callback) hotkey->callback(player, held_ms);\<close>\<close>

definition hotkey_fire :: "HotkeyDef \<Rightarrow> nat \<Rightarrow> u8 \<Rightarrow> u32 \<Rightarrow> hotkey_call list" where
  "hotkey_fire hotkey i player held_ms =
     (if hk_callback hotkey then [HotkeyCall i player held_ms] else [])"

text \<open>The body of the loop of \<open>hotkeys_check\<close> for an active per-player hotkey \<open>i\<close>.\<close>

definition hotkeys_check_one ::
  "HotkeyDef \<Rightarrow> nat \<Rightarrow> u32 \<Rightarrow> u32 \<Rightarrow> u8 \<Rightarrow> PlayerHoldState \<Rightarrow> PlayerHoldState \<times> hotkey_call list" where
  "hotkeys_check_one hotkey i now btns player st =
     (let match = buttons_match btns (hk_buttons hotkey);
          was_holding = holding st i
      in if match then
           (let st1 = (if \<not> was_holding
                       then st\<lparr> hold_start_ms := now, triggered := (triggered st)(i := False) \<rparr>
                       else st);
                st2 = st1\<lparr> holding := (holding st1)(i := True) \<rparr>
            in if hk_trigger hotkey = HOTKEY_TRIGGER_ON_HOLD \<and> \<not> triggered st2 i then
                 (let held_ms = now - hold_start_ms st2
                  in if hk_duration_ms hotkey \<le> held_ms
                     then (st2\<lparr> triggered := (triggered st2)(i := True) \<rparr>,
                           hotkey_fire hotkey i player held_ms)
                     else (st2, []))
               else (st2, []))
         else
           (let calls =
                  (if was_holding then
                     (let held_ms = now - hold_start_ms st
                      in if hk_trigger hotkey = HOTKEY_TRIGGER_ON_RELEASE then
                           (if hk_duration_ms hotkey \<le> held_ms
                            then hotkey_fire hotkey i player held_ms else [])
                         else if hk_trigger hotkey = HOTKEY_TRIGGER_ON_TAP then
                           (if held_ms < hk_duration_ms hotkey
                            then hotkey_fire hotkey i player held_ms else [])
                         else [])
                   else [])
            in (st\<lparr> holding := (holding st)(i := False),
                    triggered := (triggered st)(i := False) \<rparr>, calls)))"

text \<open>The loop over the hotkey indices, skipping inactive and global hotkeys.\<close>

fun hotkeys_check_loop ::
  "(nat \<Rightarrow> HotkeyDef) \<Rightarrow> (nat \<Rightarrow> bool) \<Rightarrow> u32 \<Rightarrow> u32 \<Rightarrow> u8 \<Rightarrow> nat list \<Rightarrow> PlayerHoldState
     \<Rightarrow> PlayerHoldState \<times> hotkey_call list" where
  "hotkeys_check_loop hks act now btns player [] st = (st, [])"
| "hotkeys_check_loop hks act now btns player (i # is) st =
     (if \<not> act i \<or> hk_global (hks i) then hotkeys_check_loop hks act now btns player is st
      else
        (let (st1, c1) = hotkeys_check_one (hks i) i now btns player st;
             (st2, c2) = hotkeys_check_loop hks act now btns player is st1
         in (st2, c1 @ c2)))"



















section \<open>Verification: generic HID gamepad scaling\<close>

lemma scale_analog_low:
  assumes M: "2 \<le> uint M" "uint M \<le> 131071" and v: "uint v \<le> uint M div 2"
  shows "\<exists>r. scale_analog v M = Inr r \<and> uint r = 1 + (uint v * 127) div (uint M div 2)"
proof -
  define m where "m = uint M div 2"
  have m: "1 \<le> m" "m \<le> 65535" using M by (auto simp: m_def)
  have um: "uint (word_of_int m :: u16) = m" using m by (simp add: uint_word_of_int)
  have q: "0 \<le> (uint v * 127) div m" "(uint v * 127) div m \<le> 127"
  proof -
    show "0 \<le> (uint v * 127) div m" using m by (simp add: pos_imp_zdiv_nonneg_iff)
    have "uint v * 127 \<le> m * 127" using v by (simp add: m_def)
    then have "(uint v * 127) div m \<le> (m * 127) div m" by (rule zdiv_mono1) (use m in simp)
    then show "(uint v * 127) div m \<le> 127" using m by simp
  qed
  have sd: "(uint v * 127) sdiv m = (uint v * 127) div m"
    using m by (simp add: signed_divide_int_def sgn_if zero_le_mult_iff)
  have w8: "uint (word_of_int k :: u8) = k" if "0 \<le> k" "k < 256" for k
    using that by (simp add: uint_word_of_int)
  have "uint (word_of_int (1 + (uint v * 127) div m) :: u8) = 1 + (uint v * 127) div m"
    by (rule w8) (use q in auto)
  then show ?thesis
    using v m um sd unfolding scale_analog_def Let_def m_def[symmetric] by simp
qed

lemma scale_analog_high:
  assumes M: "2 \<le> uint M" "uint M \<le> 131071" and v: "uint M div 2 < uint v" "uint v \<le> uint M"
  shows "\<exists>r. scale_analog v M = Inr r \<and>
     uint r = 128 + ((uint v - uint M div 2) * 127) div (uint M - uint M div 2)"
proof -
  define m where "m = uint M div 2"
  define d where "d = uint M - m"
  define p where "p = (uint v - m) * 127"
  have m: "1 \<le> m" "m \<le> 65535" using M by (auto simp: m_def)
  have d: "1 \<le> d" "d \<le> 65536" using M by (auto simp: m_def d_def)
  have um: "uint (word_of_int m :: u16) = m" using m by (simp add: uint_word_of_int)
  have p: "0 \<le> p" "p \<le> d * 127" using v by (auto simp: p_def d_def m_def)
  have p2: "p < 2 ^ 31" using p d by simp
  have up: "uint (word_of_int p :: u32) = p" using p p2 by (simp add: uint_word_of_int)
  have ud: "uint (M - word_of_int m) = d"
  proof -
    have "uint (M - word_of_int m) = (uint M - m) mod 2 ^ 32"
      using m by (simp add: uint_word_ariths uint_word_of_int mod_diff_right_eq)
    also have "\<dots> = d" using d M by (simp add: d_def)
    finally show ?thesis .
  qed
  have dn: "M - word_of_int m \<noteq> 0" using ud d by auto
  have q: "0 \<le> p div d" "p div d \<le> 127"
  proof -
    show "0 \<le> p div d" using p d by (simp add: pos_imp_zdiv_nonneg_iff)
    have "p div d \<le> (d * 127) div d" using p(2) by (rule zdiv_mono1) (use d in simp)
    then show "p div d \<le> 127" using d by simp
  qed
  have uq: "uint ((word_of_int p :: u32) div (M - word_of_int m)) = p div d"
    by (simp add: uint_div up ud)
  have us: "uint ((128 :: u32) + (word_of_int p :: u32) div (M - word_of_int m)) = 128 + p div d"
    using q by (simp add: uint_word_ariths uq)
  have uc: "uint (ucast ((128 :: u32) + (word_of_int p :: u32) div (M - word_of_int m)) :: u8)
              = 128 + p div d"
    using q us by (simp add: unsigned_ucast_eq take_bit_int_eq_self)
  have nv: "\<not> uint v \<le> m" using v by (simp add: m_def)
  show ?thesis
    unfolding scale_analog_def Let_def m_def[symmetric] p_def[symmetric]
    using nv um p p2 dn uc by (simp add: d_def)
qed

lemma scale_analog_refines_spec:
  assumes "2 \<le> uint M" "uint M \<le> 131071" "uint v \<le> uint M"
  shows "\<exists>r. scale_analog v M = Inr r \<and> uint r = scale_analog_spec (uint v) (uint M)"
proof (cases "uint v \<le> uint M div 2")
  case True
  with scale_analog_low[OF assms(1,2) True] show ?thesis
    by (simp add: scale_analog_spec_def Let_def)
next
  case False
  then have "uint M div 2 < uint v" by simp
  from scale_analog_high[OF assms(1,2) this assms(3)] False show ?thesis
    by (simp add: scale_analog_spec_def Let_def)
qed

lemma scale_analog_spec_endpoints:
  assumes "2 \<le> M"
  shows "scale_analog_spec 0 M = 1" "scale_analog_spec (M div 2) M = 128"
    "scale_analog_spec M M = 255"
proof -
  have m: "0 < M div 2" "M div 2 < M" using assms by auto
  show "scale_analog_spec 0 M = 1" using m by (simp add: scale_analog_spec_def Let_def)
  show "scale_analog_spec (M div 2) M = 128" using m by (simp add: scale_analog_spec_def Let_def)
  have "M * 127 - M div 2 * 127 = (M - M div 2) * 127" by (simp add: algebra_simps)
  moreover have "(M - M div 2) * 127 div (M - M div 2) = 127"
    using m by (intro nonzero_mult_div_cancel_left) simp
  ultimately have "(M * 127 - M div 2 * 127) div (M - M div 2) = 127" by simp
  then show "scale_analog_spec M M = 255" using m by (simp add: scale_analog_spec_def Let_def)
qed

lemma dynamic_event_sticks:
  "analog (dynamic_event gp data lx ly rx ry l2 r2) ANALOG_LX \<noteq> 0"
  "analog (dynamic_event gp data lx ly rx ry l2 r2) ANALOG_LY \<noteq> 0"
  "analog (dynamic_event gp data lx ly rx ry l2 r2) ANALOG_RX \<noteq> 0"
  "analog (dynamic_event gp data lx ly rx ry l2 r2) ANALOG_RY \<noteq> 0"
  by (simp_all add: dynamic_event_def Let_def)

lemma process_report_dynamic_clamp:
  assumes "process_report_dynamic gp data = Inr (gp', evs)"
  shows "\<exists>e. evs = [e] \<and> gp_event gp' = e \<and> analog e ANALOG_LX \<noteq> 0 \<and> analog e ANALOG_LY \<noteq> 0
            \<and> analog e ANALOG_RX \<noteq> 0 \<and> analog e ANALOG_RY \<noteq> 0"
  using assms unfolding process_report_dynamic_def Let_def
  by (auto split: sum.splits simp: dynamic_event_sticks)

text \<open>
  Claim C6, as stated, at logical maximum 131074 and raw value 2: \<open>mid = 65537\<close> is
  compared as \<open>(uint16_t)mid = 1\<close>, so the code takes the upper branch and returns 0,
  where the spec's formula gives \<open>1 + 254 / 65537 = 1\<close>.
\<close>

theorem scale_analog_large_max_counterexample:
  "uint (2 :: u16) \<le> uint (131074 :: u32) \<and> scale_analog 2 131074 = Inr 0
   \<and> scale_analog_spec (uint (2 :: u16)) (uint (131074 :: u32)) = 1"
  by (simp add: scale_analog_def scale_analog_spec_def Let_def)

text \<open>
  Claim C6 (amended): for every logical maximum \<open>M\<close> with \<open>2 \<le> M \<le> 131071\<close> and raw
  value \<open>v\<close> in \<open>[0, M]\<close>, \<open>scale_analog\<close> returns the spec's value
  \<open>1 + (v * 127) / mid\<close> for \<open>v \<le> mid\<close> and \<open>128 + ((v - mid) * 127) / (M - mid)\<close>
  otherwise; so \<open>v = 0\<close> gives 1, \<open>v = mid\<close> gives 128 and \<open>v = M\<close> gives 255; and
  every event that \<open>process_report_dynamic\<close> submits has its four stick axes nonzero.
\<close>

theorem scale_analog_matches_spec:
  assumes "2 \<le> uint M" "uint M \<le> 131071" "uint v \<le> uint M"
  shows "(\<exists>r. scale_analog v M = Inr r \<and> uint r = scale_analog_spec (uint v) (uint M)
            \<and> (uint v = 0 \<longrightarrow> r = 1) \<and> (uint v = uint M div 2 \<longrightarrow> r = 128)
            \<and> (uint v = uint M \<longrightarrow> r = 255))
         \<and> (\<forall>gp data gp' evs. process_report_dynamic gp data = Inr (gp', evs) \<longrightarrow>
              evs \<noteq> [] \<and> (\<forall>e \<in> set evs. analog e ANALOG_LX \<noteq> 0 \<and> analog e ANALOG_LY \<noteq> 0
                  \<and> analog e ANALOG_RX \<noteq> 0 \<and> analog e ANALOG_RY \<noteq> 0))"
proof (intro conjI allI impI)
  from scale_analog_refines_spec[OF assms] obtain r where
    r: "scale_analog v M = Inr r" "uint r = scale_analog_spec (uint v) (uint M)" by blast
  have e: "scale_analog_spec 0 (uint M) = 1" "scale_analog_spec (uint M div 2) (uint M) = 128"
    "scale_analog_spec (uint M) (uint M) = 255"
    using scale_analog_spec_endpoints[OF assms(1)] by auto
  have "uint v = 0 \<longrightarrow> r = 1" using r(2) e(1) by (auto simp: word_uint_eq_iff)
  moreover have "uint v = uint M div 2 \<longrightarrow> r = 128" using r(2) e(2) by (auto simp: word_uint_eq_iff)
  moreover have "uint v = uint M \<longrightarrow> r = 255" using r(2) e(3) by (auto simp: word_uint_eq_iff)
  ultimately show "\<exists>r. scale_analog v M = Inr r \<and> uint r = scale_analog_spec (uint v) (uint M)
            \<and> (uint v = 0 \<longrightarrow> r = 1) \<and> (uint v = uint M div 2 \<longrightarrow> r = 128)
            \<and> (uint v = uint M \<longrightarrow> r = 255)"
    using r by blast
next
  fix gp data gp' evs
  assume "process_report_dynamic gp data = Inr (gp', evs)"
  from process_report_dynamic_clamp[OF this] show "evs \<noteq> []" by auto
next
  fix gp data gp' evs
  assume "process_report_dynamic gp data = Inr (gp', evs)"
  from process_report_dynamic_clamp[OF this]
  show "\<forall>e \<in> set evs. analog e ANALOG_LX \<noteq> 0 \<and> analog e ANALOG_LY \<noteq> 0
                  \<and> analog e ANALOG_RX \<noteq> 0 \<and> analog e ANALOG_RY \<noteq> 0" by auto
qed

theorem scale_analog_matches_spec_witness:
  "scale_analog 200 255 = Inr 200 \<and> scale_analog_spec 200 255 = 200
   \<and> scale_analog 0 255 = Inr 1 \<and> scale_analog 127 255 = Inr 128 \<and> scale_analog 255 255 = Inr 255
   \<and> (\<exists>gp' e. process_report_dynamic gp_logical_max_255 [0] = Inr (gp', [e])
         \<and> analog e ANALOG_LX = 1)"
proof -
  have h: "2 \<le> uint (255 :: u32)" "uint (255 :: u32) \<le> 131071" by simp_all
  have a: "scale_analog 200 255 = Inr 200 \<and> scale_analog_spec 200 255 = 200"
    using scale_analog_matches_spec[OF h, of 200]
    by (simp add: scale_analog_def scale_analog_spec_def Let_def)
  have b: "scale_analog 0 255 = Inr 1"
    using scale_analog_matches_spec[OF h, of 0] by auto
  have c: "scale_analog 127 255 = Inr 128"
    using scale_analog_matches_spec[OF h, of 127] by auto
  have d: "scale_analog 255 255 = Inr 255"
    using scale_analog_matches_spec[OF h, of 255] by auto
  have x: "extract_field [0] \<lparr> byteIndex = 0, bitMask = 0xFF, loc_max = 255 \<rparr> = 0"
    by (simp add: extract_field_def Let_def)
  have e: "\<exists>gp' e. process_report_dynamic gp_logical_max_255 [0] = Inr (gp', [e])
         \<and> analog e ANALOG_LX = 1"
    using b x
    by (simp add: process_report_dynamic_def gp_logical_max_255_def gp_logical_max_1_def
        scale_axis_if_max_def no_loc_def Let_def dynamic_event_def)
  from a b c d e show ?thesis by blast
qed

section \<open>Verification: division by zero in the generic scaling\<close>

lemma scale_analog_no_div0:
  assumes M: "2 \<le> uint M"
  shows "scale_analog v M \<noteq> Inl DivisionByZero"
proof -
  define m where "m = uint M div 2"
  have m: "1 \<le> m" "m < uint M" using M by (auto simp: m_def)
  have "uint (M - word_of_int m) = (uint M - m) mod 2 ^ 32"
    by (simp add: uint_word_ariths uint_word_of_int mod_diff_right_eq)
  also have "\<dots> = uint M - m" using m uint_bounded[of M] by simp
  finally have "M - word_of_int m \<noteq> 0" using m by auto
  then show ?thesis
    using m unfolding scale_analog_def Let_def m_def[symmetric] by auto
qed

lemma scale_analog_div0_small:
  assumes M: "uint M < 2"
  shows "scale_analog 0 M = Inl DivisionByZero"
  using M by (simp add: scale_analog_def Let_def)

lemma process_report_dynamic_div0:
  assumes "loc_max (xLoc (gp_map gp)) = 1" "extract_field data (xLoc (gp_map gp)) = 0"
  shows "process_report_dynamic gp data = Inl DivisionByZero"
  using assms
  by (simp add: process_report_dynamic_def scale_axis_if_max_def scale_analog_def Let_def)

text \<open>
  Claim C10: \<open>scale_analog\<close> divides by \<open>mid\<close> and by \<open>max_value - mid\<close> without a
  zero guard; it is free of division by zero for every raw value exactly when
  \<open>max_value \<ge> 2\<close>. The caller \<open>process_report_dynamic\<close> only guards
  \<open>max_value \<noteq> 0\<close> (an axis with maximum 0 keeps its default), so an axis with logical
  maximum 1 and raw value 0 reaches the division by zero.
\<close>

theorem scale_analog_division_by_zero:
  "((\<forall>v. scale_analog v M \<noteq> Inl DivisionByZero) \<longleftrightarrow> 2 \<le> uint M)
   \<and> (loc_max loc = 0 \<longrightarrow> scale_axis_if_max dflt data loc = Inr dflt)
   \<and> (loc_max loc \<noteq> 0 \<longrightarrow>
        scale_axis_if_max dflt data loc = scale_analog (extract_field data loc) (loc_max loc))
   \<and> scale_analog 0 1 = Inl DivisionByZero
   \<and> (loc_max (xLoc (gp_map gp)) = 1 \<and> extract_field data (xLoc (gp_map gp)) = 0 \<longrightarrow>
        process_report_dynamic gp data = Inl DivisionByZero)"
proof (intro conjI impI)
  show "(\<forall>v. scale_analog v M \<noteq> Inl DivisionByZero) \<longleftrightarrow> 2 \<le> uint M"
  proof
    assume a: "\<forall>v. scale_analog v M \<noteq> Inl DivisionByZero"
    show "2 \<le> uint M"
    proof (rule ccontr)
      assume "\<not> 2 \<le> uint M"
      then have "uint M < 2" by simp
      from scale_analog_div0_small[OF this] a show False by blast
    qed
  next
    assume "2 \<le> uint M"
    then show "\<forall>v. scale_analog v M \<noteq> Inl DivisionByZero"
      using scale_analog_no_div0 by blast
  qed
next
  assume "loc_max loc = 0"
  then show "scale_axis_if_max dflt data loc = Inr dflt" by (simp add: scale_axis_if_max_def)
next
  assume "loc_max loc \<noteq> 0"
  then show "scale_axis_if_max dflt data loc = scale_analog (extract_field data loc) (loc_max loc)"
    by (simp add: scale_axis_if_max_def)
next
  show "scale_analog 0 1 = Inl DivisionByZero" by (simp add: scale_analog_def Let_def)
next
  assume "loc_max (xLoc (gp_map gp)) = 1 \<and> extract_field data (xLoc (gp_map gp)) = 0"
  then show "process_report_dynamic gp data = Inl DivisionByZero"
    using process_report_dynamic_div0 by blast
qed

theorem scale_analog_division_by_zero_witness:
  "loc_max (xLoc (gp_map gp_logical_max_1)) = 1
   \<and> extract_field [0] (xLoc (gp_map gp_logical_max_1)) = 0
   \<and> process_report_dynamic gp_logical_max_1 [0] = Inl DivisionByZero
   \<and> scale_analog 0 2 \<noteq> Inl DivisionByZero"
proof -
  have a: "loc_max (xLoc (gp_map gp_logical_max_1)) = 1"
    by (simp add: gp_logical_max_1_def)
  have b: "extract_field [0] (xLoc (gp_map gp_logical_max_1)) = 0"
    by (simp add: gp_logical_max_1_def extract_field_def Let_def)
  have c: "process_report_dynamic gp_logical_max_1 [0] = Inl DivisionByZero"
    using scale_analog_division_by_zero[of 2 "xLoc (gp_map gp_logical_max_1)" 128 "[0]"
        gp_logical_max_1] a b by blast
  have d: "scale_analog 0 2 \<noteq> Inl DivisionByZero"
    using scale_analog_division_by_zero[of 2 "xLoc (gp_map gp_logical_max_1)" 128 "[0]"
        gp_logical_max_1] by simp
  from a b c d show ?thesis by blast
qed

section \<open>Verification: 8BitDo Ultimate report decoding\<close>

lemma bitdo_accepted_report:
  assumes "OFFSET_BUTTONS_HI < length data" "data ! 0 = REPORT_ID_GAMEPAD"
  shows "\<exists>ev. bitdo_process_report gp data = (gp\<lparr> bd_event := ev \<rparr>, [ev])
           \<and> analog ev ANALOG_L2 = data ! 7 \<and> analog ev ANALOG_R2 = data ! 6
           \<and> battery_level ev = battery_level (bd_event gp)"
  using assms
  by (auto simp: bitdo_process_report_def Let_def OFFSET_BUTTONS_HI_def OFFSET_RT_def OFFSET_LT_def)

lemma bitdo_press_a_fields:
  "\<exists>ev. bitdo_process_report gp bitdo_report_press_a = (gp\<lparr> bd_event := ev \<rparr>, [ev])
     \<and> buttons ev = {JP_BUTTON_B1}
     \<and> analog ev ANALOG_LX = 128 \<and> analog ev ANALOG_LY = 128
     \<and> analog ev ANALOG_RX = 128 \<and> analog ev ANALOG_RY = 128
     \<and> analog ev ANALOG_L2 = 0 \<and> analog ev ANALOG_R2 = 0"
  by (simp add: bitdo_process_report_def bitdo_report_press_a_def Let_def btn_if_def
      REPORT_ID_GAMEPAD_def OFFSET_HAT_def OFFSET_LX_def OFFSET_LY_def OFFSET_RX_def
      OFFSET_RY_def OFFSET_LT_def OFFSET_RT_def OFFSET_BUTTONS_LO_def OFFSET_BUTTONS_HI_def
      HAT_MASK_def HAT_TO_DPAD_def scale_axis_def)

text \<open>
  Claim C2, as stated, on a driver fresh from \<open>bitdo_init\<close>: byte 1 of the report is
  0x08, the released hat position, so no D-pad button is set and the button set is
  \<open>{B1}\<close>, not \<open>{DU, B1}\<close>; and the driver never reads byte 10, so \<open>battery_level\<close>
  is still 0, not 80.
\<close>

theorem bitdo_press_a_counterexample:
  "map buttons (snd (bitdo_process_report (bitdo_init 0) bitdo_report_press_a)) = [{JP_BUTTON_B1}]
   \<and> {JP_BUTTON_B1} \<noteq> {JP_BUTTON_DU, JP_BUTTON_B1}
   \<and> map battery_level (snd (bitdo_process_report (bitdo_init 0) bitdo_report_press_a)) = [0]
   \<and> (0 :: u8) \<noteq> 80"
proof -
  from bitdo_press_a_fields[of "bitdo_init 0"] obtain ev where
    ev: "bitdo_process_report (bitdo_init 0) bitdo_report_press_a = (bitdo_init 0\<lparr> bd_event := ev \<rparr>, [ev])"
      "buttons ev = {JP_BUTTON_B1}" by blast
  have len: "OFFSET_BUTTONS_HI < length bitdo_report_press_a"
    "bitdo_report_press_a ! 0 = REPORT_ID_GAMEPAD"
    by (simp_all add: bitdo_report_press_a_def OFFSET_BUTTONS_HI_def REPORT_ID_GAMEPAD_def)
  from bitdo_accepted_report[OF len, of "bitdo_init 0"] ev(1)
  have "battery_level ev = battery_level (bd_event (bitdo_init 0))" by auto
  then have "battery_level ev = 0" by (simp add: bitdo_init_def init_input_event_def)
  with ev show ?thesis by auto
qed

text \<open>
  Claim C2 (amended): on the report
  \<open>[0x03,0x08,0x80,0x80,0x80,0x80,0x00,0x00,0x01,0x00,0x50]\<close> the driver submits
  exactly one event, whose button set is exactly \<open>{B1}\<close> (hat value 8 is released), whose
  four stick axes are 128 and whose trigger axes are 0; on every accepted report
  \<open>analog[L2]\<close> is byte 7 and \<open>analog[R2]\<close> is byte 6, and \<open>battery_level\<close> keeps the
  value of the cached event (the driver does not read byte 10).
\<close>

theorem bitdo_press_a_event:
  "(\<exists>ev. bitdo_process_report gp bitdo_report_press_a = (gp\<lparr> bd_event := ev \<rparr>, [ev])
      \<and> buttons ev = {JP_BUTTON_B1}
      \<and> analog ev ANALOG_LX = 128 \<and> analog ev ANALOG_LY = 128
      \<and> analog ev ANALOG_RX = 128 \<and> analog ev ANALOG_RY = 128
      \<and> analog ev ANALOG_L2 = 0 \<and> analog ev ANALOG_R2 = 0
      \<and> analog ev ANALOG_L2 = bitdo_report_press_a ! 7
      \<and> analog ev ANALOG_R2 = bitdo_report_press_a ! 6
      \<and> battery_level ev = battery_level (bd_event gp))
   \<and> (\<forall>data. OFFSET_BUTTONS_HI < length data \<and> data ! 0 = REPORT_ID_GAMEPAD \<longrightarrow>
        (\<exists>ev. bitdo_process_report gp data = (gp\<lparr> bd_event := ev \<rparr>, [ev])
           \<and> analog ev ANALOG_L2 = data ! 7 \<and> analog ev ANALOG_R2 = data ! 6
           \<and> battery_level ev = battery_level (bd_event gp)))"
proof
  have len: "OFFSET_BUTTONS_HI < length bitdo_report_press_a"
    "bitdo_report_press_a ! 0 = REPORT_ID_GAMEPAD"
    by (simp_all add: bitdo_report_press_a_def OFFSET_BUTTONS_HI_def REPORT_ID_GAMEPAD_def)
  from bitdo_press_a_fields[of gp] obtain ev where
    ev: "bitdo_process_report gp bitdo_report_press_a = (gp\<lparr> bd_event := ev \<rparr>, [ev])"
      "buttons ev = {JP_BUTTON_B1}"
      "analog ev ANALOG_LX = 128" "analog ev ANALOG_LY = 128"
      "analog ev ANALOG_RX = 128" "analog ev ANALOG_RY = 128"
      "analog ev ANALOG_L2 = 0" "analog ev ANALOG_R2 = 0" by blast
  from bitdo_accepted_report[OF len, of gp] ev(1)
  have "analog ev ANALOG_L2 = bitdo_report_press_a ! 7"
    "analog ev ANALOG_R2 = bitdo_report_press_a ! 6"
    "battery_level ev = battery_level (bd_event gp)" by auto
  with ev show "\<exists>ev. bitdo_process_report gp bitdo_report_press_a = (gp\<lparr> bd_event := ev \<rparr>, [ev])
      \<and> buttons ev = {JP_BUTTON_B1}
      \<and> analog ev ANALOG_LX = 128 \<and> analog ev ANALOG_LY = 128
      \<and> analog ev ANALOG_RX = 128 \<and> analog ev ANALOG_RY = 128
      \<and> analog ev ANALOG_L2 = 0 \<and> analog ev ANALOG_R2 = 0
      \<and> analog ev ANALOG_L2 = bitdo_report_press_a ! 7
      \<and> analog ev ANALOG_R2 = bitdo_report_press_a ! 6
      \<and> battery_level ev = battery_level (bd_event gp)" by blast
next
  show "\<forall>data. OFFSET_BUTTONS_HI < length data \<and> data ! 0 = REPORT_ID_GAMEPAD \<longrightarrow>
        (\<exists>ev. bitdo_process_report gp data = (gp\<lparr> bd_event := ev \<rparr>, [ev])
           \<and> analog ev ANALOG_L2 = data ! 7 \<and> analog ev ANALOG_R2 = data ! 6
           \<and> battery_level ev = battery_level (bd_event gp))"
    using bitdo_accepted_report by blast
qed

theorem bitdo_press_a_event_witness:
  "map buttons (snd (bitdo_process_report (bitdo_init 3) bitdo_report_press_a)) = [{JP_BUTTON_B1}]
   \<and> submitted_axis ANALOG_LX (snd (bitdo_process_report (bitdo_init 3) bitdo_report_press_a)) = [128]
   \<and> submitted_axis ANALOG_L2
        (snd (bitdo_process_report (bitdo_init 3) [0x03, 0x08, 0x80, 0x80, 0x80, 0x80, 0x11, 0x22, 0x00, 0x00]))
      = [0x22]
   \<and> submitted_axis ANALOG_R2
        (snd (bitdo_process_report (bitdo_init 3) [0x03, 0x08, 0x80, 0x80, 0x80, 0x80, 0x11, 0x22, 0x00, 0x00]))
      = [0x11]"
proof -
  from bitdo_press_a_event[of "bitdo_init 3"] obtain ev where
    "bitdo_process_report (bitdo_init 3) bitdo_report_press_a = (bitdo_init 3\<lparr> bd_event := ev \<rparr>, [ev])"
    "buttons ev = {JP_BUTTON_B1}" "analog ev ANALOG_LX = 128" by blast
  then have a: "map buttons (snd (bitdo_process_report (bitdo_init 3) bitdo_report_press_a)) = [{JP_BUTTON_B1}]"
    "submitted_axis ANALOG_LX (snd (bitdo_process_report (bitdo_init 3) bitdo_report_press_a)) = [128]"
    by (simp_all add: submitted_axis_def)
  have "OFFSET_BUTTONS_HI < length [0x03, 0x08, 0x80, 0x80, 0x80, 0x80, 0x11, 0x22, 0x00, 0x00 :: u8]
        \<and> [0x03, 0x08, 0x80, 0x80, 0x80, 0x80, 0x11, 0x22, 0x00, 0x00 :: u8] ! 0 = REPORT_ID_GAMEPAD"
    by (simp add: OFFSET_BUTTONS_HI_def REPORT_ID_GAMEPAD_def)
  with bitdo_press_a_event[of "bitdo_init 3"] obtain ev' where
    "bitdo_process_report (bitdo_init 3) [0x03, 0x08, 0x80, 0x80, 0x80, 0x80, 0x11, 0x22, 0x00, 0x00]
       = (bitdo_init 3\<lparr> bd_event := ev' \<rparr>, [ev'])"
    "analog ev' ANALOG_L2 = [0x03, 0x08, 0x80, 0x80, 0x80, 0x80, 0x11, 0x22, 0x00, 0x00] ! 7"
    "analog ev' ANALOG_R2 = [0x03, 0x08, 0x80, 0x80, 0x80, 0x80, 0x11, 0x22, 0x00, 0x00] ! 6"
    by blast
  then have b: "submitted_axis ANALOG_L2
        (snd (bitdo_process_report (bitdo_init 3) [0x03, 0x08, 0x80, 0x80, 0x80, 0x80, 0x11, 0x22, 0x00, 0x00]))
      = [0x22]"
    "submitted_axis ANALOG_R2
        (snd (bitdo_process_report (bitdo_init 3) [0x03, 0x08, 0x80, 0x80, 0x80, 0x80, 0x11, 0x22, 0x00, 0x00]))
      = [0x11]"
    by (simp_all add: submitted_axis_def)
  from a b show ?thesis by blast
qed

section \<open>Verification: Switch 2 stick calibration\<close>

lemma sw2_valid_length:
  "sw2_valid d \<Longrightarrow> sw2_select_report d = Some (sw2_report d) \<and> 16 \<le> length (sw2_report d)"
  by (auto simp: sw2_valid_def sw2_report_def sw2_select_report_def split: if_splits)

lemma sw2_invalid_step:
  "\<not> sw2_valid d \<Longrightarrow> switch2_ble_process_report s d = (s, [])"
  by (simp add: sw2_valid_def switch2_ble_process_report_def)

lemma sw2_cal_first:
  assumes "sw2_valid d" "cal_samples s = 0"
  shows "switch2_ble_process_report s d =
     (s\<lparr> cal_lx_center := sw2_raw_lx (sw2_report d), cal_ly_center := sw2_raw_ly (sw2_report d),
         cal_rx_center := sw2_raw_rx (sw2_report d), cal_ry_center := sw2_raw_ry (sw2_report d),
         cal_samples := 1 \<rparr>, [])"
  using sw2_valid_length[OF assms(1)] assms(2)
  by (simp add: switch2_ble_process_report_def Let_def CAL_SAMPLES_NEEDED_def)

lemma sw2_cal_next:
  assumes "sw2_valid d" "cal_samples s \<noteq> 0" "cal_samples s < 4"
  shows "switch2_ble_process_report s d =
     (s\<lparr> cal_lx_center := avg_u16 (cal_lx_center s) (sw2_raw_lx (sw2_report d)),
         cal_ly_center := avg_u16 (cal_ly_center s) (sw2_raw_ly (sw2_report d)),
         cal_rx_center := avg_u16 (cal_rx_center s) (sw2_raw_rx (sw2_report d)),
         cal_ry_center := avg_u16 (cal_ry_center s) (sw2_raw_ry (sw2_report d)),
         cal_samples := cal_samples s + 1 \<rparr>, [])"
  using sw2_valid_length[OF assms(1)] assms(2,3)
  by (simp add: switch2_ble_process_report_def Let_def CAL_SAMPLES_NEEDED_def)

lemma sw2_calibrating_no_event:
  assumes "cal_samples s < 4"
  shows "snd (switch2_ble_process_report s d) = []"
  using assms
  by (auto simp: switch2_ble_process_report_def Let_def CAL_SAMPLES_NEEDED_def split: option.splits)

lemma sw2_ready_step:
  assumes "sw2_valid d" "4 \<le> cal_samples s"
  shows "\<exists>ev. switch2_ble_process_report s d = (s\<lparr> sw2_event := ev \<rparr>, [ev])
     \<and> analog ev ANALOG_LX =
         scale_analog_calibrated (sw2_raw_lx (sw2_report d)) (cal_lx_center s) (sw2_left_range (sw2_pid s))
     \<and> analog ev ANALOG_LY = 255 -
         scale_analog_calibrated (sw2_raw_ly (sw2_report d)) (cal_ly_center s) (sw2_left_range (sw2_pid s))
     \<and> analog ev ANALOG_RX =
         scale_analog_calibrated (sw2_raw_rx (sw2_report d)) (cal_rx_center s) (sw2_right_range (sw2_pid s))
     \<and> analog ev ANALOG_RY = 255 -
         scale_analog_calibrated (sw2_raw_ry (sw2_report d)) (cal_ry_center s) (sw2_right_range (sw2_pid s))"
proof -
  have "\<not> cal_samples s < CAL_SAMPLES_NEEDED"
    using assms(2) by (simp add: CAL_SAMPLES_NEEDED_def not_less)
  then show ?thesis
    using sw2_valid_length[OF assms(1)]
    by (simp add: switch2_ble_process_report_def Let_def sw2_left_range_def sw2_right_range_def)
qed

lemma sw2_four:
  assumes v: "sw2_valid d1" "sw2_valid d2" "sw2_valid d3" "sw2_valid d4" and c: "cal_samples s = 0"
  shows "switch2_run s [d1, d2, d3, d4] =
     (s\<lparr> cal_lx_center := sw2_running_center (sw2_raw_lx (sw2_report d1)) (sw2_raw_lx (sw2_report d2))
            (sw2_raw_lx (sw2_report d3)) (sw2_raw_lx (sw2_report d4)),
         cal_ly_center := sw2_running_center (sw2_raw_ly (sw2_report d1)) (sw2_raw_ly (sw2_report d2))
            (sw2_raw_ly (sw2_report d3)) (sw2_raw_ly (sw2_report d4)),
         cal_rx_center := sw2_running_center (sw2_raw_rx (sw2_report d1)) (sw2_raw_rx (sw2_report d2))
            (sw2_raw_rx (sw2_report d3)) (sw2_raw_rx (sw2_report d4)),
         cal_ry_center := sw2_running_center (sw2_raw_ry (sw2_report d1)) (sw2_raw_ry (sw2_report d2))
            (sw2_raw_ry (sw2_report d3)) (sw2_raw_ry (sw2_report d4)),
         cal_samples := 4 \<rparr>, [])"
  by (simp add: sw2_cal_first[OF v(1) c] sw2_cal_next v sw2_running_center_def)

lemma sw2_run_ready:
  assumes "\<forall>d \<in> set ds. sw2_valid d" "4 \<le> cal_samples s"
  shows "length (snd (switch2_run s ds)) = length ds
     \<and> cal_samples (fst (switch2_run s ds)) = cal_samples s
     \<and> cal_lx_center (fst (switch2_run s ds)) = cal_lx_center s
     \<and> cal_ly_center (fst (switch2_run s ds)) = cal_ly_center s
     \<and> cal_rx_center (fst (switch2_run s ds)) = cal_rx_center s
     \<and> cal_ry_center (fst (switch2_run s ds)) = cal_ry_center s"
  using assms
proof (induction ds arbitrary: s)
  case Nil
  then show ?case by simp
next
  case (Cons d ds)
  from Cons.prems have v: "sw2_valid d" by simp
  from sw2_ready_step[OF v Cons.prems(2)] obtain ev where
    st: "switch2_ble_process_report s d = (s\<lparr> sw2_event := ev \<rparr>, [ev])" by blast
  have "4 \<le> cal_samples (s\<lparr> sw2_event := ev \<rparr>)" using Cons.prems(2) by simp
  from Cons.IH[OF _ this] Cons.prems(1) st show ?case
    by (simp add: case_prod_beta)
qed

lemma sw2_run_filter: "switch2_run s ds = switch2_run s (filter sw2_valid ds)"
  by (induction ds arbitrary: s) (simp_all add: sw2_invalid_step)

lemma sw2_report_of_axes_valid:
  "sw2_valid (sw2_report_of_axes a b c d)"
  "sw2_report (sw2_report_of_axes a b c d) = sw2_report_of_axes a b c d"
  by (simp_all add: sw2_valid_def sw2_report_def sw2_select_report_def sw2_report_of_axes_def)

text \<open>
  Claim C3, as stated, on a Pro Controller 2 whose first four reports carry the raw LX
  values 0, 0, 0 and 4000: the calibrated LX center is 2000, while the average of the four
  values is 1000.
\<close>

theorem switch2_average_counterexample:
  "sw2_valid (sw2_report_of_axes 0 0 0 0) \<and> sw2_valid (sw2_report_of_axes 4000 0 0 0)
   \<and> sw2_raw_lx (sw2_report (sw2_report_of_axes 0 0 0 0)) = 0
   \<and> sw2_raw_lx (sw2_report (sw2_report_of_axes 4000 0 0 0)) = 4000
   \<and> cal_lx_center (fst (switch2_run (switch2_ble_init 0 0x2069)
        [sw2_report_of_axes 0 0 0 0, sw2_report_of_axes 0 0 0 0,
         sw2_report_of_axes 0 0 0 0, sw2_report_of_axes 4000 0 0 0])) = 2000
   \<and> sw2_mean_center 0 0 0 4000 = 1000"
proof -
  have r0: "sw2_raw_lx (sw2_report_of_axes 0 0 0 0) = 0"
    by (simp add: sw2_raw_lx_def sw2_report_of_axes_def nth_append)
  have r4: "sw2_raw_lx (sw2_report_of_axes 4000 0 0 0) = 4000"
    by (simp add: sw2_raw_lx_def sw2_report_of_axes_def nth_append)
  have c0: "cal_samples (switch2_ble_init 0 0x2069) = 0" by (simp add: switch2_ble_init_def)
  have "cal_lx_center (fst (switch2_run (switch2_ble_init 0 0x2069)
        [sw2_report_of_axes 0 0 0 0, sw2_report_of_axes 0 0 0 0,
         sw2_report_of_axes 0 0 0 0, sw2_report_of_axes 4000 0 0 0])) = sw2_running_center 0 0 0 4000"
    unfolding sw2_four[OF sw2_report_of_axes_valid(1) sw2_report_of_axes_valid(1)
          sw2_report_of_axes_valid(1) sw2_report_of_axes_valid(1) c0]
    by (simp add: sw2_report_of_axes_valid(2) r0 r4)
  moreover have "sw2_running_center 0 0 0 4000 = 2000"
    by (simp add: sw2_running_center_def avg_u16_def)
  moreover have "sw2_mean_center 0 0 0 4000 = 1000"
    by (simp add: sw2_mean_center_def)
  ultimately show ?thesis
    using r0 r4 by (simp add: sw2_report_of_axes_valid)
qed

text \<open>
  Claim C3 (amended): starting uncalibrated, the driver folds the raw 12-bit stick values
  of the first 4 valid input reports into the calibrated centers by a running pairwise
  average (the first sample, then \<open>center := (center + raw) / 2\<close> for each of the next
  three) and submits no event during these 4 reports; from the 5th valid report onward
  every valid report submits exactly one event, whose stick axes are the raw values scaled
  around the calibrated centers (Y axes inverted), and the centers no longer change.
  Reports that are too short are dropped without effect.
\<close>

theorem switch2_calibration_then_forward:
  assumes c: "cal_samples s = 0"
    and v: "sw2_valid d1" "sw2_valid d2" "sw2_valid d3" "sw2_valid d4" "sw2_valid d5"
  shows "\<exists>s4 ev. switch2_run s [d1, d2, d3, d4] = (s4, [])
     \<and> snd (switch2_run s [d1]) = [] \<and> snd (switch2_run s [d1, d2]) = []
     \<and> snd (switch2_run s [d1, d2, d3]) = []
     \<and> cal_samples s4 = 4
     \<and> cal_lx_center s4 = sw2_running_center (sw2_raw_lx (sw2_report d1))
          (sw2_raw_lx (sw2_report d2)) (sw2_raw_lx (sw2_report d3)) (sw2_raw_lx (sw2_report d4))
     \<and> cal_ly_center s4 = sw2_running_center (sw2_raw_ly (sw2_report d1))
          (sw2_raw_ly (sw2_report d2)) (sw2_raw_ly (sw2_report d3)) (sw2_raw_ly (sw2_report d4))
     \<and> cal_rx_center s4 = sw2_running_center (sw2_raw_rx (sw2_report d1))
          (sw2_raw_rx (sw2_report d2)) (sw2_raw_rx (sw2_report d3)) (sw2_raw_rx (sw2_report d4))
     \<and> cal_ry_center s4 = sw2_running_center (sw2_raw_ry (sw2_report d1))
          (sw2_raw_ry (sw2_report d2)) (sw2_raw_ry (sw2_report d3)) (sw2_raw_ry (sw2_report d4))
     \<and> switch2_ble_process_report s4 d5 = (s4\<lparr> sw2_event := ev \<rparr>, [ev])
     \<and> analog ev ANALOG_LX = scale_analog_calibrated (sw2_raw_lx (sw2_report d5))
          (cal_lx_center s4) (sw2_left_range (sw2_pid s))
     \<and> analog ev ANALOG_LY = 255 - scale_analog_calibrated (sw2_raw_ly (sw2_report d5))
          (cal_ly_center s4) (sw2_left_range (sw2_pid s))
     \<and> analog ev ANALOG_RX = scale_analog_calibrated (sw2_raw_rx (sw2_report d5))
          (cal_rx_center s4) (sw2_right_range (sw2_pid s))
     \<and> analog ev ANALOG_RY = 255 - scale_analog_calibrated (sw2_raw_ry (sw2_report d5))
          (cal_ry_center s4) (sw2_right_range (sw2_pid s))
     \<and> (\<forall>ds. (\<forall>d \<in> set ds. sw2_valid d) \<longrightarrow>
          length (snd (switch2_run s4 ds)) = length ds
          \<and> cal_lx_center (fst (switch2_run s4 ds)) = cal_lx_center s4
          \<and> cal_ly_center (fst (switch2_run s4 ds)) = cal_ly_center s4
          \<and> cal_rx_center (fst (switch2_run s4 ds)) = cal_rx_center s4
          \<and> cal_ry_center (fst (switch2_run s4 ds)) = cal_ry_center s4)
     \<and> (\<forall>ds. switch2_run s ds = switch2_run s (filter sw2_valid ds))"
proof -
  define s4 where "s4 = fst (switch2_run s [d1, d2, d3, d4])"
  note four = sw2_four[OF v(1-4) c]
  have run: "switch2_run s [d1, d2, d3, d4] = (s4, [])" unfolding s4_def four by simp
  have s4: "cal_samples s4 = 4" "sw2_pid s4 = sw2_pid s"
    "cal_lx_center s4 = sw2_running_center (sw2_raw_lx (sw2_report d1))
          (sw2_raw_lx (sw2_report d2)) (sw2_raw_lx (sw2_report d3)) (sw2_raw_lx (sw2_report d4))"
    "cal_ly_center s4 = sw2_running_center (sw2_raw_ly (sw2_report d1))
          (sw2_raw_ly (sw2_report d2)) (sw2_raw_ly (sw2_report d3)) (sw2_raw_ly (sw2_report d4))"
    "cal_rx_center s4 = sw2_running_center (sw2_raw_rx (sw2_report d1))
          (sw2_raw_rx (sw2_report d2)) (sw2_raw_rx (sw2_report d3)) (sw2_raw_rx (sw2_report d4))"
    "cal_ry_center s4 = sw2_running_center (sw2_raw_ry (sw2_report d1))
          (sw2_raw_ry (sw2_report d2)) (sw2_raw_ry (sw2_report d3)) (sw2_raw_ry (sw2_report d4))"
    unfolding s4_def four by simp_all
  have p1: "snd (switch2_run s [d1]) = []"
    by (simp add: sw2_cal_first[OF v(1) c])
  have p2: "snd (switch2_run s [d1, d2]) = []"
    by (simp add: sw2_cal_first[OF v(1) c] sw2_cal_next v)
  have p3: "snd (switch2_run s [d1, d2, d3]) = []"
    by (simp add: sw2_cal_first[OF v(1) c] sw2_cal_next v)
  have ge: "4 \<le> cal_samples s4" using s4(1) by simp
  from sw2_ready_step[OF v(5) ge] obtain ev where
    ev: "switch2_ble_process_report s4 d5 = (s4\<lparr> sw2_event := ev \<rparr>, [ev])"
      "analog ev ANALOG_LX = scale_analog_calibrated (sw2_raw_lx (sw2_report d5))
          (cal_lx_center s4) (sw2_left_range (sw2_pid s))"
      "analog ev ANALOG_LY = 255 - scale_analog_calibrated (sw2_raw_ly (sw2_report d5))
          (cal_ly_center s4) (sw2_left_range (sw2_pid s))"
      "analog ev ANALOG_RX = scale_analog_calibrated (sw2_raw_rx (sw2_report d5))
          (cal_rx_center s4) (sw2_right_range (sw2_pid s))"
      "analog ev ANALOG_RY = 255 - scale_analog_calibrated (sw2_raw_ry (sw2_report d5))
          (cal_ry_center s4) (sw2_right_range (sw2_pid s))"
    unfolding s4(2) by blast
  have later: "\<forall>ds. (\<forall>d \<in> set ds. sw2_valid d) \<longrightarrow>
          length (snd (switch2_run s4 ds)) = length ds
          \<and> cal_lx_center (fst (switch2_run s4 ds)) = cal_lx_center s4
          \<and> cal_ly_center (fst (switch2_run s4 ds)) = cal_ly_center s4
          \<and> cal_rx_center (fst (switch2_run s4 ds)) = cal_rx_center s4
          \<and> cal_ry_center (fst (switch2_run s4 ds)) = cal_ry_center s4"
    using sw2_run_ready[OF _ ge] by blast
  have filt: "\<forall>ds. switch2_run s ds = switch2_run s (filter sw2_valid ds)"
    using sw2_run_filter by blast
  show ?thesis
    apply (rule exI[of _ s4], rule exI[of _ ev])
    using run p1 p2 p3 s4(1,3,4,5,6) ev later filt by (intro conjI)
qed

theorem switch2_calibration_then_forward_witness:
  "snd (switch2_run (switch2_ble_init 0 0x2069)
        [sw2_report_of_axes 2048 2048 2048 2048, sw2_report_of_axes 2048 2048 2048 2048,
         sw2_report_of_axes 2048 2048 2048 2048, sw2_report_of_axes 2048 2048 2048 2048]) = []
   \<and> length (snd (switch2_run (switch2_ble_init 0 0x2069)
        [sw2_report_of_axes 2048 2048 2048 2048, sw2_report_of_axes 2048 2048 2048 2048,
         sw2_report_of_axes 2048 2048 2048 2048, sw2_report_of_axes 2048 2048 2048 2048,
         sw2_report_of_axes 0 4095 2048 2048])) = 1"
proof -
  let ?r = "sw2_report_of_axes 2048 2048 2048 2048"
  let ?q = "sw2_report_of_axes 0 4095 2048 2048"
  have c0: "cal_samples (switch2_ble_init 0 0x2069) = 0" by (simp add: switch2_ble_init_def)
  from switch2_calibration_then_forward[OF c0 sw2_report_of_axes_valid(1)
      sw2_report_of_axes_valid(1) sw2_report_of_axes_valid(1) sw2_report_of_axes_valid(1)
      sw2_report_of_axes_valid(1), of 2048 2048 2048 2048 2048 2048 2048 2048 2048 2048 2048 2048
      2048 2048 2048 2048 0 4095 2048 2048]
  obtain s4 ev where
    a: "switch2_run (switch2_ble_init 0 0x2069) [?r, ?r, ?r, ?r] = (s4, [])"
    and b: "switch2_ble_process_report s4 ?q = (s4\<lparr> sw2_event := ev \<rparr>, [ev])"
    by blast
  have "switch2_run (switch2_ble_init 0 0x2069) ([?r, ?r, ?r, ?r] @ [?q])
        = (s4\<lparr> sw2_event := ev \<rparr>, [ev])"
    using a b by (simp add: case_prod_beta)
  then show ?thesis using a by simp
qed

section \<open>Verification: Wii U Pro connect state machine\<close>


lemma wii_u_task_wait_init:
  assumes "wu_state w = WII_U_STATE_WAIT_INIT"
  shows "wii_u_task w e = (if deadline_reached (now_us e) (wu_init_time w)
                           then (w\<lparr> wu_state := WII_U_STATE_SEND_STATUS_REQ \<rparr>, []) else (w, []))"
  using assms by (simp add: wii_u_task_def)

lemma wii_u_task_send:
  assumes "wii_u_waiting_state (wu_state w) = Some ws" "can_send e []"
  shows "\<exists>cmd pl. wii_u_task w e =
           (w\<lparr> wu_player_led := pl, wu_state := ws, wu_init_time := now_us e + 1000000 \<rparr>, [cmd])
         \<and> (wu_state w = WII_U_STATE_SEND_STATUS_REQ \<longrightarrow> cmd = wii_u_request_status \<and> pl = wu_player_led w)
         \<and> (wu_state w = WII_U_STATE_SEND_EXT_INIT1 \<longrightarrow> cmd = wii_u_write_data 0xA400F0 0x55 \<and> pl = wu_player_led w)
         \<and> (wu_state w = WII_U_STATE_SEND_EXT_INIT2 \<longrightarrow> cmd = wii_u_write_data 0xA400FB 0x00 \<and> pl = wu_player_led w)
         \<and> (wu_state w = WII_U_STATE_READ_EXT_TYPE \<longrightarrow> cmd = wii_u_read_data 0xA400FA 6 \<and> pl = wu_player_led w)
         \<and> (wu_state w = WII_U_STATE_SEND_REPORT_MODE \<longrightarrow> cmd = wii_u_set_report_mode \<and> pl = wu_player_led w)
         \<and> (wu_state w = WII_U_STATE_SEND_LED \<longrightarrow> cmd = wii_u_set_leds 1 \<and> pl = 0x10)"
  using assms
  by (cases "wu_state w") (simp_all add: wii_u_task_def wii_u_send_step_def)

lemma wii_u_task_send_blocked:
  assumes "wii_u_waiting_state (wu_state w) = Some ws" "\<not> can_send e []"
  shows "wii_u_task w e = (w, [])"
  using assms
  by (cases "wu_state w") (simp_all add: wii_u_task_def wii_u_send_step_def)

lemma wii_u_task_wait:
  assumes "wii_u_resend_state (wu_state w) = Some again" "wii_u_giveup_state (wu_state w) = Some onward"
  shows "wii_u_task w e =
     (if \<not> deadline_reached (now_us e) (wu_init_time w) then (w, [])
      else if wu_init_retries w + 1 < 5
      then (w\<lparr> wu_init_retries := wu_init_retries w + 1, wu_state := again \<rparr>, [])
      else if wu_state w = WII_U_STATE_WAIT_LED_ACK
      then (w\<lparr> wu_init_retries := 0, wu_state := onward,
               wu_last_keepalive := now_us e, wu_last_report := 0 \<rparr>, [])
      else (w\<lparr> wu_init_retries := 0, wu_state := onward \<rparr>, []))"
  using assms
  by (cases "wu_state w")
     (simp_all add: wii_u_task_def wii_u_wait_timeout_def Let_def WII_U_INIT_MAX_RETRIES_def)

lemma wii_u_feedback_no_status:
  "wii_u_request_status \<notin> set (snd (wii_u_ready_feedback w e))"
  by (auto simp: wii_u_ready_feedback_def Let_def wii_u_request_status_def wii_u_set_rumble_def
      wii_u_set_leds_raw_def WIIU_CMD_STATUS_REQ_def split: if_splits prod.splits)

lemma wii_u_task_keepalive:
  assumes "wu_state w = WII_U_STATE_READY"
  shows "(wii_u_request_status \<in> set (snd (wii_u_task w e))) \<longleftrightarrow>
           (30000000 \<le> sint (now_us e - wu_last_keepalive w) \<and> can_send e (snd (wii_u_ready_feedback w e)))"
    and "wii_u_request_status \<in> set (snd (wii_u_task w e)) \<Longrightarrow>
           wu_last_keepalive (fst (wii_u_task w e)) = now_us e"
    and "wu_state (fst (wii_u_task w e)) = WII_U_STATE_READY"
proof -
  have k: "wu_last_keepalive (fst (wii_u_ready_feedback w e)) = wu_last_keepalive w"
    "wu_state (fst (wii_u_ready_feedback w e)) = wu_state w"
    by (auto simp: wii_u_ready_feedback_def Let_def split: if_splits prod.splits)
  show "(wii_u_request_status \<in> set (snd (wii_u_task w e))) \<longleftrightarrow>
           (30000000 \<le> sint (now_us e - wu_last_keepalive w) \<and> can_send e (snd (wii_u_ready_feedback w e)))"
    using assms k wii_u_feedback_no_status[of w e]
    by (auto simp: wii_u_task_def wii_u_ready_task_def WII_U_KEEPALIVE_MS_def case_prod_beta)
  show "wii_u_request_status \<in> set (snd (wii_u_task w e)) \<Longrightarrow>
           wu_last_keepalive (fst (wii_u_task w e)) = now_us e"
    using assms k wii_u_feedback_no_status[of w e]
    by (auto simp: wii_u_task_def wii_u_ready_task_def WII_U_KEEPALIVE_MS_def case_prod_beta split: if_splits)
  show "wu_state (fst (wii_u_task w e)) = WII_U_STATE_READY"
    using assms k
    by (auto simp: wii_u_task_def wii_u_ready_task_def WII_U_KEEPALIVE_MS_def case_prod_beta split: if_splits)
qed

lemma wii_u_report_status:
  assumes "wu_state w = WII_U_STATE_WAIT_STATUS" "7 \<le> length d" "d ! 0 = 0x20" "d ! 3 AND 0x02 \<noteq> 0"
  shows "wii_u_process_report w n d = (w\<lparr> wu_state := WII_U_STATE_SEND_EXT_INIT1 \<rparr>, [])"
  using assms
  by (auto simp: wii_u_process_report_def Let_def WIIU_REPORT_STATUS_def WIIU_REPORT_EXT_21_def
      WIIU_REPORT_EXT_16_def WIIU_REPORT_EXT_19_def)

lemma wii_u_report_ack:
  assumes "5 \<le> length d" "d ! 0 = 0x22" "d ! 4 = 0"
  shows "wu_state w = WII_U_STATE_WAIT_EXT_INIT1_ACK \<Longrightarrow> d ! 3 = 0x16 \<Longrightarrow>
           wii_u_process_report w n d = (w\<lparr> wu_state := WII_U_STATE_SEND_EXT_INIT2 \<rparr>, [])"
    and "wu_state w = WII_U_STATE_WAIT_EXT_INIT2_ACK \<Longrightarrow> d ! 3 = 0x16 \<Longrightarrow>
           wii_u_process_report w n d = (w\<lparr> wu_state := WII_U_STATE_READ_EXT_TYPE \<rparr>, [])"
    and "wu_state w = WII_U_STATE_WAIT_REPORT_ACK \<Longrightarrow> d ! 3 = 0x12 \<Longrightarrow>
           wii_u_process_report w n d = (w\<lparr> wu_state := WII_U_STATE_SEND_LED \<rparr>, [])"
  using assms
  by (auto simp: wii_u_process_report_def Let_def WIIU_REPORT_STATUS_def WIIU_REPORT_EXT_21_def
      WIIU_REPORT_EXT_16_def WIIU_REPORT_EXT_19_def WIIU_REPORT_ACK_def WIIU_CMD_WRITE_DATA_def
      WIIU_CMD_REPORT_MODE_def WIIU_CMD_LED_def)

lemma wii_u_report_read:
  assumes "wu_state w = WII_U_STATE_WAIT_EXT_TYPE" "7 \<le> length d" "d ! 0 = 0x21"
  shows "wii_u_process_report w n d = (w\<lparr> wu_state := WII_U_STATE_SEND_REPORT_MODE \<rparr>, [])"
  using assms
  by (auto simp: wii_u_process_report_def Let_def WIIU_REPORT_STATUS_def WIIU_REPORT_EXT_21_def
      WIIU_REPORT_EXT_16_def WIIU_REPORT_EXT_19_def WIIU_REPORT_ACK_def WIIU_REPORT_READ_DATA_def)

lemma wii_u_report_first_input:
  assumes "wu_state w = WII_U_STATE_WAIT_LED_ACK" "wu_last_report w = 0" "22 \<le> length d" "d ! 0 = 0x3D"
  shows "wii_u_process_report w n d =
           (w\<lparr> wu_state := WII_U_STATE_READY, wu_last_report := n,
               wu_event := wii_u_decode_ext (wu_event w) (drop 1 d) \<rparr>,
            [SubmitInput (wii_u_decode_ext (wu_event w) (drop 1 d))])"
  using assms
  by (auto simp: wii_u_process_report_def Let_def WIIU_REPORT_EXT_21_def wii_u_first_report_state_def)



lemma sint_of_nat_diff:
  assumes "d < 2 ^ 31" "k < 2 ^ 31"
  shows "sint ((t + of_nat d) - (t + of_nat k) :: u32) = int d - int k"
proof -
  have "(t + of_nat d) - (t + of_nat k) = (word_of_int (int d - int k) :: u32)"
    by simp
  moreover have w: "sint (word_of_int j :: u32) = j" if "- (2 ^ 31) \<le> j" "j < 2 ^ 31" for j
    using that by (simp add: sint_sbintrunc' signed_take_bit_int_eq_self)
  have "sint (word_of_int (int d - int k) :: u32) = int d - int k"
    by (rule w) (use assms in auto)
  ultimately show ?thesis by (simp only:)
qed

lemma deadline_reached_elapsed:
  assumes "d < 2 ^ 31" "k < 2 ^ 31"
  shows "deadline_reached (t + of_nat d) (t + of_nat k) \<longleftrightarrow> k \<le> d"
  using sint_of_nat_diff[OF assms, of t] by (simp add: deadline_reached_def)

lemma keepalive_elapsed:
  assumes "d < 2 ^ 31"
  shows "sint ((t + of_nat d) - t :: u32) = int d"
  using sint_of_nat_diff[OF assms, of 0 t] by simp



lemma wii_u_happy_run:
  assumes fresh: "wu_last_report slot = 0"
    and delay: "deadline_reached (now_us e1) (t0 + 100000)"
    and cs: "can_send e2 []" "can_send e3 []" "can_send e4 []" "can_send e5 []"
      "can_send e6 []" "can_send e7 []"
    and st: "7 \<le> length st" "st ! 0 = 0x20" "st ! 3 AND 0x02 \<noteq> 0"
    and a1: "5 \<le> length a1" "a1 ! 0 = 0x22" "a1 ! 3 = 0x16" "a1 ! 4 = 0"
    and a2: "5 \<le> length a2" "a2 ! 0 = 0x22" "a2 ! 3 = 0x16" "a2 ! 4 = 0"
    and rd: "7 \<le> length rd" "rd ! 0 = 0x21"
    and a3: "5 \<le> length a3" "a3 ! 0 = 0x22" "a3 ! 3 = 0x12" "a3 ! 4 = 0"
    and inp: "22 \<le> length inp" "inp ! 0 = 0x3D"
  shows "\<exists>w ev. wii_u_run (wii_u_init slot conn t0)
           [Task e1, Task e2, Report n1 st, Task e3, Report n2 a1, Task e4, Report n3 a2,
            Task e5, Report n4 rd, Task e6, Report n5 a3, Task e7, Report n6 inp]
         = (w, [wii_u_request_status, wii_u_write_data 0xA400F0 0x55,
                wii_u_write_data 0xA400FB 0x00, wii_u_read_data 0xA400FA 6,
                wii_u_set_report_mode, wii_u_set_leds 1, SubmitInput ev])
       \<and> wu_state w = WII_U_STATE_READY \<and> wu_event w = ev"
proof -
  define w0 where "w0 = wii_u_init slot conn t0"
  have w0: "wu_state w0 = WII_U_STATE_WAIT_INIT" "wu_init_time w0 = t0 + 100000"
    "wu_last_report w0 = 0"
    using fresh by (simp_all add: w0_def wii_u_init_def WII_U_INIT_DELAY_MS_def)
  define w1 where "w1 = w0\<lparr> wu_state := WII_U_STATE_SEND_STATUS_REQ \<rparr>"
  have s1: "wii_u_task w0 e1 = (w1, [])"
    using wii_u_task_wait_init[OF w0(1), of e1] delay w0(2) by (simp add: w1_def)
  have w1: "wu_state w1 = WII_U_STATE_SEND_STATUS_REQ" "wu_last_report w1 = 0"
    using w0 by (simp_all add: w1_def)
  obtain w2 where s2: "wii_u_task w1 e2 = (w2, [wii_u_request_status])"
    and w2: "wu_state w2 = WII_U_STATE_WAIT_STATUS" "wu_last_report w2 = 0"
    using wii_u_task_send[of w1 WII_U_STATE_WAIT_STATUS e2] w1 cs(1) by auto
  define w3 where "w3 = w2\<lparr> wu_state := WII_U_STATE_SEND_EXT_INIT1 \<rparr>"
  have s3: "wii_u_process_report w2 n1 st = (w3, [])"
    using wii_u_report_status[OF w2(1) st] by (simp add: w3_def)
  have w3: "wu_state w3 = WII_U_STATE_SEND_EXT_INIT1" "wu_last_report w3 = 0"
    using w2 by (simp_all add: w3_def)
  obtain w4 where s4: "wii_u_task w3 e3 = (w4, [wii_u_write_data 0xA400F0 0x55])"
    and w4: "wu_state w4 = WII_U_STATE_WAIT_EXT_INIT1_ACK" "wu_last_report w4 = 0"
    using wii_u_task_send[of w3 WII_U_STATE_WAIT_EXT_INIT1_ACK e3] w3 cs(2) by auto
  define w5 where "w5 = w4\<lparr> wu_state := WII_U_STATE_SEND_EXT_INIT2 \<rparr>"
  have s5: "wii_u_process_report w4 n2 a1 = (w5, [])"
    using wii_u_report_ack(1)[OF a1(1,2,4) w4(1) a1(3)] by (simp add: w5_def)
  have w5: "wu_state w5 = WII_U_STATE_SEND_EXT_INIT2" "wu_last_report w5 = 0"
    using w4 by (simp_all add: w5_def)
  obtain w6 where s6: "wii_u_task w5 e4 = (w6, [wii_u_write_data 0xA400FB 0x00])"
    and w6: "wu_state w6 = WII_U_STATE_WAIT_EXT_INIT2_ACK" "wu_last_report w6 = 0"
    using wii_u_task_send[of w5 WII_U_STATE_WAIT_EXT_INIT2_ACK e4] w5 cs(3) by auto
  define w7 where "w7 = w6\<lparr> wu_state := WII_U_STATE_READ_EXT_TYPE \<rparr>"
  have s7: "wii_u_process_report w6 n3 a2 = (w7, [])"
    using wii_u_report_ack(2)[OF a2(1,2,4) w6(1) a2(3)] by (simp add: w7_def)
  have w7: "wu_state w7 = WII_U_STATE_READ_EXT_TYPE" "wu_last_report w7 = 0"
    using w6 by (simp_all add: w7_def)
  obtain w8 where s8: "wii_u_task w7 e5 = (w8, [wii_u_read_data 0xA400FA 6])"
    and w8: "wu_state w8 = WII_U_STATE_WAIT_EXT_TYPE" "wu_last_report w8 = 0"
    using wii_u_task_send[of w7 WII_U_STATE_WAIT_EXT_TYPE e5] w7 cs(4) by auto
  define w9 where "w9 = w8\<lparr> wu_state := WII_U_STATE_SEND_REPORT_MODE \<rparr>"
  have s9: "wii_u_process_report w8 n4 rd = (w9, [])"
    using wii_u_report_read[OF w8(1) rd] by (simp add: w9_def)
  have w9: "wu_state w9 = WII_U_STATE_SEND_REPORT_MODE" "wu_last_report w9 = 0"
    using w8 by (simp_all add: w9_def)
  obtain w10 where s10: "wii_u_task w9 e6 = (w10, [wii_u_set_report_mode])"
    and w10: "wu_state w10 = WII_U_STATE_WAIT_REPORT_ACK" "wu_last_report w10 = 0"
    using wii_u_task_send[of w9 WII_U_STATE_WAIT_REPORT_ACK e6] w9 cs(5) by auto
  define w11 where "w11 = w10\<lparr> wu_state := WII_U_STATE_SEND_LED \<rparr>"
  have s11: "wii_u_process_report w10 n5 a3 = (w11, [])"
    using wii_u_report_ack(3)[OF a3(1,2,4) w10(1) a3(3)] by (simp add: w11_def)
  have w11: "wu_state w11 = WII_U_STATE_SEND_LED" "wu_last_report w11 = 0"
    using w10 by (simp_all add: w11_def)
  obtain w12 where s12: "wii_u_task w11 e7 = (w12, [wii_u_set_leds 1])"
    and w12: "wu_state w12 = WII_U_STATE_WAIT_LED_ACK" "wu_last_report w12 = 0"
    using wii_u_task_send[of w11 WII_U_STATE_WAIT_LED_ACK e7] w11 cs(6) by auto
  define ev where "ev = wii_u_decode_ext (wu_event w12) (drop 1 inp)"
  define w13 where "w13 = w12\<lparr> wu_state := WII_U_STATE_READY, wu_last_report := n6, wu_event := ev \<rparr>"
  have s13: "wii_u_process_report w12 n6 inp = (w13, [SubmitInput ev])"
    using wii_u_report_first_input[OF w12 inp] by (simp add: w13_def ev_def)
  have "wii_u_run w0
           [Task e1, Task e2, Report n1 st, Task e3, Report n2 a1, Task e4, Report n3 a2,
            Task e5, Report n4 rd, Task e6, Report n5 a3, Task e7, Report n6 inp]
         = (w13, [wii_u_request_status, wii_u_write_data 0xA400F0 0x55,
                wii_u_write_data 0xA400FB 0x00, wii_u_read_data 0xA400FA 6,
                wii_u_set_report_mode, wii_u_set_leds 1, SubmitInput ev])"
    by (simp add: s1 s2 s3 s4 s5 s6 s7 s8 s9 s10 s11 s12 s13)
  moreover have "wu_state w13 = WII_U_STATE_READY" "wu_event w13 = ev" by (simp_all add: w13_def)
  ultimately show ?thesis unfolding w0_def by blast
qed

lemma wii_u_command_bytes:
  "wii_u_request_status = SendRaw [0xA2, 0x15, 0x00]"
  "wii_u_write_data 0xA400F0 0x55 = SendRaw ([0xA2, 0x16, 0x04, 0xA4, 0x00, 0xF0, 0x01, 0x55] @ replicate 15 0)"
  "wii_u_write_data 0xA400FB 0x00 = SendRaw ([0xA2, 0x16, 0x04, 0xA4, 0x00, 0xFB, 0x01, 0x00] @ replicate 15 0)"
  "wii_u_read_data 0xA400FA 6 = SendRaw [0xA2, 0x17, 0x04, 0xA4, 0x00, 0xFA, 0x00, 0x06]"
  "wii_u_set_report_mode = SendRaw [0xA2, 0x12, 0x04, 0x3D]"
  "wii_u_set_leds 1 = SendRaw [0xA2, 0x11, 0x10]"
  by (simp_all add: wii_u_request_status_def wii_u_write_data_def wii_u_read_data_def
      wii_u_set_report_mode_def wii_u_set_leds_def wii_u_set_leds_raw_def
      WIIU_CMD_STATUS_REQ_def WIIU_CMD_WRITE_DATA_def WIIU_CMD_READ_DATA_def)


text \<open>
  The happy path on a fresh slot, one whose \<open>last_report\<close> is 0 as in the zero-initialised
  table: the connect state machine, started by \<open>wii_u_init\<close> at time \<open>t0\<close>, stays idle until the 100 ms initial delay has passed and then
  performs, in order: status request; on the status report with the extension flag the
  write of 0x55 to 0xA400F0; on its ACK the write of 0x00 to 0xA400FB; on its ACK the read
  of 6 bytes from 0xA400FA; on the read response report mode 0x3D; on its ACK the player-1
  LED (0x10, bit 4 of report 0x11); the first 0x3D input report then moves the machine to
  READY and submits a canonical event. Every sending state sets a deadline 1 s ahead; a
  waiting state does nothing before the deadline, and on a time-out counts a retry and
  sends again while the count is below 5, else goes on with the count reset. In READY a
  status request is sent exactly when 30 s have passed since the last keep-alive (and the
  channel can send), and the keep-alive time is then reset.
\<close>

theorem wii_u_init_happy_path:
  assumes fresh: "wu_last_report slot = 0"
    and delay: "deadline_reached (now_us e1) (t0 + 100000)"
    and cs: "can_send e2 []" "can_send e3 []" "can_send e4 []" "can_send e5 []"
      "can_send e6 []" "can_send e7 []"
    and st: "7 \<le> length st" "st ! 0 = 0x20" "st ! 3 AND 0x02 \<noteq> 0"
    and a1: "5 \<le> length a1" "a1 ! 0 = 0x22" "a1 ! 3 = 0x16" "a1 ! 4 = 0"
    and a2: "5 \<le> length a2" "a2 ! 0 = 0x22" "a2 ! 3 = 0x16" "a2 ! 4 = 0"
    and rd: "7 \<le> length rd" "rd ! 0 = 0x21"
    and a3: "5 \<le> length a3" "a3 ! 0 = 0x22" "a3 ! 3 = 0x12" "a3 ! 4 = 0"
    and inp: "22 \<le> length inp" "inp ! 0 = 0x3D"
  shows "(\<exists>w ev. wii_u_run (wii_u_init slot conn t0)
             [Task e1, Task e2, Report n1 st, Task e3, Report n2 a1, Task e4, Report n3 a2,
              Task e5, Report n4 rd, Task e6, Report n5 a3, Task e7, Report n6 inp]
           = (w, [SendRaw [0xA2, 0x15, 0x00],
                  SendRaw ([0xA2, 0x16, 0x04, 0xA4, 0x00, 0xF0, 0x01, 0x55] @ replicate 15 0),
                  SendRaw ([0xA2, 0x16, 0x04, 0xA4, 0x00, 0xFB, 0x01, 0x00] @ replicate 15 0),
                  SendRaw [0xA2, 0x17, 0x04, 0xA4, 0x00, 0xFA, 0x00, 0x06],
                  SendRaw [0xA2, 0x12, 0x04, 0x3D],
                  SendRaw [0xA2, 0x11, 0x10],
                  SubmitInput ev])
         \<and> wu_state w = WII_U_STATE_READY \<and> wu_event w = ev)
     \<and> (\<forall>d. d < 2 ^ 31 \<longrightarrow>
           (deadline_reached (t0 + of_nat d) (wu_init_time (wii_u_init slot conn t0)) \<longleftrightarrow> 100000 \<le> d))
     \<and> (\<forall>e :: task_env. \<not> deadline_reached (now_us e) (t0 + 100000) \<longrightarrow>
           wii_u_task (wii_u_init slot conn t0) e = (wii_u_init slot conn t0, []))
     \<and> (\<forall>(w :: wii_u_pro_data) (e :: task_env) ws. wii_u_waiting_state (wu_state w) = Some ws \<and> can_send e [] \<longrightarrow>
           wu_state (fst (wii_u_task w e)) = ws
           \<and> wu_init_time (fst (wii_u_task w e)) = now_us e + 1000000
           \<and> length (snd (wii_u_task w e)) = 1
           \<and> (\<forall>d. d < 2 ^ 31 \<longrightarrow>
                 (deadline_reached (now_us e + of_nat d) (wu_init_time (fst (wii_u_task w e)))
                    \<longleftrightarrow> 1000000 \<le> d)))
     \<and> (\<forall>(w :: wii_u_pro_data) (e :: task_env) again onward.
           wii_u_resend_state (wu_state w) = Some again
           \<and> wii_u_giveup_state (wu_state w) = Some onward \<longrightarrow>
             (\<not> deadline_reached (now_us e) (wu_init_time w) \<longrightarrow> wii_u_task w e = (w, []))
           \<and> (deadline_reached (now_us e) (wu_init_time w) \<and> wu_init_retries w + 1 < 5 \<longrightarrow>
                wii_u_task w e =
                  (w\<lparr> wu_init_retries := wu_init_retries w + 1, wu_state := again \<rparr>, []))
           \<and> (deadline_reached (now_us e) (wu_init_time w) \<and> \<not> wu_init_retries w + 1 < 5 \<longrightarrow>
                wu_state (fst (wii_u_task w e)) = onward
                \<and> wu_init_retries (fst (wii_u_task w e)) = 0
                \<and> snd (wii_u_task w e) = []))
     \<and> (\<forall>(w :: wii_u_pro_data) (e :: task_env). wu_state w = WII_U_STATE_READY \<longrightarrow>
           ((SendRaw [0xA2, 0x15, 0x00] \<in> set (snd (wii_u_task w e))) \<longleftrightarrow>
              (30000000 \<le> sint (now_us e - wu_last_keepalive w)
               \<and> can_send e (snd (wii_u_ready_feedback w e))))
           \<and> (SendRaw [0xA2, 0x15, 0x00] \<in> set (snd (wii_u_task w e)) \<longrightarrow>
                wu_last_keepalive (fst (wii_u_task w e)) = now_us e)
           \<and> wu_state (fst (wii_u_task w e)) = WII_U_STATE_READY
           \<and> (\<forall>d. d < 2 ^ 31 \<longrightarrow>
                 sint ((wu_last_keepalive w + of_nat d) - wu_last_keepalive w) = int d))"
proof (intro conjI)
  show "\<exists>w ev. wii_u_run (wii_u_init slot conn t0)
             [Task e1, Task e2, Report n1 st, Task e3, Report n2 a1, Task e4, Report n3 a2,
              Task e5, Report n4 rd, Task e6, Report n5 a3, Task e7, Report n6 inp]
           = (w, [SendRaw [0xA2, 0x15, 0x00],
                  SendRaw ([0xA2, 0x16, 0x04, 0xA4, 0x00, 0xF0, 0x01, 0x55] @ replicate 15 0),
                  SendRaw ([0xA2, 0x16, 0x04, 0xA4, 0x00, 0xFB, 0x01, 0x00] @ replicate 15 0),
                  SendRaw [0xA2, 0x17, 0x04, 0xA4, 0x00, 0xFA, 0x00, 0x06],
                  SendRaw [0xA2, 0x12, 0x04, 0x3D],
                  SendRaw [0xA2, 0x11, 0x10],
                  SubmitInput ev])
         \<and> wu_state w = WII_U_STATE_READY \<and> wu_event w = ev"
    using wii_u_happy_run[OF fresh delay cs st a1 a2 rd a3 inp, of conn n1 n2 n3 n4 n5 n6]
    unfolding wii_u_command_bytes .
next
  have it: "wu_init_time (wii_u_init slot conn t0) = t0 + of_nat 100000"
    by (simp add: wii_u_init_def WII_U_INIT_DELAY_MS_def)
  show "\<forall>d. d < 2 ^ 31 \<longrightarrow>
           (deadline_reached (t0 + of_nat d) (wu_init_time (wii_u_init slot conn t0)) \<longleftrightarrow> 100000 \<le> d)"
    unfolding it using deadline_reached_elapsed[of _ 100000 t0] by simp
next
  have "wu_state (wii_u_init slot conn t0) = WII_U_STATE_WAIT_INIT"
    "wu_init_time (wii_u_init slot conn t0) = t0 + 100000"
    by (simp_all add: wii_u_init_def WII_U_INIT_DELAY_MS_def)
  then show "\<forall>e :: task_env. \<not> deadline_reached (now_us e) (t0 + 100000) \<longrightarrow>
           wii_u_task (wii_u_init slot conn t0) e = (wii_u_init slot conn t0, [])"
    using wii_u_task_wait_init[of "wii_u_init slot conn t0"] by simp
next
  show "\<forall>(w :: wii_u_pro_data) (e :: task_env) ws. wii_u_waiting_state (wu_state w) = Some ws \<and> can_send e [] \<longrightarrow>
           wu_state (fst (wii_u_task w e)) = ws
           \<and> wu_init_time (fst (wii_u_task w e)) = now_us e + 1000000
           \<and> length (snd (wii_u_task w e)) = 1
           \<and> (\<forall>d. d < 2 ^ 31 \<longrightarrow>
                 (deadline_reached (now_us e + of_nat d) (wu_init_time (fst (wii_u_task w e)))
                    \<longleftrightarrow> 1000000 \<le> d))"
  proof (intro allI impI)
    fix w :: wii_u_pro_data and e :: task_env and ws
    assume h: "wii_u_waiting_state (wu_state w) = Some ws \<and> can_send e []"
    from wii_u_task_send[of w ws e] h obtain cmd pl where
      t: "wii_u_task w e =
           (w\<lparr> wu_player_led := pl, wu_state := ws, wu_init_time := now_us e + 1000000 \<rparr>, [cmd])"
      by blast
    have "\<forall>d. d < 2 ^ 31 \<longrightarrow>
            (deadline_reached (now_us e + of_nat d) (now_us e + of_nat 1000000) \<longleftrightarrow> 1000000 \<le> d)"
      using deadline_reached_elapsed[of _ 1000000 "now_us e"] by simp
    then show "wu_state (fst (wii_u_task w e)) = ws
           \<and> wu_init_time (fst (wii_u_task w e)) = now_us e + 1000000
           \<and> length (snd (wii_u_task w e)) = 1
           \<and> (\<forall>d. d < 2 ^ 31 \<longrightarrow>
                 (deadline_reached (now_us e + of_nat d) (wu_init_time (fst (wii_u_task w e)))
                    \<longleftrightarrow> 1000000 \<le> d))"
      unfolding t by simp
  qed
next
  show "\<forall>(w :: wii_u_pro_data) (e :: task_env) again onward.
           wii_u_resend_state (wu_state w) = Some again
           \<and> wii_u_giveup_state (wu_state w) = Some onward \<longrightarrow>
             (\<not> deadline_reached (now_us e) (wu_init_time w) \<longrightarrow> wii_u_task w e = (w, []))
           \<and> (deadline_reached (now_us e) (wu_init_time w) \<and> wu_init_retries w + 1 < 5 \<longrightarrow>
                wii_u_task w e =
                  (w\<lparr> wu_init_retries := wu_init_retries w + 1, wu_state := again \<rparr>, []))
           \<and> (deadline_reached (now_us e) (wu_init_time w) \<and> \<not> wu_init_retries w + 1 < 5 \<longrightarrow>
                wu_state (fst (wii_u_task w e)) = onward
                \<and> wu_init_retries (fst (wii_u_task w e)) = 0
                \<and> snd (wii_u_task w e) = [])"
  proof (intro allI impI)
    fix w :: wii_u_pro_data and e :: task_env and again onward
    assume h: "wii_u_resend_state (wu_state w) = Some again
           \<and> wii_u_giveup_state (wu_state w) = Some onward"
    then have t: "wii_u_task w e =
     (if \<not> deadline_reached (now_us e) (wu_init_time w) then (w, [])
      else if wu_init_retries w + 1 < 5
      then (w\<lparr> wu_init_retries := wu_init_retries w + 1, wu_state := again \<rparr>, [])
      else if wu_state w = WII_U_STATE_WAIT_LED_ACK
      then (w\<lparr> wu_init_retries := 0, wu_state := onward,
               wu_last_keepalive := now_us e, wu_last_report := 0 \<rparr>, [])
      else (w\<lparr> wu_init_retries := 0, wu_state := onward \<rparr>, []))"
      using wii_u_task_wait[of w again onward e] by blast
    show "(\<not> deadline_reached (now_us e) (wu_init_time w) \<longrightarrow> wii_u_task w e = (w, []))
           \<and> (deadline_reached (now_us e) (wu_init_time w) \<and> wu_init_retries w + 1 < 5 \<longrightarrow>
                wii_u_task w e =
                  (w\<lparr> wu_init_retries := wu_init_retries w + 1, wu_state := again \<rparr>, []))
           \<and> (deadline_reached (now_us e) (wu_init_time w) \<and> \<not> wu_init_retries w + 1 < 5 \<longrightarrow>
                wu_state (fst (wii_u_task w e)) = onward
                \<and> wu_init_retries (fst (wii_u_task w e)) = 0
                \<and> snd (wii_u_task w e) = [])"
      unfolding t by simp
  qed
next
  show "\<forall>(w :: wii_u_pro_data) (e :: task_env). wu_state w = WII_U_STATE_READY \<longrightarrow>
           ((SendRaw [0xA2, 0x15, 0x00] \<in> set (snd (wii_u_task w e))) \<longleftrightarrow>
              (30000000 \<le> sint (now_us e - wu_last_keepalive w)
               \<and> can_send e (snd (wii_u_ready_feedback w e))))
           \<and> (SendRaw [0xA2, 0x15, 0x00] \<in> set (snd (wii_u_task w e)) \<longrightarrow>
                wu_last_keepalive (fst (wii_u_task w e)) = now_us e)
           \<and> wu_state (fst (wii_u_task w e)) = WII_U_STATE_READY
           \<and> (\<forall>d. d < 2 ^ 31 \<longrightarrow>
                 sint ((wu_last_keepalive w + of_nat d) - wu_last_keepalive w) = int d)"
    using wii_u_task_keepalive keepalive_elapsed
    unfolding wii_u_command_bytes(1) by blast
qed


theorem wii_u_init_happy_path_witness:
  "wu_state (fst (wii_u_run (wii_u_init wii_u_zero_slot 0 1000) wiiu_happy_calls)) = WII_U_STATE_READY
   \<and> length (snd (wii_u_run (wii_u_init wii_u_zero_slot 0 1000) wiiu_happy_calls)) = 7
   \<and> take 6 (snd (wii_u_run (wii_u_init wii_u_zero_slot 0 1000) wiiu_happy_calls))
      = [SendRaw [0xA2, 0x15, 0x00],
         SendRaw ([0xA2, 0x16, 0x04, 0xA4, 0x00, 0xF0, 0x01, 0x55] @ replicate 15 0),
         SendRaw ([0xA2, 0x16, 0x04, 0xA4, 0x00, 0xFB, 0x01, 0x00] @ replicate 15 0),
         SendRaw [0xA2, 0x17, 0x04, 0xA4, 0x00, 0xFA, 0x00, 0x06],
         SendRaw [0xA2, 0x12, 0x04, 0x3D],
         SendRaw [0xA2, 0x11, 0x10]]
   \<and> length (submitted_events (snd (wii_u_run (wii_u_init wii_u_zero_slot 0 1000) wiiu_happy_calls))) = 1"
proof -
  have fresh: "wu_last_report wii_u_zero_slot = 0" by (simp add: wii_u_zero_slot_def)
  have delay: "deadline_reached (now_us (env_at 101000)) (1000 + 100000)"
    by (simp add: deadline_reached_def env_at_def)
  have cs: "can_send (env_at t) []" for t by (simp add: env_at_def)
  have st: "7 \<le> length wiiu_status_ext" "wiiu_status_ext ! 0 = 0x20"
    "wiiu_status_ext ! 3 AND 0x02 \<noteq> 0"
    by (simp_all add: wiiu_status_ext_def)
  have a1: "5 \<le> length (wiiu_ack 0x16)" "wiiu_ack 0x16 ! 0 = 0x22" "wiiu_ack 0x16 ! 3 = 0x16"
    "wiiu_ack 0x16 ! 4 = 0"
    by (simp_all add: wiiu_ack_def)
  have a3: "5 \<le> length (wiiu_ack 0x12)" "wiiu_ack 0x12 ! 0 = 0x22" "wiiu_ack 0x12 ! 3 = 0x12"
    "wiiu_ack 0x12 ! 4 = 0"
    by (simp_all add: wiiu_ack_def)
  have rd: "7 \<le> length wiiu_read_response" "wiiu_read_response ! 0 = 0x21"
    by (simp_all add: wiiu_read_response_def)
  have inp: "22 \<le> length wiiu_input_neutral" "wiiu_input_neutral ! 0 = 0x3D"
    by (simp_all add: wiiu_input_neutral_def)
  note hp = wii_u_init_happy_path[OF fresh delay cs[of 102000] cs[of 104000] cs[of 106000]
      cs[of 108000] cs[of 110000] cs[of 112000] st a1 a1 rd a3 inp,
      where conn = 0 and ?n1.0 = 103000 and ?n2.0 = 105000 and ?n3.0 = 107000
        and ?n4.0 = 109000 and ?n5.0 = 111000 and ?n6.0 = 113000]
  from hp[THEN conjunct1]
  obtain w ev where
    "wii_u_run (wii_u_init wii_u_zero_slot 0 1000) wiiu_happy_calls
       = (w, [SendRaw [0xA2, 0x15, 0x00],
              SendRaw ([0xA2, 0x16, 0x04, 0xA4, 0x00, 0xF0, 0x01, 0x55] @ replicate 15 0),
              SendRaw ([0xA2, 0x16, 0x04, 0xA4, 0x00, 0xFB, 0x01, 0x00] @ replicate 15 0),
              SendRaw [0xA2, 0x17, 0x04, 0xA4, 0x00, 0xFA, 0x00, 0x06],
              SendRaw [0xA2, 0x12, 0x04, 0x3D],
              SendRaw [0xA2, 0x11, 0x10],
              SubmitInput ev])"
    "wu_state w = WII_U_STATE_READY"
    unfolding wiiu_happy_calls_def by blast
  then show ?thesis by simp
qed

text \<open>
  C4: the first 0x3D input report does not always move the machine to READY. The transition
  is taken only while \<open>last_report\<close> of the slot is 0, and neither \<open>wii_u_init\<close> nor
  \<open>wii_u_disconnect\<close> clears it (the LED ACK and the LED time-out do, when they enter READY).
  The first session on the zero-initialised slot ends in READY with \<open>last_report = 113000\<close>.
  After a disconnect and a new \<open>wii_u_init\<close> on the same slot the value is still there:
  the same happy-path calls send the same six commands and submit the event of the first
  0x3D report, but the machine stays in WAIT_LED_ACK; one more 0x3D report and a task call do
  not move it, the ACK of the LED command does. On a fresh slot the same calls, at the same
  times, end in READY.
\<close>

theorem wii_u_second_session_not_ready:
  "wu_state wiiu_first_session = WII_U_STATE_READY
   \<and> wu_last_report wiiu_first_session = 113000
   \<and> wu_state wiiu_second_session = WII_U_STATE_WAIT_INIT
   \<and> wu_last_report wiiu_second_session = 113000
   \<and> wu_state (fst (wii_u_run wiiu_second_session wiiu_happy_calls_again))
       = WII_U_STATE_WAIT_LED_ACK
   \<and> raw_sends (snd (wii_u_run wiiu_second_session wiiu_happy_calls_again))
       = [[0xA2, 0x15, 0x00],
          [0xA2, 0x16, 0x04, 0xA4, 0x00, 0xF0, 0x01, 0x55] @ replicate 15 0,
          [0xA2, 0x16, 0x04, 0xA4, 0x00, 0xFB, 0x01, 0x00] @ replicate 15 0,
          [0xA2, 0x17, 0x04, 0xA4, 0x00, 0xFA, 0x00, 0x06],
          [0xA2, 0x12, 0x04, 0x3D],
          [0xA2, 0x11, 0x10]]
   \<and> length (snd (wii_u_run wiiu_second_session wiiu_happy_calls_again)) = 7
   \<and> length (submitted_events (snd (wii_u_run wiiu_second_session wiiu_happy_calls_again))) = 1
   \<and> wu_state (fst (wii_u_run wiiu_second_session
         (wiiu_happy_calls_again @ [Report 5114000 wiiu_input_neutral, Task (env_at 5115000)])))
       = WII_U_STATE_WAIT_LED_ACK
   \<and> wu_state (fst (wii_u_run wiiu_second_session
         (wiiu_happy_calls_again @ [Report 5114000 (wiiu_ack 0x11)]))) = WII_U_STATE_READY
   \<and> wu_state (fst (wii_u_run (wii_u_init wii_u_zero_slot 0 5001000) wiiu_happy_calls_again))
       = WII_U_STATE_READY"
  by code_simp

section \<open>Verification: ranges of the submitted stick axes\<close>


lemma uint_255_minus: "uint (255 - w :: u8) = 255 - uint w"
proof -
  have "w \<le> 255" by (simp add: word_le_def) (use uint_bounded[of w] in simp)
  then show ?thesis by (simp add: uint_minus_simple_alt)
qed

lemma scale_analog_calibrated_uint:
  "uint (scale_analog_calibrated val c r) = sw2_clamped_offset val c r + 128"
proof -
  define x where "x = sw2_clamped_offset val c r"
  have b: "- 128 \<le> x" "x \<le> 127" by (auto simp: x_def sw2_clamped_offset_def)
  have w8: "uint (word_of_int k :: u8) = k" if "0 \<le> k" "k < 256" for k
    using that by (simp add: uint_word_of_int)
  have "scale_analog_calibrated val c r = word_of_int (x + 128)"
    unfolding scale_analog_calibrated_def Let_def x_def sw2_clamped_offset_def
    by (auto simp: max_def min_def)
  moreover have "uint (word_of_int (x + 128) :: u8) = x + 128"
    by (rule w8) (use b in auto)
  ultimately show ?thesis by (simp add: x_def)
qed

lemma sw2_clamped_offset_bounds:
  "- 128 \<le> sw2_clamped_offset val c r" "sw2_clamped_offset val c r \<le> 127"
  by (auto simp: sw2_clamped_offset_def)

lemma sw2_submitted_axes:
  assumes "e \<in> set (snd (switch2_ble_process_report s d))"
  shows "analog e ANALOG_LX =
         scale_analog_calibrated (sw2_raw_lx (sw2_report d)) (cal_lx_center s) (sw2_left_range (sw2_pid s))
     \<and> analog e ANALOG_LY = 255 -
         scale_analog_calibrated (sw2_raw_ly (sw2_report d)) (cal_ly_center s) (sw2_left_range (sw2_pid s))
     \<and> analog e ANALOG_RX =
         scale_analog_calibrated (sw2_raw_rx (sw2_report d)) (cal_rx_center s) (sw2_right_range (sw2_pid s))
     \<and> analog e ANALOG_RY = 255 -
         scale_analog_calibrated (sw2_raw_ry (sw2_report d)) (cal_ry_center s) (sw2_right_range (sw2_pid s))"
proof (cases "sw2_valid d \<and> 4 \<le> cal_samples s")
  case True
  with sw2_ready_step[of d s] assms show ?thesis by auto
next
  case False
  then have "snd (switch2_ble_process_report s d) = []"
    using sw2_invalid_step[of d s] sw2_calibrating_no_event[of s d] by (auto simp: not_le)
  with assms show ?thesis by simp
qed

lemma scale_stick_range: "1 \<le> uint (scale_stick v) \<and> uint (scale_stick v) \<le> 255"
proof -
  define v2 where "v2 = (if (if uint v < 848 then 848 else uint v) > 3248 then 3248 else (if uint v < 848 then 848 else uint v))"
  have b: "848 \<le> v2" "v2 \<le> 3248" by (auto simp: v2_def)
  define sc where "sc = ((v2 - 2048) * 127) sdiv 1200 + 128"
  have "- 127 \<le> ((v2 - 2048) * 127) sdiv 1200 \<and> ((v2 - 2048) * 127) sdiv 1200 \<le> 127"
    using b by (auto simp: signed_divide_int_def sgn_if abs_if) 
  then have sc: "1 \<le> sc" "sc \<le> 255" by (auto simp: sc_def)
  have "scale_stick v = word_of_int sc"
    using sc unfolding scale_stick_def Let_def WIIU_STICK_CENTER_def WIIU_STICK_RANGE_def sc_def v2_def
    by (auto simp: not_less)
  then show ?thesis using sc by (simp add: uint_word_of_int)
qed

lemma wii_u_decode_ext_x_axes:
  "analog (wii_u_decode_ext ev ext) ANALOG_LX = scale_stick (le16 (ext ! 0) (ext ! 1))"
  "analog (wii_u_decode_ext ev ext) ANALOG_RX = scale_stick (le16 (ext ! 2) (ext ! 3))"
  "analog (wii_u_decode_ext ev ext) ANALOG_LY = 255 - scale_stick (le16 (ext ! 4) (ext ! 5))"
  "analog (wii_u_decode_ext ev ext) ANALOG_RY = 255 - scale_stick (le16 (ext ! 6) (ext ! 7))"
  by (simp_all add: wii_u_decode_ext_def Let_def)

lemma wii_u_submitted_is_decoded:
  assumes "SubmitInput e \<in> set (snd (wii_u_process_report w n d))"
  shows "\<exists>ext. e = wii_u_decode_ext (wu_event w) ext"
  using assms
  by (auto simp: wii_u_process_report_def Let_def split: if_splits)



lemma sw2_example_raw:
  "sw2_raw_lx (sw2_report_of_axes 2048 2048 2048 2048) = 2048"
  "sw2_raw_ly (sw2_report_of_axes 2048 2048 2048 2048) = 2048"
  "sw2_raw_rx (sw2_report_of_axes 2048 2048 2048 2048) = 2048"
  "sw2_raw_ry (sw2_report_of_axes 2048 2048 2048 2048) = 2048"
  "sw2_raw_lx (sw2_report_of_axes 0 4095 2048 2048) = 0"
  "sw2_raw_ly (sw2_report_of_axes 0 4095 2048 2048) = 4095"
  by (simp_all add: sw2_raw_lx_def sw2_raw_ly_def sw2_raw_rx_def sw2_raw_ry_def
      sw2_report_of_axes_def nth_append)

lemma sw2_example_scaled:
  "scale_analog_calibrated 0 2048 1610 = 0"
  "scale_analog_calibrated 4095 2048 1610 = 255"
  by (simp_all add: scale_analog_calibrated_def Let_def signed_divide_int_def)

text \<open>
  Claim C1, as stated, on a Pro Controller 2: after four calibration reports with every
  axis at 2048, a report with the left stick fully left (raw LX 0) and fully up (raw LY
  4095) is submitted with \<open>analog[LX] = 0\<close> and \<open>analog[LY] = 0\<close>.
\<close>

theorem switch2_stick_zero_counterexample:
  "submitted_axis ANALOG_LX (snd (switch2_run (switch2_ble_init 0 0x2069)
      [sw2_report_of_axes 2048 2048 2048 2048, sw2_report_of_axes 2048 2048 2048 2048,
       sw2_report_of_axes 2048 2048 2048 2048, sw2_report_of_axes 2048 2048 2048 2048,
       sw2_report_of_axes 0 4095 2048 2048])) = [0]
   \<and> submitted_axis ANALOG_LY (snd (switch2_run (switch2_ble_init 0 0x2069)
      [sw2_report_of_axes 2048 2048 2048 2048, sw2_report_of_axes 2048 2048 2048 2048,
       sw2_report_of_axes 2048 2048 2048 2048, sw2_report_of_axes 2048 2048 2048 2048,
       sw2_report_of_axes 0 4095 2048 2048])) = [0]"
proof -
  let ?r = "sw2_report_of_axes 2048 2048 2048 2048"
  let ?q = "sw2_report_of_axes 0 4095 2048 2048"
  let ?s0 = "switch2_ble_init 0 0x2069"
  have c0: "cal_samples ?s0 = 0" by (simp add: switch2_ble_init_def)
  note v = sw2_report_of_axes_valid(1)
  obtain s4 where run4: "switch2_run ?s0 [?r, ?r, ?r, ?r] = (s4, [])"
    and s4: "cal_samples s4 = 4" "sw2_pid s4 = 0x2069"
      "cal_lx_center s4 = sw2_running_center 2048 2048 2048 2048"
      "cal_ly_center s4 = sw2_running_center 2048 2048 2048 2048"
    unfolding sw2_four[OF v v v v c0]
    by (simp add: sw2_report_of_axes_valid(2) sw2_example_raw switch2_ble_init_def)
  have c: "sw2_running_center 2048 2048 2048 2048 = 2048"
    by (simp add: sw2_running_center_def avg_u16_def)
  have ge: "4 \<le> cal_samples s4" using s4(1) by simp
  from sw2_ready_step[OF v ge, of 0 4095 2048 2048] obtain ev where
    st: "switch2_ble_process_report s4 ?q = (s4\<lparr> sw2_event := ev \<rparr>, [ev])"
    and lx: "analog ev ANALOG_LX = scale_analog_calibrated (sw2_raw_lx (sw2_report ?q))
               (cal_lx_center s4) (sw2_left_range (sw2_pid s4))"
    and ly: "analog ev ANALOG_LY = 255 - scale_analog_calibrated (sw2_raw_ly (sw2_report ?q))
               (cal_ly_center s4) (sw2_left_range (sw2_pid s4))"
    by blast
  have r: "sw2_left_range 0x2069 = 1610"
    by (simp add: sw2_left_range_def SW2_GC_PID_def SW2_PRO_AXIS_RANGE_def)
  have "analog ev ANALOG_LX = 0" "analog ev ANALOG_LY = 0"
    unfolding lx ly s4 r c sw2_report_of_axes_valid(2) sw2_example_raw sw2_example_scaled by simp_all
  moreover have "switch2_run ?s0 ([?r, ?r, ?r, ?r] @ [?q]) = (s4\<lparr> sw2_event := ev \<rparr>, [ev])"
    using run4 st by (simp add: case_prod_beta)
  ultimately show ?thesis by (simp add: submitted_axis_def)
qed

text \<open>
  The Y inversion of the Wii U Pro driver: \<open>scale_stick\<close> clamps to \<open>[1, 255]\<close> and
  \<open>255 - scale_stick\<close> is 0 at full deflection (raw LY 3248).
\<close>

lemma wii_u_inverted_y_reaches_zero:
  "submitted_axis ANALOG_LY (submitted_events
     (snd (wii_u_process_report (wii_u_init wii_u_zero_slot 0 0) 5 wiiu_input_stick_up))) = [0]"
  by (simp add: wii_u_process_report_def wiiu_input_stick_up_def Let_def WIIU_REPORT_EXT_21_def
      submitted_axis_def wii_u_decode_ext_def le16_def scale_stick_def WIIU_STICK_CENTER_def
      WIIU_STICK_RANGE_def signed_divide_int_def)

text \<open>
  Claim C1 (amended): every event the Switch 2 BLE driver submits has its stick axes in
  \<open>[0, 255]\<close>: \<open>analog[LX]\<close> and \<open>analog[RX]\<close> are 128 plus the scaled offset from
  the calibrated center clamped to \<open>[-128, 127]\<close>, \<open>analog[LY]\<close> and \<open>analog[RY]\<close>
  are 127 minus that offset, so 0 is reached at full deflection; its trigger axes are in
  \<open>[0, 255]\<close>. Every event the Wii U Pro driver submits has its X stick axes
  \<open>analog[LX]\<close>, \<open>analog[RX]\<close> in \<open>[1, 255]\<close>.
\<close>

theorem submitted_stick_axis_ranges:
  "(\<forall>e \<in> set (snd (switch2_ble_process_report s d)).
      uint (analog e ANALOG_LX) =
        sw2_clamped_offset (sw2_raw_lx (sw2_report d)) (cal_lx_center s) (sw2_left_range (sw2_pid s)) + 128
    \<and> uint (analog e ANALOG_LY) = 127 -
        sw2_clamped_offset (sw2_raw_ly (sw2_report d)) (cal_ly_center s) (sw2_left_range (sw2_pid s))
    \<and> uint (analog e ANALOG_RX) =
        sw2_clamped_offset (sw2_raw_rx (sw2_report d)) (cal_rx_center s) (sw2_right_range (sw2_pid s)) + 128
    \<and> uint (analog e ANALOG_RY) = 127 -
        sw2_clamped_offset (sw2_raw_ry (sw2_report d)) (cal_ry_center s) (sw2_right_range (sw2_pid s))
    \<and> 0 \<le> uint (analog e ANALOG_LX) \<and> uint (analog e ANALOG_LX) \<le> 255
    \<and> 0 \<le> uint (analog e ANALOG_LY) \<and> uint (analog e ANALOG_LY) \<le> 255
    \<and> 0 \<le> uint (analog e ANALOG_RX) \<and> uint (analog e ANALOG_RX) \<le> 255
    \<and> 0 \<le> uint (analog e ANALOG_RY) \<and> uint (analog e ANALOG_RY) \<le> 255
    \<and> 0 \<le> uint (analog e ANALOG_L2) \<and> uint (analog e ANALOG_L2) \<le> 255
    \<and> 0 \<le> uint (analog e ANALOG_R2) \<and> uint (analog e ANALOG_R2) \<le> 255)
   \<and> (\<forall>val c r. - 128 \<le> sw2_clamped_offset val c r \<and> sw2_clamped_offset val c r \<le> 127)
   \<and> (\<forall>e. SubmitInput e \<in> set (snd (wii_u_process_report w n data)) \<longrightarrow>
         1 \<le> uint (analog e ANALOG_LX) \<and> uint (analog e ANALOG_LX) \<le> 255
       \<and> 1 \<le> uint (analog e ANALOG_RX) \<and> uint (analog e ANALOG_RX) \<le> 255)"
proof (intro conjI ballI allI impI)
  fix e assume e: "e \<in> set (snd (switch2_ble_process_report s d))"
  note ax = sw2_submitted_axes[OF e]
  show "uint (analog e ANALOG_LX) =
        sw2_clamped_offset (sw2_raw_lx (sw2_report d)) (cal_lx_center s) (sw2_left_range (sw2_pid s)) + 128"
    using ax by (simp add: scale_analog_calibrated_uint)
  show "uint (analog e ANALOG_LY) = 127 -
        sw2_clamped_offset (sw2_raw_ly (sw2_report d)) (cal_ly_center s) (sw2_left_range (sw2_pid s))"
    using ax by (simp add: uint_255_minus scale_analog_calibrated_uint)
  show "uint (analog e ANALOG_RX) =
        sw2_clamped_offset (sw2_raw_rx (sw2_report d)) (cal_rx_center s) (sw2_right_range (sw2_pid s)) + 128"
    using ax by (simp add: scale_analog_calibrated_uint)
  show "uint (analog e ANALOG_RY) = 127 -
        sw2_clamped_offset (sw2_raw_ry (sw2_report d)) (cal_ry_center s) (sw2_right_range (sw2_pid s))"
    using ax by (simp add: uint_255_minus scale_analog_calibrated_uint)
  show "uint (analog e ANALOG_LX) \<le> 255" "uint (analog e ANALOG_LY) \<le> 255"
    "uint (analog e ANALOG_RX) \<le> 255" "uint (analog e ANALOG_RY) \<le> 255"
    "uint (analog e ANALOG_L2) \<le> 255" "uint (analog e ANALOG_R2) \<le> 255"
    using uint_bounded[of "analog e ANALOG_LX"] uint_bounded[of "analog e ANALOG_LY"]
      uint_bounded[of "analog e ANALOG_RX"] uint_bounded[of "analog e ANALOG_RY"]
      uint_bounded[of "analog e ANALOG_L2"] uint_bounded[of "analog e ANALOG_R2"]
    by simp_all
next
  fix val c r
  show "- 128 \<le> sw2_clamped_offset val c r" "sw2_clamped_offset val c r \<le> 127"
    by (rule sw2_clamped_offset_bounds)+
next
  fix e assume "SubmitInput e \<in> set (snd (wii_u_process_report w n data))"
  from wii_u_submitted_is_decoded[OF this] obtain ext where
    e: "e = wii_u_decode_ext (wu_event w) ext" by blast
  show "1 \<le> uint (analog e ANALOG_LX)" "uint (analog e ANALOG_LX) \<le> 255"
    "1 \<le> uint (analog e ANALOG_RX)" "uint (analog e ANALOG_RX) \<le> 255"
    unfolding e wii_u_decode_ext_x_axes using scale_stick_range by blast+
qed simp_all

theorem submitted_stick_axis_ranges_witness:
  "map uint (submitted_axis ANALOG_LX (snd (switch2_ble_process_report sw2_calibrated_2048
       (sw2_report_of_axes 2048 2048 2048 2048)))) = [128]
   \<and> map uint (submitted_axis ANALOG_LY (snd (switch2_ble_process_report sw2_calibrated_2048
       (sw2_report_of_axes 2048 2048 2048 2048)))) = [127]
   \<and> map uint (submitted_axis ANALOG_LX (submitted_events
       (snd (wii_u_process_report (wii_u_init wii_u_zero_slot 0 0) 5 wiiu_input_neutral)))) = [128]"
proof -
  let ?r = "sw2_report_of_axes 2048 2048 2048 2048"
  have ge: "4 \<le> cal_samples sw2_calibrated_2048" by (simp add: sw2_calibrated_2048_def)
  from sw2_ready_step[OF sw2_report_of_axes_valid(1) ge, of 2048 2048 2048 2048] obtain ev where
    st: "switch2_ble_process_report sw2_calibrated_2048 ?r = (sw2_calibrated_2048\<lparr> sw2_event := ev \<rparr>, [ev])"
    by blast
  then have mem: "ev \<in> set (snd (switch2_ble_process_report sw2_calibrated_2048 ?r))" by simp
  have off: "sw2_clamped_offset 2048 2048 1610 = 0"
    by (simp add: sw2_clamped_offset_def)
  have par: "cal_lx_center sw2_calibrated_2048 = 2048" "cal_ly_center sw2_calibrated_2048 = 2048"
    "sw2_left_range (sw2_pid sw2_calibrated_2048) = 1610"
    by (simp_all add: sw2_calibrated_2048_def switch2_ble_init_def sw2_left_range_def
        SW2_GC_PID_def SW2_PRO_AXIS_RANGE_def)
  from submitted_stick_axis_ranges[of sw2_calibrated_2048 ?r, THEN conjunct1, rule_format, OF mem]
  have "uint (analog ev ANALOG_LX) = 128" "uint (analog ev ANALOG_LY) = 127"
    unfolding sw2_report_of_axes_valid(2) sw2_example_raw par off by simp_all
  then have a: "map uint (submitted_axis ANALOG_LX (snd (switch2_ble_process_report sw2_calibrated_2048 ?r))) = [128]"
    "map uint (submitted_axis ANALOG_LY (snd (switch2_ble_process_report sw2_calibrated_2048 ?r))) = [127]"
    unfolding st by (simp_all add: submitted_axis_def)
  have b: "map uint (submitted_axis ANALOG_LX (submitted_events
       (snd (wii_u_process_report (wii_u_init wii_u_zero_slot 0 0) 5 wiiu_input_neutral)))) = [128]"
    by (simp add: wii_u_process_report_def wiiu_input_neutral_def Let_def WIIU_REPORT_EXT_21_def
      submitted_axis_def wii_u_decode_ext_def le16_def scale_stick_def WIIU_STICK_CENTER_def
      WIIU_STICK_RANGE_def signed_divide_int_def)
  from a b show ?thesis by blast
qed


section \<open>Verification: Wiimote orientation and the READY gate\<close>






lemma wiimote_core_block_acts:
  "snd (snd (wiimote_core_block mode wii env data)) =
     filter (\<lambda>a. \<not> is_submit a) (snd (snd (wiimote_core_block mode wii env data)))
     @ (if wm_state wii = WII_STATE_READY
        then [SubmitInput (wm_event (fst (snd (wiimote_core_block mode wii env data))))] else [])"
  by (simp add: wiimote_core_block_def Let_def case_prod_beta)

lemma wiimote_core_block_state_indep:
  "wm_event (fst (snd (wiimote_core_block mode (wii\<lparr> wm_state := st \<rparr>) env data)))
     = wm_event (fst (snd (wiimote_core_block mode wii env data)))"
  "fst (wiimote_core_block mode (wii\<lparr> wm_state := st \<rparr>) env data)
     = fst (wiimote_core_block mode wii env data)"
  "wm_state (fst (snd (wiimote_core_block mode wii env data))) = wm_state wii"
  by (cases "wiimote_ext_bytes data"; simp add: wiimote_core_block_def Let_def case_prod_beta)+

lemma wiimote_core_block_submit:
  assumes "a \<in> set (snd (snd (wiimote_core_block mode wii env data)))" "is_submit a"
  shows "wm_state wii = WII_STATE_READY"
  using assms by (auto simp: wiimote_core_block_def Let_def case_prod_beta split: if_splits)

lemma wiimote_status_block_submit:
  assumes "a \<in> set (snd (wiimote_status_block wii data))" "is_submit a"
  shows "wm_state wii = WII_STATE_READY"
  using assms by (auto simp: wiimote_status_block_def Let_def split: if_splits)

lemma wiimote_process_report_submit:
  assumes "a \<in> set (snd (snd (wiimote_process_report mode wii env data)))" "is_submit a"
  shows "wm_state wii = WII_STATE_READY"
proof -
  have st: "wm_state (fst (snd (wiimote_core_block mode wii env data))) = wm_state wii"
    by (rule wiimote_core_block_state_indep)
  from assms show ?thesis
    unfolding wiimote_process_report_def Let_def
    by (auto simp: case_prod_beta st split: if_splits
        dest: wiimote_core_block_submit wiimote_status_block_submit)
qed

lemma wiimote_task_no_submit:
  assumes "a \<in> set (snd (wiimote_task wii env))"
  shows "\<not> is_submit a"
  using assms
  by (cases "wm_state wii")
     (auto simp: wiimote_task_def wiimote_send_step_def wiimote_ready_task_def Let_def
        case_prod_beta wiimote_request_status_def wiimote_write_data_def wiimote_read_data_def
        wiimote_set_report_mode_def wiimote_set_leds_def wiimote_set_leds_raw_def
        wiimote_set_rumble_def split: if_splits)

lemma wiimote_run_submit:
  assumes "(st, a) \<in> set (wiimote_run s cs)" "is_submit a"
  shows "st = WII_STATE_READY"
  using assms
proof (induction cs arbitrary: s)
  case Nil
  then show ?case by simp
next
  case (Cons c cs)
  obtain mode wii where s: "s = (mode, wii)" by (cases s)
  show ?case
  proof (cases c)
    case (WmTask env)
    with Cons s show ?thesis
      by (auto simp: case_prod_beta dest: wiimote_task_no_submit)
  next
    case (WmReport env data)
    with Cons s show ?thesis
      by (auto simp: case_prod_beta dest: wiimote_process_report_submit)
  qed
qed



lemma wiimote_auto_report:
  assumes id: "data ! 0 = 0x31" and len: "6 \<le> length data"
    and noext: "wm_ext_type wii = WII_EXT_NONE" "\<not> wm_extension_connected wii"
    and noplus: "wiimote_raw_buttons data AND WII_BTN_PLUS = 0"
  shows "wiimote_process_report WII_ORIENT_MODE_AUTO wii env data =
     (WII_ORIENT_MODE_AUTO,
      wii\<lparr> wm_orient_hotkey_active := False,
            wm_orientation := wiimote_detect_orientation (data ! 3) (wm_orientation wii),
            wm_event := (wm_event wii)\<lparr> buttons :=
               wiimote_rotate_controls (wiimote_core_buttons (wiimote_raw_buttons data))
                 (wiimote_detect_orientation (data ! 3) (wm_orientation wii)) \<rparr> \<rparr>,
      if wm_state wii = WII_STATE_READY
      then [SubmitInput ((wm_event wii)\<lparr> buttons :=
               wiimote_rotate_controls (wiimote_core_buttons (wiimote_raw_buttons data))
                 (wiimote_detect_orientation (data ! 3) (wm_orientation wii)) \<rparr>)]
      else [])"
proof -
  have eb: "wiimote_ext_bytes data = None"
    using id by (simp add: wiimote_ext_bytes_def WII_REPORT_BUTTONS_EXT8_def
        WII_REPORT_BUTTONS_ACC_EXT16_def)
  have core: "wiimote_has_core_buttons (data ! 0)"
    using id by (simp add: wiimote_has_core_buttons_def)
  have cb: "wiimote_core_block WII_ORIENT_MODE_AUTO wii env data =
     (WII_ORIENT_MODE_AUTO,
      wii\<lparr> wm_orient_hotkey_active := False,
            wm_orientation := wiimote_detect_orientation (data ! 3) (wm_orientation wii),
            wm_event := (wm_event wii)\<lparr> buttons :=
               wiimote_rotate_controls (wiimote_core_buttons (wiimote_raw_buttons data))
                 (wiimote_detect_orientation (data ! 3) (wm_orientation wii)) \<rparr> \<rparr>,
      if wm_state wii = WII_STATE_READY
      then [SubmitInput ((wm_event wii)\<lparr> buttons :=
               wiimote_rotate_controls (wiimote_core_buttons (wiimote_raw_buttons data))
                 (wiimote_detect_orientation (data ! 3) (wm_orientation wii)) \<rparr>)]
      else [])"
    using id len noext noplus eb
    by (simp add: wiimote_core_block_def Let_def WII_REPORT_BUTTONS_ACC_def)
  have ne: "\<not> length data < 1" using len by auto
  show ?thesis
    unfolding wiimote_process_report_def Let_def
    using id core len ne
    by (simp add: cb WII_REPORT_STATUS_def WII_REPORT_ACK_def WII_REPORT_READ_DATA_def
        del: One_nat_def less_one)
qed

lemma wiimote_a_pressed_raw:
  "wiimote_core_buttons (wiimote_raw_buttons wiimote_report_a_pressed) = {JP_BUTTON_B2}"
  "wiimote_raw_buttons wiimote_report_a_pressed AND WII_BTN_PLUS = 0"
  by (simp_all add: wiimote_core_buttons_def wiimote_raw_buttons_def wiimote_report_a_pressed_def
      btn_if_def WII_BTN_UP_def WII_BTN_DOWN_def WII_BTN_LEFT_def WII_BTN_RIGHT_def WII_BTN_A_def
      WII_BTN_B_def WII_BTN_ONE_def WII_BTN_TWO_def WII_BTN_MINUS_def WII_BTN_PLUS_def
      WII_BTN_HOME_def)

lemma rotate_b2: "wiimote_rotate_controls {JP_BUTTON_B2} WII_ORIENT_HORIZONTAL = {JP_BUTTON_B4}"
  by (simp add: wiimote_rotate_controls_def Let_def btn_if_def)

lemma wiimote_a_press_horizontal:
  "map buttons (submitted_events (snd (snd (wiimote_process_report WII_ORIENT_MODE_AUTO
        wiimote_ready_horizontal env wiimote_report_a_pressed)))) = [{JP_BUTTON_B4}]"
proof -
  have p: "wiimote_report_a_pressed ! 0 = 0x31" "6 \<le> length wiimote_report_a_pressed"
    "wiimote_report_a_pressed ! 3 = 101"
    by (simp_all add: wiimote_report_a_pressed_def)
  have q: "wm_ext_type wiimote_ready_horizontal = WII_EXT_NONE"
    "\<not> wm_extension_connected wiimote_ready_horizontal"
    "wm_state wiimote_ready_horizontal = WII_STATE_READY"
    "wm_orientation wiimote_ready_horizontal = WII_ORIENT_HORIZONTAL"
    by (simp_all add: wiimote_ready_horizontal_def)
  have d: "wiimote_detect_orientation 101 WII_ORIENT_HORIZONTAL = WII_ORIENT_HORIZONTAL"
    by (simp add: wiimote_detect_orientation_def Let_def WII_ACCEL_CENTER_def
        WII_ACCEL_THRESH_OFF_def)
  show ?thesis
    unfolding wiimote_auto_report[OF p(1,2) q(1,2) wiimote_a_pressed_raw(2)]
    by (simp add: q p d wiimote_a_pressed_raw rotate_b2)
qed





lemma filter_submit_nonsubmit: "filter is_submit (filter (\<lambda>a. \<not> is_submit a) xs) = []"
  by (induction xs) auto

lemma wiimote_core_report_cached:
  assumes "wiimote_has_core_buttons (data ! 0)" "3 \<le> length data"
  shows "wm_event (fst (snd (wiimote_process_report mode wii env data)))
           = wm_event (fst (snd (wiimote_core_block mode wii env data)))
       \<and> snd (snd (wiimote_process_report mode wii env data))
           = snd (snd (wiimote_core_block mode wii env data))"
proof -
  have ne: "\<not> length data < 1" using assms(2) by auto
  have ids: "data ! 0 \<noteq> WII_REPORT_STATUS" "data ! 0 \<noteq> WII_REPORT_ACK"
    "data ! 0 \<noteq> WII_REPORT_READ_DATA"
    using assms(1)
    by (auto simp: wiimote_has_core_buttons_def WII_REPORT_STATUS_def WII_REPORT_ACK_def
        WII_REPORT_READ_DATA_def)
  show ?thesis
    unfolding wiimote_process_report_def Let_def
    using assms ne ids by (simp add: case_prod_beta del: One_nat_def less_one)
qed

lemma wiimote_core_report_before_ready:
  assumes c: "wiimote_has_core_buttons (data ! 0)" "3 \<le> length data"
    and nr: "wm_state wii \<noteq> WII_STATE_READY"
  shows "filter is_submit (snd (snd (wiimote_process_report mode wii env data))) = []"
    and "wm_event (fst (snd (wiimote_process_report mode wii env data)))
           = wm_event (fst (snd (wiimote_process_report mode (wii\<lparr> wm_state := WII_STATE_READY \<rparr>) env data)))"
    and "filter is_submit (snd (snd (wiimote_process_report mode
             (wii\<lparr> wm_state := WII_STATE_READY \<rparr>) env data)))
           = [SubmitInput (wm_event (fst (snd (wiimote_process_report mode wii env data))))]"
proof -
  note a = wiimote_core_report_cached[OF c, of mode wii env]
  note b = wiimote_core_report_cached[OF c, of mode "wii\<lparr> wm_state := WII_STATE_READY \<rparr>" env]
  show "filter is_submit (snd (snd (wiimote_process_report mode wii env data))) = []"
    using wiimote_process_report_submit[of _ mode wii env data] nr
    by (auto simp: filter_empty_conv)
  show e: "wm_event (fst (snd (wiimote_process_report mode wii env data)))
           = wm_event (fst (snd (wiimote_process_report mode (wii\<lparr> wm_state := WII_STATE_READY \<rparr>) env data)))"
    using a b by (simp add: wiimote_core_block_state_indep)
  have "snd (snd (wiimote_core_block mode (wii\<lparr> wm_state := WII_STATE_READY \<rparr>) env data)) =
     filter (\<lambda>a. \<not> is_submit a) (snd (snd (wiimote_core_block mode (wii\<lparr> wm_state := WII_STATE_READY \<rparr>) env data)))
     @ [SubmitInput (wm_event (fst (snd (wiimote_core_block mode (wii\<lparr> wm_state := WII_STATE_READY \<rparr>) env data))))]"
    using wiimote_core_block_acts[of mode "wii\<lparr> wm_state := WII_STATE_READY \<rparr>" env data] by simp
  then have "filter is_submit (snd (snd (wiimote_core_block mode (wii\<lparr> wm_state := WII_STATE_READY \<rparr>) env data)))
     = [SubmitInput (wm_event (fst (snd (wiimote_core_block mode (wii\<lparr> wm_state := WII_STATE_READY \<rparr>) env data))))]"
    using filter_submit_nonsubmit[of "snd (snd (wiimote_core_block mode (wii\<lparr> wm_state := WII_STATE_READY \<rparr>) env data))"]
    by (metis append_Nil filter.simps(1,2) filter_append is_submit.simps(1))
  then show "filter is_submit (snd (snd (wiimote_process_report mode
             (wii\<lparr> wm_state := WII_STATE_READY \<rparr>) env data)))
           = [SubmitInput (wm_event (fst (snd (wiimote_process_report mode wii env data))))]"
    using a b by (simp add: wiimote_core_block_state_indep)
qed

lemma wiimote_hot_swap_removal:
  assumes "data ! 0 = 0x20" "4 \<le> length data" "data ! 3 AND 0x02 = 0"
    and "wm_state wii = WII_STATE_READY" "wm_extension_connected wii"
  shows "\<exists>ev. wiimote_process_report mode wii env data =
           (mode, wii\<lparr> wm_extension_connected := False, wm_ext_type := WII_EXT_NONE,
                        wm_event := ev, wm_state := WII_STATE_SEND_REPORT_MODE \<rparr>, [SubmitInput ev])
         \<and> ev = (wm_event wii)\<lparr> analog := (analog (wm_event wii))
                   (ANALOG_LX := 128, ANALOG_LY := 128, ANALOG_RX := 128,
                    ANALOG_RY := 128, ANALOG_L2 := 0, ANALOG_R2 := 0) \<rparr>"
proof -
  have ne: "\<not> length data < 1" using assms(2) by auto
  have f: "(data ! 3 AND 0x0F) AND 0x02 = 0"
  proof -
    have "(data ! 3 AND 0x0F) AND 0x02 = (data ! 3 AND 0x02) AND 0x0F"
      by (rule bit_eqI) (auto simp: bit_and_iff)
    then show ?thesis using assms(3) by simp
  qed
  show ?thesis
    unfolding wiimote_process_report_def Let_def
    using assms ne f
    by (simp add: wiimote_has_core_buttons_def WII_REPORT_STATUS_def WII_REPORT_ACK_def
        WII_REPORT_READ_DATA_def wiimote_status_block_def Let_def del: One_nat_def less_one)
qed



text \<open>
  Claim C9: the Wiimote driver calls \<open>router_submit_input\<close> only in calls that begin in
  the READY state: \<open>wiimote_process_report\<close> submits nothing unless the state is READY,
  \<open>wiimote_task\<close> never submits, and so in every run each submitted event comes from a
  call that began in READY. A core-button report received before READY caches the very
  event that would have been submitted in READY, without forwarding it. The hot-swap
  removal path (status report with the extension bit clear while an extension was
  connected) re-centers the analogs and submits at once in READY, and submits nothing in
  any other state.
\<close>

theorem wiimote_submits_only_in_ready:
  "(\<forall>a \<in> set (snd (snd (wiimote_process_report mode wii env data))).
       is_submit a \<longrightarrow> wm_state wii = WII_STATE_READY)
   \<and> (\<forall>a \<in> set (snd (wiimote_task wii tenv)). \<not> is_submit a)
   \<and> (\<forall>p \<in> set (wiimote_run s calls). is_submit (snd p) \<longrightarrow> fst p = WII_STATE_READY)
   \<and> (wiimote_has_core_buttons (data ! 0) \<and> 3 \<le> length data \<and> wm_state wii \<noteq> WII_STATE_READY \<longrightarrow>
        filter is_submit (snd (snd (wiimote_process_report mode wii env data))) = []
        \<and> wm_event (fst (snd (wiimote_process_report mode wii env data)))
            = wm_event (fst (snd (wiimote_process_report mode
                 (wii\<lparr> wm_state := WII_STATE_READY \<rparr>) env data)))
        \<and> filter is_submit (snd (snd (wiimote_process_report mode
                 (wii\<lparr> wm_state := WII_STATE_READY \<rparr>) env data)))
            = [SubmitInput (wm_event (fst (snd (wiimote_process_report mode wii env data))))])
   \<and> (data ! 0 = 0x20 \<and> 4 \<le> length data \<and> data ! 3 AND 0x02 = 0 \<and> wm_extension_connected wii \<longrightarrow>
        (wm_state wii = WII_STATE_READY \<longrightarrow>
           snd (snd (wiimote_process_report mode wii env data))
             = [SubmitInput ((wm_event wii)\<lparr> analog := (analog (wm_event wii))
                   (ANALOG_LX := 128, ANALOG_LY := 128, ANALOG_RX := 128,
                    ANALOG_RY := 128, ANALOG_L2 := 0, ANALOG_R2 := 0) \<rparr>)]
           \<and> wm_state (fst (snd (wiimote_process_report mode wii env data)))
               = WII_STATE_SEND_REPORT_MODE)
        \<and> (wm_state wii \<noteq> WII_STATE_READY \<longrightarrow>
             filter is_submit (snd (snd (wiimote_process_report mode wii env data))) = []))"
proof (intro conjI ballI impI)
  fix a assume "a \<in> set (snd (snd (wiimote_process_report mode wii env data)))" "is_submit a"
  then show "wm_state wii = WII_STATE_READY" by (rule wiimote_process_report_submit)
next
  fix a assume "a \<in> set (snd (wiimote_task wii tenv))"
  then show "\<not> is_submit a" by (rule wiimote_task_no_submit)
next
  fix p assume "p \<in> set (wiimote_run s calls)" "is_submit (snd p)"
  then show "fst p = WII_STATE_READY"
    using wiimote_run_submit[of "fst p" "snd p" s calls] by simp
next
  assume h: "wiimote_has_core_buttons (data ! 0) \<and> 3 \<le> length data \<and> wm_state wii \<noteq> WII_STATE_READY"
  then have c: "wiimote_has_core_buttons (data ! 0)" "3 \<le> length data"
    and nr: "wm_state wii \<noteq> WII_STATE_READY" by auto
  show "filter is_submit (snd (snd (wiimote_process_report mode wii env data))) = []"
    by (rule wiimote_core_report_before_ready(1)[OF c nr])
  show "wm_event (fst (snd (wiimote_process_report mode wii env data)))
            = wm_event (fst (snd (wiimote_process_report mode
                 (wii\<lparr> wm_state := WII_STATE_READY \<rparr>) env data)))"
    by (rule wiimote_core_report_before_ready(2)[OF c nr])
  show "filter is_submit (snd (snd (wiimote_process_report mode
                 (wii\<lparr> wm_state := WII_STATE_READY \<rparr>) env data)))
            = [SubmitInput (wm_event (fst (snd (wiimote_process_report mode wii env data))))]"
    by (rule wiimote_core_report_before_ready(3)[OF c nr])
next
  assume h: "data ! 0 = 0x20 \<and> 4 \<le> length data \<and> data ! 3 AND 0x02 = 0 \<and> wm_extension_connected wii"
    and r: "wm_state wii = WII_STATE_READY"
  from h r wiimote_hot_swap_removal[of data wii mode env]
  show "snd (snd (wiimote_process_report mode wii env data))
             = [SubmitInput ((wm_event wii)\<lparr> analog := (analog (wm_event wii))
                   (ANALOG_LX := 128, ANALOG_LY := 128, ANALOG_RX := 128,
                    ANALOG_RY := 128, ANALOG_L2 := 0, ANALOG_R2 := 0) \<rparr>)]"
    by auto
  from h r wiimote_hot_swap_removal[of data wii mode env]
  show "wm_state (fst (snd (wiimote_process_report mode wii env data))) = WII_STATE_SEND_REPORT_MODE"
    by auto
next
  assume "wm_state wii \<noteq> WII_STATE_READY"
  then show "filter is_submit (snd (snd (wiimote_process_report mode wii env data))) = []"
    using wiimote_process_report_submit[of _ mode wii env data]
    by (auto simp: filter_empty_conv)
qed

theorem wiimote_submits_only_in_ready_witness:
  "filter is_submit (snd (snd (wiimote_process_report WII_ORIENT_MODE_AUTO
       (wiimote_ready_horizontal\<lparr> wm_state := WII_STATE_WAIT_LED_ACK \<rparr>)
       (report_env_at 3) wiimote_report_a_pressed))) = []
   \<and> map buttons (submitted_events (snd (snd (wiimote_process_report WII_ORIENT_MODE_AUTO
       (wiimote_ready_horizontal\<lparr> wm_state := WII_STATE_WAIT_LED_ACK \<rparr>\<lparr> wm_state := WII_STATE_READY \<rparr>)
       (report_env_at 3) wiimote_report_a_pressed)))) = [{JP_BUTTON_B4}]
   \<and> buttons (wm_event (fst (snd (wiimote_process_report WII_ORIENT_MODE_AUTO
       (wiimote_ready_horizontal\<lparr> wm_state := WII_STATE_WAIT_LED_ACK \<rparr>)
       (report_env_at 3) wiimote_report_a_pressed)))) = {JP_BUTTON_B4}"
proof -
  let ?w = "wiimote_ready_horizontal\<lparr> wm_state := WII_STATE_WAIT_LED_ACK \<rparr>"
  have h: "wiimote_has_core_buttons (wiimote_report_a_pressed ! 0) \<and> 3 \<le> length wiimote_report_a_pressed
      \<and> wm_state ?w \<noteq> WII_STATE_READY"
    by (simp add: wiimote_report_a_pressed_def wiimote_has_core_buttons_def)
  note t = wiimote_submits_only_in_ready[of WII_ORIENT_MODE_AUTO ?w "report_env_at 3"
      wiimote_report_a_pressed, THEN conjunct2, THEN conjunct2, THEN conjunct2, THEN conjunct1,
      rule_format, OF h]
  have rdy: "?w\<lparr> wm_state := WII_STATE_READY \<rparr> = wiimote_ready_horizontal"
    by (simp add: wiimote_ready_horizontal_def)
  have b4: "map buttons (submitted_events (snd (snd (wiimote_process_report WII_ORIENT_MODE_AUTO
        wiimote_ready_horizontal (report_env_at 3) wiimote_report_a_pressed)))) = [{JP_BUTTON_B4}]"
    using wiimote_a_press_horizontal[of "report_env_at 3"] .
  from t have e: "wm_event (fst (snd (wiimote_process_report WII_ORIENT_MODE_AUTO ?w
        (report_env_at 3) wiimote_report_a_pressed)))
      = wm_event (fst (snd (wiimote_process_report WII_ORIENT_MODE_AUTO wiimote_ready_horizontal
        (report_env_at 3) wiimote_report_a_pressed)))"
    and f: "filter is_submit (snd (snd (wiimote_process_report WII_ORIENT_MODE_AUTO
        wiimote_ready_horizontal (report_env_at 3) wiimote_report_a_pressed)))
      = [SubmitInput (wm_event (fst (snd (wiimote_process_report WII_ORIENT_MODE_AUTO ?w
        (report_env_at 3) wiimote_report_a_pressed))))]"
    and n: "filter is_submit (snd (snd (wiimote_process_report WII_ORIENT_MODE_AUTO ?w
        (report_env_at 3) wiimote_report_a_pressed))) = []"
    unfolding rdy by auto
  have se: "map buttons (submitted_events xs) = map buttons (submitted_events (filter is_submit xs))" for xs
    by (induction xs rule: submitted_events.induct) auto
  have "buttons (wm_event (fst (snd (wiimote_process_report WII_ORIENT_MODE_AUTO ?w
        (report_env_at 3) wiimote_report_a_pressed)))) = {JP_BUTTON_B4}"
    using b4 unfolding se[of "snd (snd (wiimote_process_report WII_ORIENT_MODE_AUTO
        wiimote_ready_horizontal (report_env_at 3) wiimote_report_a_pressed))"] f by simp
  with n b4 show ?thesis unfolding rdy by simp
qed


section \<open>Disconnect debounce of the native host drivers\<close>

lemma host_submitted_append:
  "host_submitted (xs @ ys) = host_submitted xs @ host_submitted ys"
  by (induction xs rule: host_submitted.induct) simp_all

lemma n64_feedback_step_keeps:
  "n64_feedback_step s env = (s1, a1) \<Longrightarrow>
     host_submitted a1 = [] \<and> n64_initialized s1 = n64_initialized s
     \<and> n64_connected_polls s1 = n64_connected_polls s
     \<and> n64_disconnect_debounce s1 = n64_disconnect_debounce s
     \<and> n64_rumble_pak_initialized s1 = n64_rumble_pak_initialized s
     \<and> n64_prev_buttons s1 = n64_prev_buttons s \<and> n64_prev_stick_x s1 = n64_prev_stick_x s
     \<and> n64_prev_stick_y s1 = n64_prev_stick_y s \<and> n64_prev_l s1 = n64_prev_l s
     \<and> n64_prev_r s1 = n64_prev_r s"
  by (auto simp: n64_feedback_step_def Let_def split: option.splits if_splits)

lemma n64_task_absent:
  assumes "n64_initialized s" "n64_absent env"
  shows "n64_host_task s env =
     (let (s1, a1) = n64_feedback_step s env; (s2, a2) = n64_connection_step s1 env
      in (s2, a1 @ a2))"
  using assms
  by (simp add: n64_host_task_def n64_absent_def n64_pak_step_def n64_input_step_def
      n64_host_flush_rumble_def split: prod.splits)

lemma u8_succ_less_30:
  fixes d :: u8
  assumes "unat d < 29"
  shows "unat (d + 1) = unat d + 1" "\<not> 30 \<le> d + 1"
proof -
  show u: "unat (d + 1) = unat d + 1"
    using assms by (simp add: unat_word_ariths)
  show "\<not> 30 \<le> d + 1"
    using assms u by (simp add: word_le_nat_alt)
qed

lemma n64_absent_short_step:
  assumes "n64_initialized s" "n64_absent env" "0 < n64_connected_polls s"
    "unat (n64_disconnect_debounce s) < 29"
  shows "host_submitted (snd (n64_host_task s env)) = []
     \<and> n64_same_connection s (fst (n64_host_task s env))
     \<and> unat (n64_disconnect_debounce (fst (n64_host_task s env)))
        = unat (n64_disconnect_debounce s) + 1"
proof -
  obtain s1 a1 where f: "n64_feedback_step s env = (s1, a1)" by (cases "n64_feedback_step s env")
  note k = n64_feedback_step_keeps[OF f]
  have d: "unat (n64_disconnect_debounce s1) < 29" using k assms(4) by simp
  have c: "n64_connection_step s1 env
      = (s1\<lparr> n64_disconnect_debounce := n64_disconnect_debounce s1 + 1 \<rparr>, [])"
    using assms(2,3) k u8_succ_less_30(2)[OF d]
    by (simp add: n64_connection_step_def n64_absent_def Let_def)
  show ?thesis
    using k u8_succ_less_30(1)[OF d]
    by (simp add: n64_task_absent[OF assms(1,2)] f c n64_same_connection_def)
qed

lemma n64_absent_30th_step:
  assumes "n64_initialized s" "n64_absent env" "0 < n64_connected_polls s"
    "n64_disconnect_debounce s = 29"
  shows "host_submitted (snd (n64_host_task s env)) = [n64_cleared_event]
     \<and> n64_connected_polls (fst (n64_host_task s env)) = 0
     \<and> n64_disconnect_debounce (fst (n64_host_task s env)) = 0
     \<and> \<not> n64_rumble_pak_initialized (fst (n64_host_task s env))"
proof -
  obtain s1 a1 where f: "n64_feedback_step s env = (s1, a1)" by (cases "n64_feedback_step s env")
  note k = n64_feedback_step_keeps[OF f]
  show ?thesis
    using k assms(2,3,4)
    by (simp add: n64_task_absent[OF assms(1,2)] f n64_connection_step_def n64_absent_def Let_def
        host_submitted_append)
qed

lemma n64_run_append:
  "n64_run s (es @ fs) =
     (let (s', acts) = n64_run s es; (s'', acts') = n64_run s' fs in (s'', acts @ acts'))"
  by (induction es arbitrary: s) (simp_all add: split: prod.splits)

lemma n64_same_connection_trans:
  "n64_same_connection s s' \<Longrightarrow> n64_same_connection s' s'' \<Longrightarrow> n64_same_connection s s''"
  by (simp add: n64_same_connection_def)

lemma n64_absent_short_run:
  assumes "\<forall>e \<in> set es. n64_absent e"
  shows "n64_initialized s \<Longrightarrow> 0 < n64_connected_polls s \<Longrightarrow>
     unat (n64_disconnect_debounce s) + length es < 30 \<Longrightarrow>
     host_submitted (snd (n64_run s es)) = []
     \<and> n64_same_connection s (fst (n64_run s es))
     \<and> unat (n64_disconnect_debounce (fst (n64_run s es)))
        = unat (n64_disconnect_debounce s) + length es"
  using assms
proof (induction es arbitrary: s)
  case Nil
  then show ?case by (simp add: n64_same_connection_def)
next
  case (Cons e es)
  obtain s' acts where t: "n64_host_task s e = (s', acts)" by (cases "n64_host_task s e")
  have st: "host_submitted acts = [] \<and> n64_same_connection s s'
      \<and> unat (n64_disconnect_debounce s') = unat (n64_disconnect_debounce s) + 1"
    using n64_absent_short_step[of s e] Cons.prems t by simp
  have ih: "host_submitted (snd (n64_run s' es)) = []
     \<and> n64_same_connection s' (fst (n64_run s' es))
     \<and> unat (n64_disconnect_debounce (fst (n64_run s' es)))
        = unat (n64_disconnect_debounce s') + length es"
    using Cons.IH[of s'] Cons.prems st by (simp add: n64_same_connection_def)
  show ?case
    using st ih n64_same_connection_trans[of s s' "fst (n64_run s' es)"]
    by (simp add: t host_submitted_append case_prod_beta)
qed

lemma n64_absent_30_run:
  assumes "n64_initialized s" "0 < n64_connected_polls s" "n64_disconnect_debounce s = 0"
    "\<forall>e \<in> set es. n64_absent e" "length es = 30"
  shows "host_submitted (snd (n64_run s es)) = [n64_cleared_event]
     \<and> n64_connected_polls (fst (n64_run s es)) = 0
     \<and> n64_disconnect_debounce (fst (n64_run s es)) = 0"
proof -
  obtain fs e where es: "es = fs @ [e]" and l: "length fs = 29"
    using assms(5) by (cases es rule: rev_cases) auto
  have a: "\<forall>e \<in> set fs. n64_absent e" "n64_absent e" using assms(4) es by auto
  note r = n64_absent_short_run[OF a(1), of s]
  have r': "host_submitted (snd (n64_run s fs)) = []
     \<and> n64_same_connection s (fst (n64_run s fs))
     \<and> unat (n64_disconnect_debounce (fst (n64_run s fs))) = 29"
    using r assms(1,2,3) l by simp
  let ?s = "fst (n64_run s fs)"
  have d: "n64_disconnect_debounce ?s = 29"
    using r' by (simp add: word_unat_eq_iff)
  have i: "n64_initialized ?s" "0 < n64_connected_polls ?s"
    using r' assms(1,2) by (simp_all add: n64_same_connection_def)
  note t = n64_absent_30th_step[OF i(1) a(2) i(2) d]
  show ?thesis
    using t r' by (simp add: es n64_run_append case_prod_beta host_submitted_append)
qed

lemma u8_succ_nonzero:
  fixes c :: u8
  assumes "c < 255"
  shows "c + 1 \<noteq> 0"
proof -
  have "unat c < 255" using assms by (simp add: word_less_nat_alt)
  then have "unat (c + 1) = unat c + 1" by (simp add: unat_word_ariths)
  then show ?thesis by (auto simp: word_unat_eq_iff)
qed

lemma n64_pak_step_keeps:
  "n64_disconnect_debounce (fst (n64_pak_step s env)) = n64_disconnect_debounce s
   \<and> (n64_connected_polls s \<noteq> 0 \<longrightarrow> n64_connected_polls (fst (n64_pak_step s env)) \<noteq> 0)"
  using u8_succ_nonzero[of "n64_connected_polls s"]
  by (simp add: n64_pak_step_def Let_def)

lemma n64_input_step_keeps:
  "n64_disconnect_debounce (fst (n64_input_step s env)) = n64_disconnect_debounce s
   \<and> n64_connected_polls (fst (n64_input_step s env)) = n64_connected_polls s"
  by (simp add: n64_input_step_def Let_def case_prod_beta)

lemma n64_flush_keeps:
  "n64_disconnect_debounce (fst (n64_host_flush_rumble s env)) = n64_disconnect_debounce s
   \<and> n64_connected_polls (fst (n64_host_flush_rumble s env)) = n64_connected_polls s"
  by (simp add: n64_host_flush_rumble_def)

lemma n64_connection_step_connected:
  "n64_is_connected env \<Longrightarrow>
     n64_disconnect_debounce (fst (n64_connection_step s env)) = 0
     \<and> n64_connected_polls (fst (n64_connection_step s env)) \<noteq> 0"
  by (simp add: n64_connection_step_def Let_def)

lemma n64_connected_step:
  assumes "n64_initialized s" "n64_is_connected env"
  shows "n64_disconnect_debounce (fst (n64_host_task s env)) = 0
     \<and> 0 < n64_connected_polls (fst (n64_host_task s env))"
proof -
  let ?s1 = "fst (n64_feedback_step s env)"
  let ?s2 = "fst (n64_connection_step ?s1 env)"
  let ?s3 = "fst (n64_pak_step ?s2 env)"
  let ?s4 = "fst (n64_input_step ?s3 env)"
  let ?s5 = "fst (n64_host_flush_rumble ?s4 env)"
  have t: "fst (n64_host_task s env) = ?s5"
    using assms(1) by (simp add: n64_host_task_def case_prod_beta)
  note c = n64_connection_step_connected[OF assms(2), of ?s1]
  note p = n64_pak_step_keeps[of ?s2 env]
  note i = n64_input_step_keeps[of ?s3 env]
  note f = n64_flush_keeps[of ?s4 env]
  show ?thesis
    unfolding t using c p i f by (simp add: word_gt_0)
qed

lemma gc_feedback_step_keeps:
  "gc_feedback_step s env = (s1, a1) \<Longrightarrow>
     host_submitted a1 = [] \<and> gc_initialized s1 = gc_initialized s
     \<and> gc_was_connected s1 = gc_was_connected s
     \<and> gc_disconnect_debounce s1 = gc_disconnect_debounce s
     \<and> gc_prev_buttons s1 = gc_prev_buttons s \<and> gc_prev_stick_x s1 = gc_prev_stick_x s
     \<and> gc_prev_stick_y s1 = gc_prev_stick_y s \<and> gc_prev_cstick_x s1 = gc_prev_cstick_x s
     \<and> gc_prev_cstick_y s1 = gc_prev_cstick_y s \<and> gc_prev_l_analog s1 = gc_prev_l_analog s
     \<and> gc_prev_r_analog s1 = gc_prev_r_analog s"
  by (auto simp: gc_feedback_step_def Let_def split: option.splits if_splits)

lemma gc_task_absent:
  assumes "gc_initialized s" "gc_absent env"
  shows "gc_host_task s env =
     (let (s1, a1) = gc_feedback_step s env; (s2, a2) = gc_connection_step s1 env
      in (s2, a1 @ a2))"
  using assms
  by (simp add: gc_host_task_def gc_absent_def gc_input_step_def split: prod.splits)

lemma gc_absent_short_step:
  assumes "gc_initialized s" "gc_absent env" "gc_was_connected s"
    "unat (gc_disconnect_debounce s) < 29"
  shows "host_submitted (snd (gc_host_task s env)) = []
     \<and> gc_same_connection s (fst (gc_host_task s env))
     \<and> unat (gc_disconnect_debounce (fst (gc_host_task s env)))
        = unat (gc_disconnect_debounce s) + 1"
proof -
  obtain s1 a1 where f: "gc_feedback_step s env = (s1, a1)" by (cases "gc_feedback_step s env")
  note k = gc_feedback_step_keeps[OF f]
  have d: "unat (gc_disconnect_debounce s1) < 29" using k assms(4) by simp
  have c: "gc_connection_step s1 env
      = (s1\<lparr> gc_disconnect_debounce := gc_disconnect_debounce s1 + 1 \<rparr>, [])"
    using assms(2,3) k u8_succ_less_30(2)[OF d]
    by (simp add: gc_connection_step_def gc_absent_def Let_def)
  show ?thesis
    using k u8_succ_less_30(1)[OF d]
    by (simp add: gc_task_absent[OF assms(1,2)] f c gc_same_connection_def)
qed

lemma gc_absent_30th_step:
  assumes "gc_initialized s" "gc_absent env" "gc_was_connected s"
    "gc_disconnect_debounce s = 29"
  shows "host_submitted (snd (gc_host_task s env)) = [gc_cleared_event]
     \<and> \<not> gc_was_connected (fst (gc_host_task s env))
     \<and> gc_disconnect_debounce (fst (gc_host_task s env)) = 0"
proof -
  obtain s1 a1 where f: "gc_feedback_step s env = (s1, a1)" by (cases "gc_feedback_step s env")
  note k = gc_feedback_step_keeps[OF f]
  show ?thesis
    using k assms(2,3,4)
    by (simp add: gc_task_absent[OF assms(1,2)] f gc_connection_step_def gc_absent_def Let_def
        host_submitted_append)
qed

lemma gc_run_append:
  "gc_run s (es @ fs) =
     (let (s', acts) = gc_run s es; (s'', acts') = gc_run s' fs in (s'', acts @ acts'))"
  by (induction es arbitrary: s) (simp_all add: split: prod.splits)

lemma gc_same_connection_trans:
  "gc_same_connection s s' \<Longrightarrow> gc_same_connection s' s'' \<Longrightarrow> gc_same_connection s s''"
  by (simp add: gc_same_connection_def)

lemma gc_absent_short_run:
  assumes "\<forall>e \<in> set es. gc_absent e"
  shows "gc_initialized s \<Longrightarrow> gc_was_connected s \<Longrightarrow>
     unat (gc_disconnect_debounce s) + length es < 30 \<Longrightarrow>
     host_submitted (snd (gc_run s es)) = []
     \<and> gc_same_connection s (fst (gc_run s es))
     \<and> unat (gc_disconnect_debounce (fst (gc_run s es)))
        = unat (gc_disconnect_debounce s) + length es"
  using assms
proof (induction es arbitrary: s)
  case Nil
  then show ?case by (simp add: gc_same_connection_def)
next
  case (Cons e es)
  obtain s' acts where t: "gc_host_task s e = (s', acts)" by (cases "gc_host_task s e")
  have st: "host_submitted acts = [] \<and> gc_same_connection s s'
      \<and> unat (gc_disconnect_debounce s') = unat (gc_disconnect_debounce s) + 1"
    using gc_absent_short_step[of s e] Cons.prems t by simp
  have ih: "host_submitted (snd (gc_run s' es)) = []
     \<and> gc_same_connection s' (fst (gc_run s' es))
     \<and> unat (gc_disconnect_debounce (fst (gc_run s' es)))
        = unat (gc_disconnect_debounce s') + length es"
    using Cons.IH[of s'] Cons.prems st by (simp add: gc_same_connection_def)
  show ?case
    using st ih gc_same_connection_trans[of s s' "fst (gc_run s' es)"]
    by (simp add: t host_submitted_append case_prod_beta)
qed

lemma gc_absent_30_run:
  assumes "gc_initialized s" "gc_was_connected s" "gc_disconnect_debounce s = 0"
    "\<forall>e \<in> set es. gc_absent e" "length es = 30"
  shows "host_submitted (snd (gc_run s es)) = [gc_cleared_event]
     \<and> \<not> gc_was_connected (fst (gc_run s es))
     \<and> gc_disconnect_debounce (fst (gc_run s es)) = 0"
proof -
  obtain fs e where es: "es = fs @ [e]" and l: "length fs = 29"
    using assms(5) by (cases es rule: rev_cases) auto
  have a: "\<forall>e \<in> set fs. gc_absent e" "gc_absent e" using assms(4) es by auto
  note r = gc_absent_short_run[OF a(1), of s]
  have r': "host_submitted (snd (gc_run s fs)) = []
     \<and> gc_same_connection s (fst (gc_run s fs))
     \<and> unat (gc_disconnect_debounce (fst (gc_run s fs))) = 29"
    using r assms(1,2,3) l by simp
  let ?s = "fst (gc_run s fs)"
  have d: "gc_disconnect_debounce ?s = 29"
    using r' by (simp add: word_unat_eq_iff)
  have i: "gc_initialized ?s" "gc_was_connected ?s"
    using r' assms(1,2) by (simp_all add: gc_same_connection_def)
  note t = gc_absent_30th_step[OF i(1) a(2) i(2) d]
  show ?thesis
    using t r' by (simp add: es gc_run_append case_prod_beta host_submitted_append)
qed

lemma gc_connected_step:
  assumes "gc_initialized s" "gc_is_connected env"
  shows "gc_disconnect_debounce (fst (gc_host_task s env)) = 0
     \<and> gc_was_connected (fst (gc_host_task s env))"
  using assms
  by (simp add: gc_host_task_def gc_connection_step_def gc_input_step_def Let_def case_prod_beta)

lemma cleared_events_neutral:
  "buttons n64_cleared_event = {} \<and> dev_addr n64_cleared_event = 0xE0
   \<and> ev_type n64_cleared_event = INPUT_TYPE_GAMEPAD
   \<and> analog n64_cleared_event ANALOG_LX = 128 \<and> analog n64_cleared_event ANALOG_LY = 128
   \<and> analog n64_cleared_event ANALOG_RX = 128 \<and> analog n64_cleared_event ANALOG_RY = 128
   \<and> buttons gc_cleared_event = {} \<and> dev_addr gc_cleared_event = 0xD0
   \<and> analog gc_cleared_event ANALOG_LX = 128 \<and> analog gc_cleared_event ANALOG_LY = 128
   \<and> analog gc_cleared_event ANALOG_RX = 128 \<and> analog gc_cleared_event ANALOG_RY = 128"
  by (simp add: n64_cleared_event_def gc_cleared_event_def)

lemma n64_connected_state_eq:
  "n64_connected_state =
     n64_host_init_pin\<lparr> n64_connected_polls := 2, n64_prev_buttons := {} \<rparr>"
  by (simp add: n64_connected_state_def n64_host_task_def n64_host_init_pin_def
      n64_poll_connected_def n64_feedback_step_def n64_connection_step_def n64_pak_step_def
      n64_input_step_def n64_host_flush_rumble_def map_n64_to_jp_def n64_report_at_rest_def
      btn_if_def map_c_buttons_to_analog_def Let_def)

lemma gc_connected_state_eq:
  "gc_connected_state = gc_host_init_pin\<lparr> gc_was_connected := True, gc_prev_buttons := {},
     gc_prev_stick_y := 127, gc_prev_cstick_y := 127 \<rparr>"
  by (simp add: gc_connected_state_def gc_host_task_def gc_host_init_pin_def
      gc_poll_connected_def gc_feedback_step_def gc_connection_step_def
      gc_input_step_def map_gc_to_jp_def gc_report_at_rest_def btn_if_def Let_def)

text \<open>
  C8: the N64 and GameCube host drivers declare a connected controller disconnected only after
  30 consecutive polls report it absent. From a connected state whose debounce counter is 0
  (every connected poll resets it to 0 and keeps the controller connected), a run of fewer than
  30 absent polls submits no event and leaves the connection state as it was; a run of exactly
  30 absent polls submits one event and marks the port disconnected. That event is the neutral
  one for the port: device address 0xE0 (N64) or 0xD0 (GameCube) plus the port number 0,
  instance 0, type gamepad, no buttons, all four stick axes 128 (and, for the GameCube, both
  triggers 0).
\<close>

theorem host_disconnect_debounce:
  "(n64_initialized s \<and> 0 < n64_connected_polls s \<and> n64_disconnect_debounce s = 0
      \<and> (\<forall>e \<in> set es. n64_absent e) \<longrightarrow>
       (length es < 30 \<longrightarrow> host_submitted (snd (n64_run s es)) = []
            \<and> n64_same_connection s (fst (n64_run s es))
            \<and> unat (n64_disconnect_debounce (fst (n64_run s es))) = length es)
     \<and> (length es = 30 \<longrightarrow> host_submitted (snd (n64_run s es)) = [n64_cleared_event]
            \<and> n64_connected_polls (fst (n64_run s es)) = 0
            \<and> n64_disconnect_debounce (fst (n64_run s es)) = 0))
   \<and> (n64_initialized s \<and> n64_is_connected env \<longrightarrow>
        n64_disconnect_debounce (fst (n64_host_task s env)) = 0
      \<and> 0 < n64_connected_polls (fst (n64_host_task s env)))
   \<and> (gc_initialized g \<and> gc_was_connected g \<and> gc_disconnect_debounce g = 0
      \<and> (\<forall>e \<in> set gs. gc_absent e) \<longrightarrow>
       (length gs < 30 \<longrightarrow> host_submitted (snd (gc_run g gs)) = []
            \<and> gc_same_connection g (fst (gc_run g gs))
            \<and> unat (gc_disconnect_debounce (fst (gc_run g gs))) = length gs)
     \<and> (length gs = 30 \<longrightarrow> host_submitted (snd (gc_run g gs)) = [gc_cleared_event]
            \<and> \<not> gc_was_connected (fst (gc_run g gs))
            \<and> gc_disconnect_debounce (fst (gc_run g gs)) = 0))
   \<and> (gc_initialized g \<and> gc_is_connected genv \<longrightarrow>
        gc_disconnect_debounce (fst (gc_host_task g genv)) = 0
      \<and> gc_was_connected (fst (gc_host_task g genv)))
   \<and> dev_addr n64_cleared_event = 0xE0 \<and> ev_instance n64_cleared_event = 0
   \<and> ev_type n64_cleared_event = INPUT_TYPE_GAMEPAD
   \<and> buttons n64_cleared_event = {}
   \<and> analog n64_cleared_event ANALOG_LX = 128 \<and> analog n64_cleared_event ANALOG_LY = 128
   \<and> analog n64_cleared_event ANALOG_RX = 128 \<and> analog n64_cleared_event ANALOG_RY = 128
   \<and> dev_addr gc_cleared_event = 0xD0 \<and> ev_instance gc_cleared_event = 0
   \<and> ev_type gc_cleared_event = INPUT_TYPE_GAMEPAD
   \<and> buttons gc_cleared_event = {}
   \<and> analog gc_cleared_event ANALOG_LX = 128 \<and> analog gc_cleared_event ANALOG_LY = 128
   \<and> analog gc_cleared_event ANALOG_RX = 128 \<and> analog gc_cleared_event ANALOG_RY = 128
   \<and> analog gc_cleared_event ANALOG_L2 = 0 \<and> analog gc_cleared_event ANALOG_R2 = 0"
proof -
  have n: "host_submitted (snd (n64_run s es)) = []
        \<and> n64_same_connection s (fst (n64_run s es))
        \<and> unat (n64_disconnect_debounce (fst (n64_run s es))) = length es"
    if "n64_initialized s" "0 < n64_connected_polls s" "n64_disconnect_debounce s = 0"
      "\<forall>e \<in> set es. n64_absent e" "length es < 30"
    using n64_absent_short_run[OF that(4), of s] that by simp
  have n30: "host_submitted (snd (n64_run s es)) = [n64_cleared_event]
        \<and> n64_connected_polls (fst (n64_run s es)) = 0
        \<and> n64_disconnect_debounce (fst (n64_run s es)) = 0"
    if "n64_initialized s" "0 < n64_connected_polls s" "n64_disconnect_debounce s = 0"
      "\<forall>e \<in> set es. n64_absent e" "length es = 30"
    using n64_absent_30_run[OF that] .
  have g: "host_submitted (snd (gc_run g gs)) = []
        \<and> gc_same_connection g (fst (gc_run g gs))
        \<and> unat (gc_disconnect_debounce (fst (gc_run g gs))) = length gs"
    if "gc_initialized g" "gc_was_connected g" "gc_disconnect_debounce g = 0"
      "\<forall>e \<in> set gs. gc_absent e" "length gs < 30"
    using gc_absent_short_run[OF that(4), of g] that by simp
  have g30: "host_submitted (snd (gc_run g gs)) = [gc_cleared_event]
        \<and> \<not> gc_was_connected (fst (gc_run g gs))
        \<and> gc_disconnect_debounce (fst (gc_run g gs)) = 0"
    if "gc_initialized g" "gc_was_connected g" "gc_disconnect_debounce g = 0"
      "\<forall>e \<in> set gs. gc_absent e" "length gs = 30"
    using gc_absent_30_run[OF that] .
  have A: "n64_initialized s \<and> 0 < n64_connected_polls s \<and> n64_disconnect_debounce s = 0
      \<and> (\<forall>e \<in> set es. n64_absent e) \<longrightarrow>
       (length es < 30 \<longrightarrow> host_submitted (snd (n64_run s es)) = []
            \<and> n64_same_connection s (fst (n64_run s es))
            \<and> unat (n64_disconnect_debounce (fst (n64_run s es))) = length es)
     \<and> (length es = 30 \<longrightarrow> host_submitted (snd (n64_run s es)) = [n64_cleared_event]
            \<and> n64_connected_polls (fst (n64_run s es)) = 0
            \<and> n64_disconnect_debounce (fst (n64_run s es)) = 0)"
    using n n30 by simp
  have B: "n64_initialized s \<and> n64_is_connected env \<longrightarrow>
        n64_disconnect_debounce (fst (n64_host_task s env)) = 0
      \<and> 0 < n64_connected_polls (fst (n64_host_task s env))"
    using n64_connected_step[of s env] by simp
  have C: "gc_initialized g \<and> gc_was_connected g \<and> gc_disconnect_debounce g = 0
      \<and> (\<forall>e \<in> set gs. gc_absent e) \<longrightarrow>
       (length gs < 30 \<longrightarrow> host_submitted (snd (gc_run g gs)) = []
            \<and> gc_same_connection g (fst (gc_run g gs))
            \<and> unat (gc_disconnect_debounce (fst (gc_run g gs))) = length gs)
     \<and> (length gs = 30 \<longrightarrow> host_submitted (snd (gc_run g gs)) = [gc_cleared_event]
            \<and> \<not> gc_was_connected (fst (gc_run g gs))
            \<and> gc_disconnect_debounce (fst (gc_run g gs)) = 0)"
    using g g30 by simp
  have D: "gc_initialized g \<and> gc_is_connected genv \<longrightarrow>
        gc_disconnect_debounce (fst (gc_host_task g genv)) = 0
      \<and> gc_was_connected (fst (gc_host_task g genv))"
    using gc_connected_step[of g genv] by simp
  have E: "dev_addr n64_cleared_event = 0xE0 \<and> ev_instance n64_cleared_event = 0
   \<and> ev_type n64_cleared_event = INPUT_TYPE_GAMEPAD
   \<and> buttons n64_cleared_event = {}
   \<and> analog n64_cleared_event ANALOG_LX = 128 \<and> analog n64_cleared_event ANALOG_LY = 128
   \<and> analog n64_cleared_event ANALOG_RX = 128 \<and> analog n64_cleared_event ANALOG_RY = 128
   \<and> dev_addr gc_cleared_event = 0xD0 \<and> ev_instance gc_cleared_event = 0
   \<and> ev_type gc_cleared_event = INPUT_TYPE_GAMEPAD
   \<and> buttons gc_cleared_event = {}
   \<and> analog gc_cleared_event ANALOG_LX = 128 \<and> analog gc_cleared_event ANALOG_LY = 128
   \<and> analog gc_cleared_event ANALOG_RX = 128 \<and> analog gc_cleared_event ANALOG_RY = 128
   \<and> analog gc_cleared_event ANALOG_L2 = 0 \<and> analog gc_cleared_event ANALOG_R2 = 0"
    by (simp add: n64_cleared_event_def gc_cleared_event_def)
  show ?thesis
    by (rule conjI[OF A conjI[OF B conjI[OF C conjI[OF D E]]]])
qed

theorem host_disconnect_debounce_witness:
  "host_submitted (snd (n64_run n64_connected_state (replicate 29 n64_poll_absent))) = []
   \<and> n64_connected_polls (fst (n64_run n64_connected_state (replicate 29 n64_poll_absent))) = 2
   \<and> host_submitted (snd (n64_run n64_connected_state (replicate 30 n64_poll_absent)))
       = [n64_cleared_event]
   \<and> map dev_addr (host_submitted (snd (n64_run n64_connected_state
        (replicate 30 n64_poll_absent)))) = [0xE0]
   \<and> map ev_type (host_submitted (snd (n64_run n64_connected_state
        (replicate 30 n64_poll_absent)))) = [INPUT_TYPE_GAMEPAD]
   \<and> map buttons (host_submitted (snd (n64_run n64_connected_state
        (replicate 30 n64_poll_absent)))) = [{}]
   \<and> map (\<lambda>e. analog e ANALOG_LX) (host_submitted (snd (n64_run n64_connected_state
        (replicate 30 n64_poll_absent)))) = [128]
   \<and> n64_connected_polls (fst (n64_run n64_connected_state (replicate 30 n64_poll_absent))) = 0
   \<and> n64_disconnect_debounce (fst (n64_host_task
        (fst (n64_run n64_connected_state (replicate 29 n64_poll_absent))) n64_poll_connected)) = 0
   \<and> host_submitted (snd (gc_run gc_connected_state (replicate 29 gc_poll_absent))) = []
   \<and> gc_was_connected (fst (gc_run gc_connected_state (replicate 29 gc_poll_absent)))
   \<and> host_submitted (snd (gc_run gc_connected_state (replicate 30 gc_poll_absent)))
       = [gc_cleared_event]
   \<and> \<not> gc_was_connected (fst (gc_run gc_connected_state (replicate 30 gc_poll_absent)))
   \<and> gc_disconnect_debounce (fst (gc_host_task
        (fst (gc_run gc_connected_state (replicate 29 gc_poll_absent))) gc_poll_connected)) = 0"
proof -
  have hn: "n64_initialized n64_connected_state \<and> 0 < n64_connected_polls n64_connected_state
      \<and> n64_disconnect_debounce n64_connected_state = 0
      \<and> n64_connected_polls n64_connected_state = 2"
    by (simp add: n64_connected_state_eq n64_host_init_pin_def)
  have hg: "gc_initialized gc_connected_state \<and> gc_was_connected gc_connected_state
      \<and> gc_disconnect_debounce gc_connected_state = 0"
    by (simp add: gc_connected_state_eq gc_host_init_pin_def)
  have an: "\<forall>e \<in> set (replicate k n64_poll_absent). n64_absent e" for k
    by (simp add: n64_absent_def n64_poll_absent_def)
  have ag: "\<forall>e \<in> set (replicate k gc_poll_absent). gc_absent e" for k
    by (simp add: gc_absent_def gc_poll_absent_def)
  have cn: "n64_is_connected n64_poll_connected" by (simp add: n64_poll_connected_def)
  have cg: "gc_is_connected gc_poll_connected" by (simp add: gc_poll_connected_def)
  note t29 = host_disconnect_debounce[of n64_connected_state "replicate 29 n64_poll_absent"
      n64_poll_connected gc_connected_state "replicate 29 gc_poll_absent" gc_poll_connected]
  note t30 = host_disconnect_debounce[of n64_connected_state "replicate 30 n64_poll_absent"
      n64_poll_connected gc_connected_state "replicate 30 gc_poll_absent" gc_poll_connected]
  note t = host_disconnect_debounce[of
      "fst (n64_run n64_connected_state (replicate 29 n64_poll_absent))" "[]" n64_poll_connected
      "fst (gc_run gc_connected_state (replicate 29 gc_poll_absent))" "[]" gc_poll_connected]
  have s29: "host_submitted (snd (n64_run n64_connected_state (replicate 29 n64_poll_absent))) = []
      \<and> n64_same_connection n64_connected_state
          (fst (n64_run n64_connected_state (replicate 29 n64_poll_absent)))
      \<and> host_submitted (snd (gc_run gc_connected_state (replicate 29 gc_poll_absent))) = []
      \<and> gc_same_connection gc_connected_state
          (fst (gc_run gc_connected_state (replicate 29 gc_poll_absent)))"
    using t29 hn hg an[of 29] ag[of 29] by simp
  have s30: "host_submitted (snd (n64_run n64_connected_state (replicate 30 n64_poll_absent)))
        = [n64_cleared_event]
      \<and> n64_connected_polls (fst (n64_run n64_connected_state (replicate 30 n64_poll_absent))) = 0
      \<and> host_submitted (snd (gc_run gc_connected_state (replicate 30 gc_poll_absent)))
        = [gc_cleared_event]
      \<and> \<not> gc_was_connected (fst (gc_run gc_connected_state (replicate 30 gc_poll_absent)))
      \<and> dev_addr n64_cleared_event = 0xE0 \<and> ev_type n64_cleared_event = INPUT_TYPE_GAMEPAD
      \<and> buttons n64_cleared_event = {} \<and> analog n64_cleared_event ANALOG_LX = 128"
    using t30 hn hg an[of 30] ag[of 30] by simp
  have i: "n64_initialized (fst (n64_run n64_connected_state (replicate 29 n64_poll_absent)))"
      "gc_initialized (fst (gc_run gc_connected_state (replicate 29 gc_poll_absent)))"
      "n64_connected_polls (fst (n64_run n64_connected_state (replicate 29 n64_poll_absent))) = 2"
      "gc_was_connected (fst (gc_run gc_connected_state (replicate 29 gc_poll_absent)))"
    using s29 hn hg by (simp_all add: n64_same_connection_def gc_same_connection_def)
  have r: "n64_disconnect_debounce (fst (n64_host_task
        (fst (n64_run n64_connected_state (replicate 29 n64_poll_absent))) n64_poll_connected)) = 0
      \<and> gc_disconnect_debounce (fst (gc_host_task
        (fst (gc_run gc_connected_state (replicate 29 gc_poll_absent))) gc_poll_connected)) = 0"
    using t i cn cg by simp
  show ?thesis using s29 s30 i r by simp
qed

section \<open>Hotkey detection\<close>





lemma hotkeys_check_one_held_buttons:
  "held_buttons (fst (hotkeys_check_one hotkey j now btns player st)) = held_buttons st"
  by (simp add: hotkeys_check_one_def Let_def)




lemma hotkeys_check_loop_held_buttons:
  "held_buttons (fst (hotkeys_check_loop hks act now btns player js st)) = held_buttons st"
  by (induction js arbitrary: st)
    (simp_all add: case_prod_beta hotkeys_check_one_held_buttons)








subsection \<open>Global hotkeys\<close>










end
